(* ===== verification/Prelude.thy ===== *)
theory Prelude
  imports Complex_Main "HOL-Library.List_Lexorder" "HOL-Library.Char_ord"
begin

text \<open>
  Shared vocabulary of the development. The program keeps all of its state in a
  Firestore database: named collections of documents keyed by a string id. A
  collection is modelled as an association list kept strictly sorted by key, because
  a Firestore query returns its documents in ascending id order and the
  Nearest-Match Assigner's tie-break (first seen wins) depends on that order.
  The three document writes the code uses are \<open>coll_set\<close> (\<open>doc.set\<close>,
  create or overwrite), \<open>coll_update\<close> (\<open>doc.update\<close>, which fails with
  NOT_FOUND on a missing document) and \<open>coll_delete\<close> (\<open>doc.delete\<close>); a
  query \<open>where(field, ==, v)\<close> is \<open>coll_where\<close>. The lemmas below show that
  these operations refine finite maps (\<open>map_of\<close>) and keep the collection sorted;
  the component theories reason through them only.
  Also here: the error kinds of the program, the JavaScript truthiness helpers used
  by its input checks, and the time unit (milliseconds, as \<open>Timestamp.toMillis\<close>).
\<close>

named_theorems coll_simps "rewrite rules of the document-store model"
named_theorems coll_wf_intros "preservation of sorted collections"

type_synonym docid = string
type_synonym time = int

type_synonym ('k, 'v) coll = "('k \<times> 'v) list"

text \<open>
  Error kinds. Every \<open>throw\<close> of the sources is one of them: a missing or
  malformed input (\<open>ValidationError\<close>), a Firestore \<open>update\<close> or an explicit
  lookup on a missing document (\<open>NotFoundError\<close>), the OTP gate's
  \<open>resource-exhausted\<close> and \<open>permission-denied\<close> denials, its
  \<open>Invalid or expired OTP\<close> failure, and a failing external service
  (\<open>InternalError\<close>: the e-mail channel).
\<close>

datatype error =
    ValidationError
  | NotFoundError
  | RateLimitExceeded
  | AccountLocked
  | InvalidOrExpiredOTP
  | InternalError

text \<open>
  An operation that can throw returns its outcome together with the state: the
  writes it made before the throw stay in the database, as they do in Firestore.
\<close>

type_synonym ('a, 's) result = "(error + 'a) \<times> 's"

subsection \<open>Collections\<close>

definition coll_wf :: "('k::linorder, 'v) coll \<Rightarrow> bool" where
  "coll_wf c \<longleftrightarrow> sorted_wrt (<) (map fst c)"

fun coll_set :: "('k::linorder, 'v) coll \<Rightarrow> 'k \<Rightarrow> 'v \<Rightarrow> ('k, 'v) coll" where
  "coll_set [] k v = [(k, v)]"
| "coll_set ((k', v') # c) k v =
     (if k = k' then (k, v) # c
      else if k < k' then (k, v) # (k', v') # c
      else (k', v') # coll_set c k v)"

fun coll_update :: "('k, 'v) coll \<Rightarrow> 'k \<Rightarrow> ('v \<Rightarrow> 'v) \<Rightarrow> ('k, 'v) coll option" where
  "coll_update [] k f = None"
| "coll_update ((k', v) # c) k f =
     (if k = k' then Some ((k', f v) # c)
      else map_option (Cons (k', v)) (coll_update c k f))"

definition coll_delete :: "('k, 'v) coll \<Rightarrow> 'k \<Rightarrow> ('k, 'v) coll" where
  "coll_delete c k = filter (\<lambda>kv. fst kv \<noteq> k) c"

definition coll_where :: "('v \<Rightarrow> bool) \<Rightarrow> ('k, 'v) coll \<Rightarrow> ('k, 'v) coll" where
  "coll_where P c = filter (\<lambda>kv. P (snd kv)) c"

text \<open>A collection with every document transformed, keys kept.\<close>

definition map_values :: "('v \<Rightarrow> 'w) \<Rightarrow> ('k, 'v) coll \<Rightarrow> ('k, 'w) coll" where
  "map_values f c = map (\<lambda>(k, v). (k, f v)) c"

subsection \<open>JavaScript truthiness of optional inputs\<close>

text \<open>
  A request field is absent (\<open>None\<close>) or a value. \<open>!x\<close> on a string is true for
  an absent field and for the empty string; \<open>x || d\<close> picks the default in the
  same cases.
\<close>

definition truthy_str :: "string option \<Rightarrow> bool" where
  "truthy_str x = (case x of None \<Rightarrow> False | Some s \<Rightarrow> s \<noteq> [])"

definition str_or :: "string option \<Rightarrow> string \<Rightarrow> string" where
  "str_or x d = (case x of Some s \<Rightarrow> if s = [] then d else s | None \<Rightarrow> d)"

subsection \<open>Lemmas on the store model\<close>

lemma map_of_coll_set [simp, coll_simps]:
  "map_of (coll_set c k v) = (map_of c)(k \<mapsto> v)"
  by (induction c k v rule: coll_set.induct) (auto simp: fun_eq_iff)

lemma set_map_fst_coll_set:
  "set (map fst (coll_set c k v)) = insert k (set (map fst c))"
  by (induction c k v rule: coll_set.induct) auto

lemma coll_wf_Nil [simp, coll_wf_intros]: "coll_wf []"
  by (simp add: coll_wf_def)

lemma coll_wf_Cons:
  "coll_wf ((k, v) # c) \<longleftrightarrow> (\<forall>k' \<in> fst ` set c. k < k') \<and> coll_wf c"
  by (auto simp: coll_wf_def)

lemma coll_wf_set [coll_wf_intros]: "coll_wf c \<Longrightarrow> coll_wf (coll_set c k v)"
proof (induction c k v rule: coll_set.induct)
  case (1 k v)
  then show ?case by (simp add: coll_wf_def)
next
  case (2 k' v' c k v)
  have ih: "k' < k \<Longrightarrow> coll_wf (coll_set c k v)"
    using 2 by (simp add: coll_wf_Cons)
  have keys: "fst ` set (coll_set c k v) = insert k (fst ` set c)"
    using set_map_fst_coll_set [of c k v] by simp
  show ?case
    using "2.prems" ih keys by (auto simp: coll_wf_Cons)
qed

lemma coll_update_None_iff [coll_simps]:
  "coll_update c k f = None \<longleftrightarrow> map_of c k = None"
  by (induction c k f rule: coll_update.induct) auto

lemma coll_update_Some_map_of:
  "coll_update c k f = Some c' \<Longrightarrow> map_of c' = (map_of c)(k := map_option f (map_of c k))"
  by (induction c k f arbitrary: c' rule: coll_update.induct)
     (auto simp: fun_eq_iff split: if_splits)

lemma coll_update_Some_keys:
  "coll_update c k f = Some c' \<Longrightarrow> map fst c' = map fst c"
  by (induction c k f arbitrary: c' rule: coll_update.induct) (auto split: if_splits)

lemma coll_update_wf [coll_wf_intros]:
  "coll_update c k f = Some c' \<Longrightarrow> coll_wf c \<Longrightarrow> coll_wf c'"
  by (simp add: coll_wf_def coll_update_Some_keys)

lemma coll_update_exists:
  "map_of c k = Some v \<Longrightarrow> \<exists>c'. coll_update c k f = Some c'"
  using coll_update_None_iff [of c k f] by fastforce

lemma coll_update_found:
  assumes "map_of c k = Some v"
  shows "\<exists>c'. coll_update c k f = Some c' \<and> map_of c' = (map_of c)(k \<mapsto> f v) \<and>
           map fst c' = map fst c"
proof -
  obtain c' where c': "coll_update c k f = Some c'"
    using coll_update_exists [OF assms] by blast
  have "map_of c' = (map_of c)(k \<mapsto> f v)"
    using coll_update_Some_map_of [OF c'] assms by simp
  with c' coll_update_Some_keys [OF c'] show ?thesis by blast
qed

lemma map_of_coll_delete [simp, coll_simps]:
  "map_of (coll_delete c k) = (map_of c)(k := None)"
  by (induction c) (auto simp: coll_delete_def fun_eq_iff)

lemma coll_wf_delete [coll_wf_intros]: "coll_wf c \<Longrightarrow> coll_wf (coll_delete c k)"
  by (induction c) (auto simp: coll_delete_def coll_wf_Cons)

lemma coll_wf_distinct: "coll_wf c \<Longrightarrow> distinct (map fst c)"
  by (simp add: coll_wf_def strict_sorted_iff)

lemma coll_where_mem [coll_simps]:
  "(k, v) \<in> set (coll_where P c) \<longleftrightarrow> (k, v) \<in> set c \<and> P v"
  by (auto simp: coll_where_def)

lemma coll_eqI:
  "map fst xs = map fst ys \<Longrightarrow> distinct (map fst xs) \<Longrightarrow> map_of xs = map_of ys \<Longrightarrow> xs = ys"
proof (induction xs arbitrary: ys)
  case Nil
  then show ?case by simp
next
  case (Cons x xs)
  then obtain y ys' where ys: "ys = y # ys'" and k: "fst y = fst x" by (cases ys) auto
  have "map_of xs = map_of ys'"
  proof
    fix k'
    show "map_of xs k' = map_of ys' k'"
    proof (cases "k' = fst x")
      case True
      have "fst x \<notin> set (map fst xs)" using Cons.prems(2) by simp
      moreover have "map fst xs = map fst ys'" using Cons.prems(1) ys by simp
      ultimately have "k' \<notin> fst ` set xs" "k' \<notin> fst ` set ys'"
        using True by (simp_all, metis set_map)
      then show ?thesis by (simp add: map_of_eq_None_iff [symmetric])
    next
      case False
      then show ?thesis
        using fun_cong [OF Cons.prems(3), of k'] ys k by (cases x, cases y) auto
    qed
  qed
  moreover have "snd x = snd y"
    using fun_cong [OF Cons.prems(3), of "fst x"] ys k by (cases x, cases y) auto
  ultimately show ?case
    using Cons ys k by (cases x, cases y) auto
qed

lemma coll_wf_map_of_iff:
  "coll_wf c \<Longrightarrow> map_of c k = Some v \<longleftrightarrow> (k, v) \<in> set c"
  by (simp add: coll_wf_distinct)

lemma coll_update_idem:
  "(\<And>v. f (f v) = f v) \<Longrightarrow> coll_update c k f = Some c' \<Longrightarrow> coll_update c' k f = Some c'"
  by (induction c arbitrary: c') (auto split: if_splits)

lemma coll_where_head:
  assumes "coll_wf c" and "coll_where P c = (k, v) # rest"
  shows "map_of c k = Some v \<and> P v \<and> (\<forall>k' v'. map_of c k' = Some v' \<and> P v' \<longrightarrow> k \<le> k')"
proof -
  have hd: "(k, v) \<in> set (coll_where P c)" using assms(2) by simp
  have sw: "coll_wf ((k, v) # rest)"
    using assms by (metis coll_where_def coll_wf_def sorted_wrt_filter sorted_wrt_map)
  have "k \<le> k'" if "map_of c k' = Some v'" "P v'" for k' v'
  proof -
    have "(k', v') \<in> set ((k, v) # rest)"
      using that assms coll_where_mem [of k' v' P c] coll_wf_map_of_iff [OF assms(1)] by simp
    then show ?thesis using sw by (auto simp: coll_wf_def)
  qed
  then show ?thesis using hd coll_where_mem [of k v P c] coll_wf_map_of_iff [OF assms(1)] by auto
qed

lemma coll_where_set_single:
  "coll_where P c = [] \<Longrightarrow> P v \<Longrightarrow> coll_where P (coll_set c k v) = [(k, v)]"
  by (induction c k v rule: coll_set.induct) (auto simp: coll_where_def)

lemma map_values_coll_set [simp, coll_simps]:
  "map_values f (coll_set c k v) = coll_set (map_values f c) k (f v)"
  by (induction c k v rule: coll_set.induct) (auto simp: map_values_def)

end
