(* ===== verification/Data.thy ===== *)
theory Data
  imports Prelude
begin

text \<open>
  The documents of the dispatch side of the program, field by field as
  \<open>src/functions/index.js\<close> and the responder screens write them, and the database
  that holds them. A field the code may leave unset is an \<open>option\<close>; a field the
  code always writes is a plain value. Server timestamps are the time argument of
  the operation that writes them.
\<close>

text \<open>
  Responder status: the only values written to \<open>responders/{id}.status\<close>
  (\<open>"active"\<close>, \<open>"busy"\<close>, \<open>"inactive"\<close>). A document created by the profile
  screen has no status field at all, hence \<open>status :: rstatus option\<close>.
\<close>

datatype rstatus = Active | Busy | Inactive

record geo =
  lat :: real
  lng :: real

text \<open>
  The profile fields of a responder document, written by the profile screen
  (\<open>src/Screens/Responders/profile.js\<close>): \<open>name\<close>, \<open>phoneNumber\<close>,
  \<open>station\<close>, \<open>responderType\<close>, \<open>notifications\<close>, \<open>profileImage\<close>.
\<close>

record profile_info =
  p_name :: string
  p_phoneNumber :: string
  p_station :: string
  p_responderType :: string
  p_notifications :: bool
  p_profileImage :: "string option"

text \<open>
  A responder document (\<open>responders/{uid}\<close>). \<open>currentLocation\<close> is
  \<open>{lat, lng, updatedAt}\<close>, written by the heartbeat; \<open>lastKnownLocation\<close>
  comes from the preloaded data and is the assigner's fallback; \<open>rprofile\<close> holds
  the profile fields, absent on a preloaded document.
\<close>

record responder =
  status :: "rstatus option"
  currentLocation :: "(geo \<times> time) option"
  lastKnownLocation :: "geo option"
  lastHeartbeat :: "time option"
  lastActiveAt :: "time option"
  lastInactiveAt :: "time option"
  assignedEmergency :: "docid option"
  expoPushToken :: "string option"
  rprofile :: "profile_info option"

text \<open>Report location as sent by the client: \<open>{lat, lng, readableAddress?}\<close>.\<close>

record report_location = geo +
  readableAddress :: "string option"

text \<open>
  The request of \<open>createEmergencyReport\<close> (\<open>request.data\<close>). \<open>additionalInfo\<close>
  is an opaque object that is copied unchanged and is not modelled.
\<close>

record report_request =
  req_type :: "string option"
  req_location :: "report_location option"
  req_details :: "string option"
  req_notes :: "string option"
  req_urgency :: "string option"
  req_contactMethod :: "string option"
  req_createdByUID :: "string option"
  req_displayCode :: "string option"

text \<open>An emergency report document (\<open>emergencies/{id}\<close>, the \<open>newReport\<close> object).\<close>

datatype report_status = RepPending | RepCompleted

record report =
  e_type :: string
  e_location :: report_location
  e_details :: string
  e_notes :: string
  e_urgency :: string
  e_contactMethod :: string
  e_createdByUID :: string
  e_displayCode :: string
  e_createdAt :: time
  e_status :: report_status
  e_completedAt :: "time option"

text \<open>A department copy (\<open>departments/{clinic,fireDept}/emergencies/{id}\<close>): the report and \<open>routedAt\<close>.\<close>

type_synonym dept_entry = "report \<times> time"

text \<open>
  Alert status: the values written to \<open>responders_alerts/{id}.status\<close> by the
  code (\<open>"pending"\<close> on creation, \<open>"accepted"\<close> and \<open>"declined"\<close> by the
  responder screen). No code writes another value.
\<close>

datatype alert_status = Pending | Accepted | Declined

text \<open>A dispatch alert (\<open>responders_alerts/{reportId}\<close>).\<close>

record alert =
  a_emergencyId :: docid
  a_type :: string
  a_details :: string
  a_urgency :: string
  a_createdByUID :: string
  a_displayCode :: string
  a_location :: geo
  a_readableAddress :: string
  a_assignedResponder :: "docid option"
  a_status :: alert_status
  a_routedAt :: time
  a_acceptedAt :: "time option"
  a_declinedAt :: "time option"
  a_responderUID :: "docid option"

text \<open>A push message handed to FCM (\<open>admin.messaging().send\<close>).\<close>

record push_msg =
  push_token :: string
  push_alertId :: docid

text \<open>
  The dispatch database: the collections the dispatch code reads and writes, and the
  log of push messages attempted (FCM is an external side effect whose failure the
  code swallows).
\<close>

record db =
  emergencies :: "(docid, report) coll"
  responders :: "(docid, responder) coll"
  responders_alerts :: "(docid, alert) coll"
  clinic :: "(docid, dept_entry) coll"
  fireDept :: "(docid, dept_entry) coll"
  pushes :: "push_msg list"

text \<open>Well-formedness of the store: every collection sorted by id.\<close>

definition db_wf :: "db \<Rightarrow> bool" where
  "db_wf s \<longleftrightarrow> coll_wf (emergencies s) \<and> coll_wf (responders s) \<and>
     coll_wf (responders_alerts s) \<and> coll_wf (clinic s) \<and> coll_wf (fireDept s)"

text \<open>
  \<open>responders/{uid}.update(...)\<close> as a state transformer: NOT_FOUND when the
  document is missing, else the document rewritten by \<open>f\<close>.
\<close>

definition update_responder :: "docid \<Rightarrow> (responder \<Rightarrow> responder) \<Rightarrow> db \<Rightarrow> (unit, db) result" where
  "update_responder uid f s =
     (case coll_update (responders s) uid f of
        None \<Rightarrow> (Inl NotFoundError, s)
      | Some c \<Rightarrow> (Inr (), s\<lparr>responders := c\<rparr>))"

definition update_alert :: "docid \<Rightarrow> (alert \<Rightarrow> alert) \<Rightarrow> db \<Rightarrow> (unit, db) result" where
  "update_alert aid f s =
     (case coll_update (responders_alerts s) aid f of
        None \<Rightarrow> (Inl NotFoundError, s)
      | Some c \<Rightarrow> (Inr (), s\<lparr>responders_alerts := c\<rparr>))"

definition update_emergency :: "docid \<Rightarrow> (report \<Rightarrow> report) \<Rightarrow> db \<Rightarrow> (unit, db) result" where
  "update_emergency eid f s =
     (case coll_update (emergencies s) eid f of
        None \<Rightarrow> (Inl NotFoundError, s)
      | Some c \<Rightarrow> (Inr (), s\<lparr>emergencies := c\<rparr>))"

lemma update_responder_Inr:
  "map_of (responders s) uid = Some r \<Longrightarrow>
   \<exists>c. update_responder uid f s = (Inr (), s\<lparr>responders := c\<rparr>) \<and>
       map_of c = (map_of (responders s))(uid \<mapsto> f r) \<and> map fst c = map fst (responders s)"
  using coll_update_found [of "responders s" uid r f] by (auto simp: update_responder_def)

lemma update_responder_missing:
  "map_of (responders s) uid = None \<Longrightarrow> update_responder uid f s = (Inl NotFoundError, s)"
  by (simp add: update_responder_def coll_update_None_iff [THEN iffD2])

lemma update_alert_Inr:
  "map_of (responders_alerts s) aid = Some a \<Longrightarrow>
   \<exists>c. update_alert aid f s = (Inr (), s\<lparr>responders_alerts := c\<rparr>) \<and>
       map_of c = (map_of (responders_alerts s))(aid \<mapsto> f a) \<and>
       map fst c = map fst (responders_alerts s)"
  using coll_update_found [of "responders_alerts s" aid a f] by (auto simp: update_alert_def)

lemma update_alert_missing:
  "map_of (responders_alerts s) aid = None \<Longrightarrow> update_alert aid f s = (Inl NotFoundError, s)"
  by (simp add: update_alert_def coll_update_None_iff [THEN iffD2])

lemma update_emergency_Inr:
  "map_of (emergencies s) eid = Some e \<Longrightarrow>
   \<exists>c. update_emergency eid f s = (Inr (), s\<lparr>emergencies := c\<rparr>) \<and>
       map_of c = (map_of (emergencies s))(eid \<mapsto> f e) \<and>
       map fst c = map fst (emergencies s)"
  using coll_update_found [of "emergencies s" eid e f] by (auto simp: update_emergency_def)

lemma update_emergency_missing:
  "map_of (emergencies s) eid = None \<Longrightarrow> update_emergency eid f s = (Inl NotFoundError, s)"
  by (simp add: update_emergency_def coll_update_None_iff [THEN iffD2])

lemma dom_update_responder [simp]:
  "dom (map_of (responders (snd (update_responder uid f s)))) = dom (map_of (responders s))"
proof (cases "map_of (responders s) uid")
  case None then show ?thesis by (simp add: update_responder_missing)
next
  case (Some r) then show ?thesis using update_responder_Inr [OF Some, of f] by (auto split: if_splits)
qed

lemma update_responder_idem:
  assumes "\<And>r. f (f r) = f r"
  shows "snd (update_responder uid f (snd (update_responder uid f s))) = snd (update_responder uid f s)"
  using coll_update_idem [of f "responders s" uid, OF assms]
  by (auto simp: update_responder_def split: option.splits)

lemma db_wf_update_responder [intro]: "db_wf s \<Longrightarrow> db_wf (snd (update_responder uid f s))"
  by (auto simp: update_responder_def db_wf_def intro: coll_update_wf split: option.splits)

lemma db_wf_update_emergency [intro]: "db_wf s \<Longrightarrow> db_wf (snd (update_emergency eid f s))"
  by (auto simp: update_emergency_def db_wf_def intro: coll_update_wf split: option.splits)

lemma db_wf_update_responder_eq: "update_responder uid f s = (x, s') \<Longrightarrow> db_wf s \<Longrightarrow> db_wf s'"
  using db_wf_update_responder [of s uid f] by simp

lemma update_responder_alerts [simp]:
  "responders_alerts (snd (update_responder uid f s)) = responders_alerts s"
  by (simp add: update_responder_def split: option.splits)

end
