(* ===== verification/Geo.thy ===== *)
theory Geo
  imports Prelude
begin

text \<open>
  Great-circle distance of \<open>src/functions/index.js\<close> (\<open>getDistance\<close>, lines 44-54):
  the haversine formula with Earth radius 6 371 000 m. JavaScript numbers are
  modelled as real numbers and \<open>Math.PI\<close> as \<open>pi\<close>; \<open>js_atan2\<close> is
  ECMAScript's \<open>Math.atan2\<close> on finite arguments (the signed-zero distinctions
  of the standard do not arise here, where both arguments are square roots).
  Floating-point rounding is not modelled. Two facts about the formula are
  proved: a point is at distance 0 from itself, and two distinct points on one
  meridian are at positive distance. The reverse geocoding helper of
  \<open>src/utils/geocoding.js\<close> is here too.
\<close>

text \<open>
  The reverse geocoding helper \<open>getReadableLocation\<close> of
  \<open>src/utils/geocoding.js\<close> (lines 12-27): the geocoder's reply is an argument, the
  list of its results' \<open>formatted_address\<close> fields (\<open>None\<close> for a missing or empty
  one), or \<open>None\<close> when the call throws.
\<close>

definition getReadableLocation :: "string option list option \<Rightarrow> string" where
  "getReadableLocation response =
     (case response of
        Some (Some addr # _) \<Rightarrow> if addr \<noteq> [] then addr else ''Unknown location''
      | _ \<Rightarrow> ''Unknown location'')"

definition toRad :: "real \<Rightarrow> real" where
  "toRad v = v * pi / 180"

definition js_atan2 :: "real \<Rightarrow> real \<Rightarrow> real" where
  "js_atan2 y x =
     (if 0 < x then arctan (y / x)
      else if x < 0 then (if 0 \<le> y then arctan (y / x) + pi else arctan (y / x) - pi)
      else if 0 < y then pi / 2
      else if y < 0 then - (pi / 2)
      else 0)"

definition getDistance :: "real \<Rightarrow> real \<Rightarrow> real \<Rightarrow> real \<Rightarrow> real" where
  "getDistance lat1 lng1 lat2 lng2 =
     (let R = 6371000;
          dLat = toRad (lat2 - lat1);
          dLng = toRad (lng2 - lng1);
          a = sin (dLat / 2) ^ 2 + cos (toRad lat1) * cos (toRad lat2) * sin (dLng / 2) ^ 2;
          c = 2 * js_atan2 (sqrt a) (sqrt (1 - a))
      in R * c)"

lemma getDistance_self: "getDistance la lo la lo = 0"
  by (simp add: getDistance_def toRad_def js_atan2_def)

lemma getDistance_meridian_pos:
  assumes "lat1 \<noteq> lat2" and "\<bar>lat2 - lat1\<bar> < 180"
  shows "0 < getDistance lat1 lo lat2 lo"
proof -
  define x where "x = toRad (lat2 - lat1) / 2"
  have x: "x = (lat2 - lat1) * (pi / 360)"
    by (simp add: x_def toRad_def)
  have "\<bar>lat2 - lat1\<bar> * (pi / 360) < 180 * (pi / 360)"
    using assms(2) pi_gt_zero by (intro mult_strict_right_mono) auto
  then have "\<bar>x\<bar> < pi / 2"
    by (simp add: x abs_mult)
  moreover have "x \<noteq> 0"
    using assms(1) pi_gt_zero by (simp add: x)
  ultimately have xb: "- (pi / 2) < x" "x < pi / 2" "x \<noteq> 0"
    by auto
  have "sin x \<noteq> 0"
    using xb sin_eq_0_pi [of x] by auto
  then have a: "0 < sin x ^ 2" by simp
  have "0 < cos x" using xb by (intro cos_gt_zero_pi) auto
  then have b: "0 < 1 - sin x ^ 2" using sin_squared_eq [of x] by simp
  have a_eq: "sin (toRad (lat2 - lat1) / 2) ^ 2 +
      cos (toRad lat1) * cos (toRad lat2) * sin (toRad (lo - lo) / 2) ^ 2 = sin x ^ 2"
    by (simp add: x_def toRad_def)
  have "0 < js_atan2 (sqrt (sin x ^ 2)) (sqrt (1 - sin x ^ 2))"
    using a b by (simp add: js_atan2_def zero_less_arctan_iff)
  then show ?thesis
    unfolding getDistance_def Let_def a_eq by simp
qed

lemma getReadableLocation_total:
  "getReadableLocation r \<noteq> [] \<and>
   (getReadableLocation r = ''Unknown location'' \<or> (\<exists>rest. r = Some (Some (getReadableLocation r) # rest)))"
  by (auto simp: getReadableLocation_def split: option.splits list.splits)

end
