(* ===== verification/Assigner.thy ===== *)
theory Assigner
  imports Data Geo
begin

text \<open>
  The Nearest-Match Assigner, \<open>assignNearestResponder\<close> of
  \<open>src/functions/index.js\<close> (lines 57-90). It queries the responders whose
  status is \<open>"active"\<close> (in document-id order), scans them keeping the first
  one of strictly smallest haversine distance (\<open>dist < minDistance\<close>, with
  \<open>minDistance\<close> starting at \<open>Infinity\<close>, modelled as \<open>None\<close>), skips a
  responder without a location, and marks the chosen one busy with the report id.
  The code is a read (query and scan) followed by a separate write; the two phases
  are \<open>assign_read\<close> and \<open>assign_write\<close>, so that the System theory can
  interleave them. The main lemma, \<open>nearest_scan_split\<close>, characterises the scan
  completely: the chosen candidate splits the list into strictly farther
  candidates before it and no nearer candidate after it.
\<close>

definition loc_of :: "responder \<Rightarrow> geo option" where
  "loc_of r = (case currentLocation r of Some (g, _) \<Rightarrow> Some g | None \<Rightarrow> lastKnownLocation r)"

definition dist_to :: "'a geo_scheme \<Rightarrow> geo \<Rightarrow> real" where
  "dist_to e g = getDistance (lat e) (lng e) (lat g) (lng g)"

fun nearest_scan ::
  "(geo \<Rightarrow> real) \<Rightarrow> (docid \<times> responder) list \<Rightarrow> (docid \<times> real) option \<Rightarrow> (docid \<times> real) option"
where
  "nearest_scan d [] acc = acc"
| "nearest_scan d ((k, r) # rs) acc =
     (case loc_of r of
        None \<Rightarrow> nearest_scan d rs acc
      | Some g \<Rightarrow>
          (if (case acc of None \<Rightarrow> True | Some (_, m) \<Rightarrow> d g < m)
           then nearest_scan d rs (Some (k, d g))
           else nearest_scan d rs acc))"

definition active_responders :: "db \<Rightarrow> (docid \<times> responder) list" where
  "active_responders s = coll_where (\<lambda>r. status r = Some Active) (responders s)"

definition assign_read :: "'a geo_scheme \<Rightarrow> db \<Rightarrow> docid option" where
  "assign_read e s =
     (let snap = active_responders s in
      if snap = [] then None
      else map_option fst (nearest_scan (dist_to e) snap None))"

definition assign_write :: "docid \<Rightarrow> docid \<Rightarrow> db \<Rightarrow> (unit, db) result" where
  "assign_write k rid s =
     update_responder k (\<lambda>r. r\<lparr>status := Some Busy, assignedEmergency := Some rid\<rparr>) s"

definition assignNearestResponder :: "'a geo_scheme \<Rightarrow> docid \<Rightarrow> db \<Rightarrow> (docid option, db) result" where
  "assignNearestResponder e rid s =
     (case assign_read e s of
        None \<Rightarrow> (Inr None, s)
      | Some k \<Rightarrow>
          (case assign_write k rid s of
             (Inl err, s') \<Rightarrow> (Inl err, s')
           | (Inr _, s') \<Rightarrow> (Inr (Some k), s')))"

subsection \<open>The scan\<close>

text \<open>
  A candidate is \<open>located\<close> when it has a location; the scan only ever compares
  located candidates.
\<close>

definition farther :: "(geo \<Rightarrow> real) \<Rightarrow> real \<Rightarrow> (docid \<times> responder) list \<Rightarrow> bool" where
  "farther d m xs \<longleftrightarrow> (\<forall>(k', r') \<in> set xs. \<forall>g'. loc_of r' = Some g' \<longrightarrow> m < d g')"

definition not_nearer :: "(geo \<Rightarrow> real) \<Rightarrow> real \<Rightarrow> (docid \<times> responder) list \<Rightarrow> bool" where
  "not_nearer d m xs \<longleftrightarrow> (\<forall>(k', r') \<in> set xs. \<forall>g'. loc_of r' = Some g' \<longrightarrow> m \<le> d g')"

lemma farther_simps [simp]:
  "farther d m []"
  "farther d m (x # xs) \<longleftrightarrow> (\<forall>g'. loc_of (snd x) = Some g' \<longrightarrow> m < d g') \<and> farther d m xs"
  by (auto simp: farther_def)

lemma not_nearer_simps [simp]:
  "not_nearer d m []"
  "not_nearer d m (x # xs) \<longleftrightarrow> (\<forall>g'. loc_of (snd x) = Some g' \<longrightarrow> m \<le> d g') \<and> not_nearer d m xs"
  by (auto simp: not_nearer_def)

lemma nearest_scan_Some_mono:
  "acc \<noteq> None \<Longrightarrow> nearest_scan d rs acc \<noteq> None"
  by (induction d rs acc rule: nearest_scan.induct) (auto split: option.splits)

lemma split_witness:
  "rs = pre @ (k, r) # post \<Longrightarrow> loc_of r = Some g \<Longrightarrow> d g = m \<Longrightarrow> farther d m pre \<Longrightarrow>
   not_nearer d m post \<Longrightarrow> C \<Longrightarrow>
   \<exists>pre r g post. rs = pre @ (k, r) # post \<and> loc_of r = Some g \<and> d g = m \<and>
     farther d m pre \<and> not_nearer d m post \<and> C"
  by blast

lemma nearest_scan_split_gen:
  assumes "nearest_scan d rs acc = Some (k, m)"
  shows "(acc = Some (k, m) \<and> not_nearer d m rs) \<or>
         (\<exists>pre r g post. rs = pre @ (k, r) # post \<and> loc_of r = Some g \<and> d g = m \<and>
            farther d m pre \<and> not_nearer d m post \<and>
            (case acc of None \<Rightarrow> True | Some (_, m0) \<Rightarrow> m < m0))"
  using assms
proof (induction d rs acc rule: nearest_scan.induct)
  case (1 d acc)
  then show ?case by simp
next
  case (2 d k' r rs acc)
  text \<open>The head \<open>(k', r)\<close> is added in front of the split the recursive call gives.\<close>
  have extend: ?case
    if ih: "\<exists>pre r'' g post. rs = pre @ (k, r'') # post \<and> loc_of r'' = Some g \<and> d g = m \<and>
              farther d m pre \<and> not_nearer d m post \<and> (case acc of None \<Rightarrow> True | Some (_, m0) \<Rightarrow> m < m0)"
      and hd: "\<forall>g'. loc_of r = Some g' \<longrightarrow> m < d g'"
  proof -
    from ih obtain pre r'' g post where
      split: "rs = pre @ (k, r'') # post" "loc_of r'' = Some g" "d g = m"
        "farther d m pre" "not_nearer d m post"
        "case acc of None \<Rightarrow> True | Some (_, m0) \<Rightarrow> m < m0"
      by blast
    show ?thesis
      using split hd by (intro disjI2 split_witness [where pre = "(k', r) # pre"]) simp_all
  qed
  show ?case
  proof (cases "loc_of r")
    case None
    with "2.prems" have "nearest_scan d rs acc = Some (k, m)" by simp
    from "2.IH"(1) [OF None this] show ?thesis
    proof
      assume "acc = Some (k, m) \<and> not_nearer d m rs"
      with None show ?thesis by simp
    next
      assume "\<exists>pre r'' g post. rs = pre @ (k, r'') # post \<and> loc_of r'' = Some g \<and> d g = m \<and>
              farther d m pre \<and> not_nearer d m post \<and> (case acc of None \<Rightarrow> True | Some (_, m0) \<Rightarrow> m < m0)"
      with None show ?thesis by (intro extend) simp_all
    qed
  next
    case (Some g)
    show ?thesis
    proof (cases "case acc of None \<Rightarrow> True | Some (_, m) \<Rightarrow> d g < m")
      case True
      with Some "2.prems" have "nearest_scan d rs (Some (k', d g)) = Some (k, m)" by simp
      from "2.IH"(2) [OF Some True this] show ?thesis
      proof
        assume "Some (k', d g) = Some (k, m) \<and> not_nearer d m rs"
        then have "d g = m" "not_nearer d m rs" "k' = k" by auto
        with Some True show ?thesis
          by (intro disjI2 split_witness [where pre = "[]"]) (auto split: option.splits)
      next
        assume "\<exists>pre r'' g' post. rs = pre @ (k, r'') # post \<and> loc_of r'' = Some g' \<and> d g' = m \<and>
              farther d m pre \<and> not_nearer d m post \<and> (case Some (k', d g) of None \<Rightarrow> True | Some (_, m0) \<Rightarrow> m < m0)"
        then obtain pre r'' g' post where sp: "rs = pre @ (k, r'') # post" "loc_of r'' = Some g'"
          "d g' = m" "farther d m pre" "not_nearer d m post" "m < d g"
          by auto
        with Some True show ?thesis
          by (intro disjI2 split_witness [where pre = "(k', r) # pre"]) (auto split: option.splits)
      qed
    next
      case False
      with Some "2.prems" have "nearest_scan d rs acc = Some (k, m)" by simp
      from "2.IH"(3) [OF Some False this] show ?thesis
      proof
        assume "acc = Some (k, m) \<and> not_nearer d m rs"
        with Some False show ?thesis by auto
      next
        assume "\<exists>pre r'' g' post. rs = pre @ (k, r'') # post \<and> loc_of r'' = Some g' \<and> d g' = m \<and>
              farther d m pre \<and> not_nearer d m post \<and> (case acc of None \<Rightarrow> True | Some (_, m0) \<Rightarrow> m < m0)"
        with Some False show ?thesis by (intro extend) (auto split: option.splits)
      qed
    qed
  qed
qed

lemma nearest_scan_split:
  assumes "nearest_scan d rs None = Some (k, m)"
  shows "\<exists>pre r g post. rs = pre @ (k, r) # post \<and> loc_of r = Some g \<and> d g = m \<and>
           farther d m pre \<and> not_nearer d m post"
  using nearest_scan_split_gen [OF assms] by auto

subsection \<open>The read phase\<close>

lemma active_responders_wf: "coll_wf (responders s) \<Longrightarrow> coll_wf (active_responders s)"
  by (simp add: active_responders_def coll_where_def coll_wf_def sorted_wrt_map sorted_wrt_filter)

lemma active_responders_mem:
  "coll_wf (responders s) \<Longrightarrow>
   (k, r) \<in> set (active_responders s) \<longleftrightarrow> map_of (responders s) k = Some r \<and> status r = Some Active"
  by (simp add: active_responders_def coll_where_mem coll_wf_map_of_iff)

lemma sorted_split_keys:
  assumes "coll_wf (pre @ (k, r) # post)"
  shows "\<forall>(k', r') \<in> set pre. k' < k" and "\<forall>(k', r') \<in> set post. k < k'"
  using assms by (auto simp: coll_wf_def sorted_wrt_append)

lemma assign_read_Some_scan:
  assumes "assign_read e s = Some k"
  shows "\<exists>m. nearest_scan (dist_to e) (active_responders s) None = Some (k, m)"
  using assms by (auto simp: assign_read_def Let_def split: if_splits)

text \<open>
  Claim C1. The chosen responder is active and located; no active located responder is nearer
  to the report; and every active located responder with a smaller document id
  (scanned before it) is strictly farther, so ties go to the first one scanned.
\<close>

theorem assign_read_nearest:
  assumes wf: "db_wf s" and read: "assign_read e s = Some k"
  shows "\<exists>r g. map_of (responders s) k = Some r \<and> status r = Some Active \<and> loc_of r = Some g \<and>
     (\<forall>k' r' g'. map_of (responders s) k' = Some r' \<and> status r' = Some Active \<and>
        loc_of r' = Some g' \<longrightarrow>
        dist_to e g \<le> dist_to e g' \<and> (k' < k \<longrightarrow> dist_to e g < dist_to e g'))"
proof -
  have cwf: "coll_wf (responders s)" using wf by (simp add: db_wf_def)
  obtain m where "nearest_scan (dist_to e) (active_responders s) None = Some (k, m)"
    using assign_read_Some_scan [OF read] by blast
  then obtain pre r g post where
    sp: "active_responders s = pre @ (k, r) # post" and g: "loc_of r = Some g"
    and m: "dist_to e g = m" and far: "farther (dist_to e) m pre"
    and nn: "not_nearer (dist_to e) m post"
    using nearest_scan_split by blast
  have awf: "coll_wf (pre @ (k, r) # post)"
    using active_responders_wf [OF cwf] sp by simp
  have kr: "map_of (responders s) k = Some r \<and> status r = Some Active"
    using active_responders_mem [OF cwf, of k r] sp by simp
  have "dist_to e g \<le> dist_to e g' \<and> (k' < k \<longrightarrow> dist_to e g < dist_to e g')"
    if r': "map_of (responders s) k' = Some r'" "status r' = Some Active" "loc_of r' = Some g'"
    for k' r' g'
  proof -
    have "(k', r') \<in> set (pre @ (k, r) # post)"
      using active_responders_mem [OF cwf, of k' r'] r' sp by simp
    then consider (pre) "(k', r') \<in> set pre" | (self) "k' = k" "r' = r" | (post) "(k', r') \<in> set post"
      by auto
    then show ?thesis
    proof cases
      case pre
      then show ?thesis using far r'(3) m by (auto simp: farther_def)
    next
      case self
      then show ?thesis using g r'(3) by simp
    next
      case post
      then have "k < k'" using sorted_split_keys(2) [OF awf] by auto
      then show ?thesis using post nn r'(3) m by (auto simp: not_nearer_def)
    qed
  qed
  with kr g show ?thesis by blast
qed

subsection \<open>The write phase and the whole assigner\<close>

lemma assign_write_effect:
  assumes "map_of (responders s) k = Some r"
  shows "\<exists>c. assign_write k rid s = (Inr (), s\<lparr>responders := c\<rparr>) \<and>
           map_of c = (map_of (responders s))(k \<mapsto> r\<lparr>status := Some Busy, assignedEmergency := Some rid\<rparr>) \<and>
           map fst c = map fst (responders s)"
  using update_responder_Inr [OF assms] by (simp add: assign_write_def)

lemma assign_read_Some_active:
  assumes "db_wf s" and "assign_read e s = Some k"
  shows "\<exists>r. map_of (responders s) k = Some r \<and> status r = Some Active"
proof -
  obtain m where "nearest_scan (dist_to e) (active_responders s) None = Some (k, m)"
    using assign_read_Some_scan [OF assms(2)] by blast
  then obtain pre r post where "active_responders s = pre @ (k, r) # post"
    using nearest_scan_split by blast
  then show ?thesis
    using active_responders_mem [of s k r] assms(1) by (auto simp: db_wf_def)
qed

lemma assignNearestResponder_None:
  "assign_read e s = None \<Longrightarrow> assignNearestResponder e rid s = (Inr None, s)"
  by (simp add: assignNearestResponder_def)

lemma assignNearestResponder_Some:
  assumes "db_wf s" and "assign_read e s = Some k"
  shows "\<exists>r c. map_of (responders s) k = Some r \<and> status r = Some Active \<and>
     assignNearestResponder e rid s = (Inr (Some k), s\<lparr>responders := c\<rparr>) \<and>
     map_of c = (map_of (responders s))(k \<mapsto> r\<lparr>status := Some Busy, assignedEmergency := Some rid\<rparr>) \<and>
     map fst c = map fst (responders s)"
proof -
  obtain r where r: "map_of (responders s) k = Some r" "status r = Some Active"
    using assign_read_Some_active [OF assms] by blast
  obtain c where c: "assign_write k rid s = (Inr (), s\<lparr>responders := c\<rparr>)"
    "map_of c = (map_of (responders s))(k \<mapsto> r\<lparr>status := Some Busy, assignedEmergency := Some rid\<rparr>)"
    "map fst c = map fst (responders s)"
    using assign_write_effect [OF r(1)] by blast
  have "assignNearestResponder e rid s = (Inr (Some k), s\<lparr>responders := c\<rparr>)"
    using assms(2) c(1) by (simp add: assignNearestResponder_def)
  with r c show ?thesis by blast
qed

text \<open>With no active responder that has a location, nobody is assigned.\<close>

lemma nearest_scan_unlocated:
  "\<forall>(k, r) \<in> set rs. loc_of r = None \<Longrightarrow> nearest_scan d rs acc = acc"
  by (induction d rs acc rule: nearest_scan.induct) auto

lemma assign_read_None:
  assumes "\<forall>(k, r) \<in> set (responders s). status r = Some Active \<longrightarrow> loc_of r = None"
  shows "assign_read e s = None"
proof -
  have "\<forall>(k, r) \<in> set (active_responders s). loc_of r = None"
    using assms by (auto simp: active_responders_def coll_where_def)
  then show ?thesis
    by (simp add: assign_read_def Let_def nearest_scan_unlocated)
qed

lemma assign_read_not_active:
  "db_wf s \<Longrightarrow> map_of (responders s) k = Some r \<Longrightarrow> status r \<noteq> Some Active \<Longrightarrow> assign_read e s \<noteq> Some k"
  using assign_read_Some_active by fastforce

end
