(* ===== verification/Intake.thy ===== *)
theory Intake
  imports Assigner
begin

text \<open>
  Report Intake, \<open>createEmergencyReport\<close> of \<open>src/functions/index.js\<close>
  (lines 116-272). The handler validates \<open>type\<close>, \<open>location\<close> and
  \<open>createdByUID\<close>, adds the report to \<open>emergencies\<close> under a generated id (the
  argument \<open>rid\<close>: Firestore's \<open>add\<close> chooses it), and routes by type: a
  security report goes through the assigner and gets a pending alert under the same
  id (with a push message to the assignee when it has a token), a medical report is
  copied to the clinic, a fire report to the fire department. The three \<open>if\<close>s
  of the source are sequential; a type matches at most one of them, and another type
  is stored without routing. The best-effort sync of medical reports to an external
  admin service has no effect on the database and is not modelled.
\<close>

definition new_report :: "report_request \<Rightarrow> string \<Rightarrow> report_location \<Rightarrow> string \<Rightarrow> time \<Rightarrow> report" where
  "new_report req t loc uid now =
     \<lparr>e_type = t, e_location = loc,
      e_details = str_or (req_details req) '''',
      e_notes = str_or (req_notes req) '''',
      e_urgency = str_or (req_urgency req) ''medium'',
      e_contactMethod = str_or (req_contactMethod req) ''chat'',
      e_createdByUID = uid,
      e_displayCode = str_or (req_displayCode req) ''ANON'',
      e_createdAt = now, e_status = RepPending, e_completedAt = None\<rparr>"

definition new_alert :: "report \<Rightarrow> docid \<Rightarrow> docid option \<Rightarrow> time \<Rightarrow> alert" where
  "new_alert nr rid a now =
     \<lparr>a_emergencyId = rid, a_type = e_type nr, a_details = e_details nr,
      a_urgency = e_urgency nr, a_createdByUID = e_createdByUID nr,
      a_displayCode = e_displayCode nr,
      a_location = \<lparr>lat = lat (e_location nr), lng = lng (e_location nr)\<rparr>,
      a_readableAddress = str_or (readableAddress (e_location nr)) '''',
      a_assignedResponder = a, a_status = Pending, a_routedAt = now,
      a_acceptedAt = None, a_declinedAt = None, a_responderUID = None\<rparr>"

text \<open>The push to the assignee: sent only when its document has a non-empty token.\<close>

definition notify_assignee :: "docid option \<Rightarrow> docid \<Rightarrow> db \<Rightarrow> db" where
  "notify_assignee a rid s =
     (case a of
        None \<Rightarrow> s
      | Some k \<Rightarrow>
          (case map_of (responders s) k of
             None \<Rightarrow> s
           | Some r \<Rightarrow>
               (if truthy_str (expoPushToken r)
                then s\<lparr>pushes := pushes s @ [\<lparr>push_token = the (expoPushToken r), push_alertId = rid\<rparr>]\<rparr>
                else s)))"

definition route_security :: "report \<Rightarrow> docid \<Rightarrow> time \<Rightarrow> db \<Rightarrow> (unit, db) result" where
  "route_security nr rid now s =
     (case assignNearestResponder (e_location nr) rid s of
        (Inl err, s') \<Rightarrow> (Inl err, s')
      | (Inr a, s') \<Rightarrow>
          (Inr (), notify_assignee a rid
             (s'\<lparr>responders_alerts := coll_set (responders_alerts s') rid (new_alert nr rid a now)\<rparr>)))"

definition route_departments :: "report \<Rightarrow> docid \<Rightarrow> time \<Rightarrow> db \<Rightarrow> db" where
  "route_departments nr rid now s =
     (let s1 = (if e_type nr = ''medical'' then s\<lparr>clinic := coll_set (clinic s) rid (nr, now)\<rparr> else s)
      in if e_type nr = ''fire'' then s1\<lparr>fireDept := coll_set (fireDept s1) rid (nr, now)\<rparr> else s1)"

definition createEmergencyReport :: "report_request \<Rightarrow> docid \<Rightarrow> time \<Rightarrow> db \<Rightarrow> (docid, db) result" where
  "createEmergencyReport req rid now s =
     (case (req_type req, req_location req, req_createdByUID req) of
        (Some t, Some loc, Some uid) \<Rightarrow>
          (if t = [] \<or> uid = [] then (Inl ValidationError, s)
           else
             (let nr = new_report req t loc uid now;
                  s1 = s\<lparr>emergencies := coll_set (emergencies s) rid nr\<rparr>
              in case (if t = ''security'' then route_security nr rid now s1 else (Inr (), s1)) of
                   (Inl err, s2) \<Rightarrow> (Inl err, s2)
                 | (Inr _, s2) \<Rightarrow> (Inr rid, route_departments nr rid now s2)))
      | _ \<Rightarrow> (Inl ValidationError, s))"

text \<open>A request passes validation when its three required fields are present and non-empty.\<close>

definition valid_request :: "report_request \<Rightarrow> bool" where
  "valid_request req \<longleftrightarrow>
     truthy_str (req_type req) \<and> req_location req \<noteq> None \<and> truthy_str (req_createdByUID req)"

lemma createEmergencyReport_invalid:
  "\<not> valid_request req \<Longrightarrow> createEmergencyReport req rid now s = (Inl ValidationError, s)"
  by (auto simp: createEmergencyReport_def valid_request_def truthy_str_def
           split: option.splits)

lemma createEmergencyReport_valid_unfold:
  assumes "req_type req = Some t" "req_location req = Some loc" "req_createdByUID req = Some uid"
    "t \<noteq> []" "uid \<noteq> []"
  shows "createEmergencyReport req rid now s =
    (let nr = new_report req t loc uid now;
         s1 = s\<lparr>emergencies := coll_set (emergencies s) rid nr\<rparr>
     in case (if t = ''security'' then route_security nr rid now s1 else (Inr (), s1)) of
          (Inl err, s2) \<Rightarrow> (Inl err, s2)
        | (Inr _, s2) \<Rightarrow> (Inr rid, route_departments nr rid now s2))"
  using assms by (simp add: createEmergencyReport_def)

lemma route_departments_security:
  "e_type nr = ''security'' \<Longrightarrow> route_departments nr rid now s = s"
  by (simp add: route_departments_def)

lemma notify_assignee_collections [simp]:
  "emergencies (notify_assignee a rid s) = emergencies s"
  "responders (notify_assignee a rid s) = responders s"
  "responders_alerts (notify_assignee a rid s) = responders_alerts s"
  "clinic (notify_assignee a rid s) = clinic s"
  "fireDept (notify_assignee a rid s) = fireDept s"
  by (simp_all add: notify_assignee_def split: option.splits)

lemma new_report_fields [simp]:
  "e_type (new_report req t loc uid now) = t"
  "e_location (new_report req t loc uid now) = loc"
  by (simp_all add: new_report_def)

lemma assign_read_emergencies [simp]:
  "assign_read e (s\<lparr>emergencies := x\<rparr>) = assign_read e s"
  by (simp add: assign_read_def active_responders_def)

lemma db_wf_add_emergency:
  "db_wf s \<Longrightarrow> db_wf (s\<lparr>emergencies := coll_set (emergencies s) rid nr\<rparr>)"
  by (simp add: db_wf_def coll_wf_set)

lemma route_security_ok:
  assumes "db_wf s"
  shows "\<exists>s'. route_security nr rid now s = (Inr (), s') \<and>
     emergencies s' = emergencies s \<and> clinic s' = clinic s \<and> fireDept s' = fireDept s"
proof (cases "assign_read (e_location nr) s")
  case None
  then show ?thesis by (simp add: route_security_def assignNearestResponder_None)
next
  case (Some k)
  then show ?thesis
    using assignNearestResponder_Some [OF assms Some, of rid] by (auto simp: route_security_def)
qed

lemma createEmergencyReport_unassigned:
  assumes req: "req_type req = Some ''security''" "req_location req = Some loc"
      "req_createdByUID req = Some uid" "uid \<noteq> []"
    and none: "\<forall>(k, r) \<in> set (responders s). status r = Some Active \<longrightarrow> loc_of r = None"
  shows "createEmergencyReport req rid now s =
     (Inr rid, s\<lparr>emergencies := coll_set (emergencies s) rid (new_report req ''security'' loc uid now),
                responders_alerts := coll_set (responders_alerts s) rid
                  (new_alert (new_report req ''security'' loc uid now) rid None now)\<rparr>)"
proof -
  let ?nr = "new_report req ''security'' loc uid now"
  let ?s1 = "s\<lparr>emergencies := coll_set (emergencies s) rid ?nr\<rparr>"
  have "assign_read loc ?s1 = None"
    using assign_read_None [OF none] by simp
  then have "route_security ?nr rid now ?s1 =
      (Inr (), ?s1\<lparr>responders_alerts := coll_set (responders_alerts s) rid (new_alert ?nr rid None now)\<rparr>)"
    by (simp add: route_security_def assignNearestResponder_None notify_assignee_def)
  then show ?thesis
    using req by (simp add: createEmergencyReport_valid_unfold route_departments_security Let_def)
qed

text \<open>
  Claim C4. No candidate: when no active responder has a location, a valid security report is
  stored, its alert is created pending with no assignee, and no responder changes.
\<close>

theorem createEmergencyReport_no_candidate:
  assumes req: "req_type req = Some ''security''" "req_location req = Some loc"
      "req_createdByUID req = Some uid" "uid \<noteq> []"
    and none: "\<forall>(k, r) \<in> set (responders s). status r = Some Active \<longrightarrow> loc_of r = None"
  shows "\<exists>s' a. createEmergencyReport req rid now s = (Inr rid, s') \<and>
     map_of (responders_alerts s') rid = Some a \<and>
     a_assignedResponder a = None \<and> a_status a = Pending \<and> responders s' = responders s"
  using createEmergencyReport_unassigned [OF req none, of rid now] by (simp add: new_alert_def)

lemma createEmergencyReport_security_run:
  assumes wf: "db_wf s"
    and req: "req_type req = Some ''security''" "req_location req = Some loc"
      "req_createdByUID req = Some uid" "uid \<noteq> []"
    and pick: "assign_read loc s = Some k"
  shows "\<exists>r c. map_of (responders s) k = Some r \<and> status r = Some Active \<and>
     createEmergencyReport req rid now s =
       (Inr rid, notify_assignee (Some k) rid
          (s\<lparr>emergencies := coll_set (emergencies s) rid (new_report req ''security'' loc uid now),
             responders := c,
             responders_alerts := coll_set (responders_alerts s) rid
                (new_alert (new_report req ''security'' loc uid now) rid (Some k) now)\<rparr>)) \<and>
     map_of c = (map_of (responders s))(k \<mapsto> r\<lparr>status := Some Busy, assignedEmergency := Some rid\<rparr>) \<and>
     map fst c = map fst (responders s)"
proof -
  let ?nr = "new_report req ''security'' loc uid now"
  let ?s1 = "s\<lparr>emergencies := coll_set (emergencies s) rid ?nr\<rparr>"
  have wf1: "db_wf ?s1" using db_wf_add_emergency [OF wf] .
  have pick1: "assign_read (e_location ?nr) ?s1 = Some k"
    using pick by simp
  obtain r c where rc: "map_of (responders ?s1) k = Some r" "status r = Some Active"
      "assignNearestResponder (e_location ?nr) rid ?s1 = (Inr (Some k), ?s1\<lparr>responders := c\<rparr>)"
      "map_of c = (map_of (responders ?s1))(k \<mapsto> r\<lparr>status := Some Busy, assignedEmergency := Some rid\<rparr>)"
      "map fst c = map fst (responders ?s1)"
    using assignNearestResponder_Some [OF wf1 pick1] by blast
  let ?s2 = "?s1\<lparr>responders := c, responders_alerts :=
      coll_set (responders_alerts s) rid (new_alert ?nr rid (Some k) now)\<rparr>"
  have "route_security ?nr rid now ?s1 = (Inr (), notify_assignee (Some k) rid ?s2)"
    using rc(3) by (simp add: route_security_def)
  then have run: "createEmergencyReport req rid now s = (Inr rid, notify_assignee (Some k) rid ?s2)"
    using req by (simp add: createEmergencyReport_valid_unfold route_departments_security Let_def)
  show ?thesis using run rc by auto
qed

text \<open>
  Claim C2. Assignment: when the assigner's read phase picks \<open>k\<close>, the report is accepted, \<open>k\<close>
  (active before) is now busy with this report, and the report's pending alert names
  \<open>k\<close> as its assignee.
\<close>

theorem createEmergencyReport_assigns:
  assumes wf: "db_wf s"
    and req: "req_type req = Some ''security''" "req_location req = Some loc"
      "req_createdByUID req = Some uid" "uid \<noteq> []"
    and pick: "assign_read loc s = Some k"
  shows "\<exists>s' r a. createEmergencyReport req rid now s = (Inr rid, s') \<and>
     map_of (responders s) k = Some r \<and> status r = Some Active \<and>
     map_of (responders s') k = Some (r\<lparr>status := Some Busy, assignedEmergency := Some rid\<rparr>) \<and>
     map_of (responders_alerts s') rid = Some a \<and>
     a_assignedResponder a = Some k \<and> a_status a = Pending"
  using createEmergencyReport_security_run [OF wf req pick, of rid now]
  by (auto simp: new_alert_def)

end
