(* ===== verification/Lifecycle.thy ===== *)
theory Lifecycle
  imports Data
begin

text \<open>
  The Alert Lifecycle. Accepting and declining are client writes of the responder
  screen \<open>src/Screens/Responders/incomingalert.js\<close> (\<open>handleAccept\<close>, lines
  97-122, and \<open>handleDecline\<close>, lines 124-141); completion is the callable
  \<open>completeEmergency\<close> of \<open>src/functions/index.js\<close> (lines 275-304). Each is a
  sequence of Firestore \<open>update\<close>s; an update of a missing document throws, and the
  writes made before it stay. None of the three reads the alert's current status:
  the lemmas below show that they apply in every state, and that completion writes
  the report, not the alert.
\<close>

definition accept_alert :: "docid \<Rightarrow> time \<Rightarrow> alert \<Rightarrow> alert" where
  "accept_alert uid now a = a\<lparr>a_status := Accepted, a_acceptedAt := Some now, a_responderUID := Some uid\<rparr>"

definition handleAccept :: "docid \<Rightarrow> docid \<Rightarrow> time \<Rightarrow> db \<Rightarrow> (unit, db) result" where
  "handleAccept aid uid now s =
     (case update_alert aid (accept_alert uid now) s of
        (Inl err, s1) \<Rightarrow> (Inl err, s1)
      | (Inr _, s1) \<Rightarrow>
          update_responder uid (\<lambda>r. r\<lparr>status := Some Busy, assignedEmergency := Some aid\<rparr>) s1)"

definition decline_alert :: "time \<Rightarrow> alert \<Rightarrow> alert" where
  "decline_alert now a = a\<lparr>a_status := Declined, a_declinedAt := Some now\<rparr>"

definition handleDecline :: "docid \<Rightarrow> time \<Rightarrow> db \<Rightarrow> (unit, db) result" where
  "handleDecline aid now s = update_alert aid (decline_alert now) s"

definition release_responder :: "time \<Rightarrow> responder \<Rightarrow> responder" where
  "release_responder now r = r\<lparr>status := Some Active, assignedEmergency := None, lastActiveAt := Some now\<rparr>"

definition complete_report :: "time \<Rightarrow> report \<Rightarrow> report" where
  "complete_report now e = e\<lparr>e_status := RepCompleted, e_completedAt := Some now\<rparr>"

definition completeEmergency :: "string option \<Rightarrow> string option \<Rightarrow> time \<Rightarrow> db \<Rightarrow> (unit, db) result" where
  "completeEmergency responderUID emergencyId now s =
     (case (responderUID, emergencyId) of
        (Some uid, Some eid) \<Rightarrow>
          (if uid = [] \<or> eid = [] then (Inl ValidationError, s)
           else
             (case update_responder uid (release_responder now) s of
                (Inl err, s1) \<Rightarrow> (Inl err, s1)
              | (Inr _, s1) \<Rightarrow> update_emergency eid (complete_report now) s1))
      | _ \<Rightarrow> (Inl ValidationError, s))"

subsection \<open>Behaviour of each operation\<close>

text \<open>
  Claim C14. Acceptance succeeds on an existing alert whatever its status (pending, accepted or
  declined) and makes the accepting responder busy with it.
\<close>

theorem handleAccept_any_status:
  assumes a: "map_of (responders_alerts s) aid = Some a" and r: "map_of (responders s) uid = Some r"
  shows "\<exists>s'. handleAccept aid uid now s = (Inr (), s') \<and>
     map_of (responders_alerts s') aid = Some (a\<lparr>a_status := Accepted, a_acceptedAt := Some now,
                                                  a_responderUID := Some uid\<rparr>) \<and>
     map_of (responders s') uid = Some (r\<lparr>status := Some Busy, assignedEmergency := Some aid\<rparr>)"
proof -
  obtain c where c: "update_alert aid (accept_alert uid now) s = (Inr (), s\<lparr>responders_alerts := c\<rparr>)"
    "map_of c = (map_of (responders_alerts s))(aid \<mapsto> accept_alert uid now a)"
    using update_alert_Inr [OF a] by blast
  have r1: "map_of (responders (s\<lparr>responders_alerts := c\<rparr>)) uid = Some r" using r by simp
  obtain d where d: "update_responder uid (\<lambda>r. r\<lparr>status := Some Busy, assignedEmergency := Some aid\<rparr>)
        (s\<lparr>responders_alerts := c\<rparr>) = (Inr (), s\<lparr>responders_alerts := c, responders := d\<rparr>)"
    "map_of d = (map_of (responders s))(uid \<mapsto> r\<lparr>status := Some Busy, assignedEmergency := Some aid\<rparr>)"
    using update_responder_Inr [OF r1] by auto
  show ?thesis
    using c d by (simp add: handleAccept_def accept_alert_def)
qed

text \<open>
  When the responder document is missing, acceptance fails with NOT_FOUND after the
  alert has already been written as accepted.
\<close>

lemma handleAccept_missing_responder:
  assumes a: "map_of (responders_alerts s) aid = Some a" and r: "map_of (responders s) uid = None"
  shows "\<exists>s'. handleAccept aid uid now s = (Inl NotFoundError, s') \<and>
     map_of (responders_alerts s') aid = Some (accept_alert uid now a) \<and> responders s' = responders s"
proof -
  obtain c where c: "update_alert aid (accept_alert uid now) s = (Inr (), s\<lparr>responders_alerts := c\<rparr>)"
    "map_of c = (map_of (responders_alerts s))(aid \<mapsto> accept_alert uid now a)"
    using update_alert_Inr [OF a] by blast
  have "map_of (responders (s\<lparr>responders_alerts := c\<rparr>)) uid = None" using r by simp
  then show ?thesis
    using c by (simp add: handleAccept_def update_responder_missing)
qed

lemma handleAccept_missing_alert:
  "map_of (responders_alerts s) aid = None \<Longrightarrow> handleAccept aid uid now s = (Inl NotFoundError, s)"
  by (simp add: handleAccept_def update_alert_missing)

text \<open>Declining succeeds on an existing alert whatever its status and touches no responder.\<close>

theorem handleDecline_any_status:
  assumes a: "map_of (responders_alerts s) aid = Some a"
  shows "\<exists>s'. handleDecline aid now s = (Inr (), s') \<and>
     map_of (responders_alerts s') aid = Some (a\<lparr>a_status := Declined, a_declinedAt := Some now\<rparr>) \<and>
     responders s' = responders s"
  using update_alert_Inr [OF a, of "decline_alert now"]
  by (auto simp: handleDecline_def decline_alert_def)

text \<open>
  Claim C5. Completion releases the responder (active, no assignment) and marks the report
  completed; the alert document is not written, so an alert never reaches a
  completed status.
\<close>

theorem completeEmergency_releases:
  assumes ids: "uid \<noteq> []" "eid \<noteq> []"
    and r: "map_of (responders s) uid = Some r" and e: "map_of (emergencies s) eid = Some e"
  shows "\<exists>s'. completeEmergency (Some uid) (Some eid) now s = (Inr (), s') \<and>
     map_of (responders s') uid = Some (r\<lparr>status := Some Active, assignedEmergency := None,
                                           lastActiveAt := Some now\<rparr>) \<and>
     map_of (emergencies s') eid = Some (e\<lparr>e_status := RepCompleted, e_completedAt := Some now\<rparr>) \<and>
     responders_alerts s' = responders_alerts s"
proof -
  obtain c where c: "update_responder uid (release_responder now) s = (Inr (), s\<lparr>responders := c\<rparr>)"
    "map_of c = (map_of (responders s))(uid \<mapsto> release_responder now r)"
    using update_responder_Inr [OF r] by blast
  have e1: "map_of (emergencies (s\<lparr>responders := c\<rparr>)) eid = Some e" using e by simp
  obtain d where d: "update_emergency eid (complete_report now) (s\<lparr>responders := c\<rparr>) =
      (Inr (), s\<lparr>responders := c, emergencies := d\<rparr>)"
    "map_of d = (map_of (emergencies s))(eid \<mapsto> complete_report now e)"
    using update_emergency_Inr [OF e1] by auto
  show ?thesis
    using ids c d by (simp add: completeEmergency_def release_responder_def complete_report_def)
qed

text \<open>
  A completion naming a missing report fails with NOT_FOUND after the responder has
  already been released.
\<close>

lemma completeEmergency_missing_report:
  assumes ids: "uid \<noteq> []" "eid \<noteq> []"
    and r: "map_of (responders s) uid = Some r" and e: "map_of (emergencies s) eid = None"
  shows "\<exists>s'. completeEmergency (Some uid) (Some eid) now s = (Inl NotFoundError, s') \<and>
     map_of (responders s') uid = Some (release_responder now r) \<and> emergencies s' = emergencies s"
proof -
  obtain c where c: "update_responder uid (release_responder now) s = (Inr (), s\<lparr>responders := c\<rparr>)"
    "map_of c = (map_of (responders s))(uid \<mapsto> release_responder now r)"
    using update_responder_Inr [OF r] by blast
  have "map_of (emergencies (s\<lparr>responders := c\<rparr>)) eid = None" using e by simp
  then show ?thesis
    using ids c by (simp add: completeEmergency_def update_emergency_missing)
qed

lemma completeEmergency_missing_responder:
  "uid \<noteq> [] \<Longrightarrow> eid \<noteq> [] \<Longrightarrow> map_of (responders s) uid = None \<Longrightarrow>
   completeEmergency (Some uid) (Some eid) now s = (Inl NotFoundError, s)"
  by (simp add: completeEmergency_def update_responder_missing)

lemma handleAccept_alert:
  assumes "map_of (responders_alerts s) aid = Some a"
  shows "map_of (responders_alerts (snd (handleAccept aid uid now s))) aid = Some (accept_alert uid now a)"
proof -
  obtain c where "update_alert aid (accept_alert uid now) s = (Inr (), s\<lparr>responders_alerts := c\<rparr>)"
    "map_of c = (map_of (responders_alerts s))(aid \<mapsto> accept_alert uid now a)"
    using update_alert_Inr [OF assms] by blast
  then show ?thesis by (simp add: handleAccept_def)
qed

end
