(* ===== verification/Registry.thy ===== *)
theory Registry
  imports Data
begin

text \<open>
  The Responder Registry's writers other than the assigner, lifecycle and sweep:
  the callable \<open>updateResponderHeartbeat\<close> of \<open>src/functions/index.js\<close>
  (lines 307-352), and the responder dashboard's toggle
  (\<open>src/Screens/Responders/dashboard.js\<close>, \<open>toggleActive\<close> with
  \<open>startLiveLocationTracking\<close>, \<open>sendExpoPushToken\<close> and
  \<open>stopLiveLocationTracking\<close>, lines 37-200), which write the responder's own
  document directly. The heartbeat writes \<open>status: "active"\<close> unconditionally;
  its location is stored only when both coordinates are truthy, i.e. non-zero.
\<close>

definition heartbeat_fields :: "(real \<times> real) option \<Rightarrow> time \<Rightarrow> responder \<Rightarrow> responder" where
  "heartbeat_fields loc now r =
     r\<lparr>lastHeartbeat := Some now, status := Some Active, lastActiveAt := Some now,
       currentLocation :=
         (case loc of
            Some (la, lo) \<Rightarrow> if la \<noteq> 0 \<and> lo \<noteq> 0 then Some (\<lparr>lat = la, lng = lo\<rparr>, now) else currentLocation r
          | None \<Rightarrow> currentLocation r)\<rparr>"

definition updateResponderHeartbeat ::
  "string option \<Rightarrow> (real \<times> real) option \<Rightarrow> time \<Rightarrow> db \<Rightarrow> (unit, db) result"
where
  "updateResponderHeartbeat responderUID loc now s =
     (case responderUID of
        None \<Rightarrow> (Inl ValidationError, s)
      | Some uid \<Rightarrow>
          (if uid = [] then (Inl ValidationError, s)
           else case map_of (responders s) uid of
                  None \<Rightarrow> (Inl NotFoundError, s)
                | Some _ \<Rightarrow> update_responder uid (heartbeat_fields loc now) s))"

text \<open>
  Going on duty: the push token is saved first when the device has one (a failure
  is only logged), then the status is set to active. Going off duty sets the status
  to inactive. Neither touches \<open>assignedEmergency\<close>.
\<close>

definition goActive :: "docid \<Rightarrow> string option \<Rightarrow> time \<Rightarrow> db \<Rightarrow> (unit, db) result" where
  "goActive uid token now s =
     (let s1 = (if truthy_str token
                then snd (update_responder uid (\<lambda>r. r\<lparr>expoPushToken := token\<rparr>) s) else s)
      in update_responder uid (\<lambda>r. r\<lparr>status := Some Active, lastActiveAt := Some now\<rparr>) s1)"

definition goInactive :: "docid \<Rightarrow> time \<Rightarrow> db \<Rightarrow> (unit, db) result" where
  "goInactive uid now s =
     update_responder uid (\<lambda>r. r\<lparr>status := Some Inactive, lastInactiveAt := Some now\<rparr>) s"

text \<open>
  Claim C15. A heartbeat of a known responder refreshes its liveness fields and sets its status
  to active whatever it was, busy included, and keeps its assignment.
\<close>

theorem heartbeat_sets_active:
  assumes uid: "uid \<noteq> []" and r: "map_of (responders s) uid = Some r"
  shows "\<exists>s'. updateResponderHeartbeat (Some uid) loc now s = (Inr (), s') \<and>
     map_of (responders s') uid = Some (heartbeat_fields loc now r) \<and>
     status (heartbeat_fields loc now r) = Some Active \<and>
     assignedEmergency (heartbeat_fields loc now r) = assignedEmergency r \<and>
     lastHeartbeat (heartbeat_fields loc now r) = Some now"
  using update_responder_Inr [OF r, of "heartbeat_fields loc now"] uid r
  by (auto simp: updateResponderHeartbeat_def heartbeat_fields_def)

lemma heartbeat_unknown:
  "uid \<noteq> [] \<Longrightarrow> map_of (responders s) uid = None \<Longrightarrow>
   updateResponderHeartbeat (Some uid) loc now s = (Inl NotFoundError, s)"
  by (simp add: updateResponderHeartbeat_def)

lemma heartbeat_missing_uid:
  "updateResponderHeartbeat None loc now s = (Inl ValidationError, s)"
  "updateResponderHeartbeat (Some []) loc now s = (Inl ValidationError, s)"
  by (simp_all add: updateResponderHeartbeat_def)

text \<open>A location with a zero coordinate is not stored (JavaScript truthiness of \<open>0\<close>).\<close>

lemma heartbeat_zero_coordinate:
  "la = 0 \<or> lo = 0 \<Longrightarrow> currentLocation (heartbeat_fields (Some (la, lo)) now r) = currentLocation r"
  by (auto simp: heartbeat_fields_def)

end
