(* ===== verification/Liveness.thy ===== *)
theory Liveness
  imports Assigner
begin

text \<open>
  The Liveness Monitor, \<open>markInactiveResponders\<close> of \<open>src/functions/index.js\<close>
  (lines 355-398). It takes \<open>cutoff = now - 3 min\<close>, queries the active responders
  once, and for each document of that snapshot, in id order, demotes it to inactive
  (stamping \<open>lastInactiveAt\<close>) when the snapshot's \<open>lastHeartbeat\<close> (or, if that
  was never written, \<open>lastActiveAt\<close>) is absent or older than the cutoff. The
  decision reads the snapshot; the write applies to the document as it is then,
  which is what \<open>sweep_writes\<close> models, so that the System theory can interleave a
  heartbeat between the query and the writes. A failed write aborts the loop and
  the handler reports an internal error; the writes before it stay.
\<close>

definition heartbeatTimeout :: time where
  "heartbeatTimeout = 3 * 60 * 1000"

definition last_seen :: "responder \<Rightarrow> time option" where
  "last_seen r = (case lastHeartbeat r of Some t \<Rightarrow> Some t | None \<Rightarrow> lastActiveAt r)"

definition is_stale :: "time \<Rightarrow> responder \<Rightarrow> bool" where
  "is_stale cutoff r = (case last_seen r of None \<Rightarrow> True | Some t \<Rightarrow> t < cutoff)"

definition mark_inactive :: "time \<Rightarrow> responder \<Rightarrow> responder" where
  "mark_inactive now r = r\<lparr>status := Some Inactive, lastInactiveAt := Some now\<rparr>"

fun sweep_writes :: "time \<Rightarrow> time \<Rightarrow> (docid \<times> responder) list \<Rightarrow> nat \<Rightarrow> db \<Rightarrow> (nat, db) result" where
  "sweep_writes now cutoff [] n s = (Inr n, s)"
| "sweep_writes now cutoff ((k, r) # ds) n s =
     (if is_stale cutoff r then
        (case update_responder k (mark_inactive now) s of
           (Inl err, s') \<Rightarrow> (Inl err, s')
         | (Inr _, s') \<Rightarrow> sweep_writes now cutoff ds (Suc n) s')
      else sweep_writes now cutoff ds n s)"

definition markInactiveResponders :: "time \<Rightarrow> db \<Rightarrow> (nat, db) result" where
  "markInactiveResponders now s =
     (case sweep_writes now (now - heartbeatTimeout) (active_responders s) 0 s of
        (Inl _, s') \<Rightarrow> (Inl InternalError, s')
      | (Inr n, s') \<Rightarrow> (Inr n, s'))"

definition stale_in :: "time \<Rightarrow> (docid \<times> responder) list \<Rightarrow> docid \<Rightarrow> bool" where
  "stale_in cutoff ds k \<longleftrightarrow> (\<exists>r. (k, r) \<in> set ds \<and> is_stale cutoff r)"

text \<open>
  The specification: every active responder whose last sign of life is missing or
  older than the cutoff becomes inactive; every other document is unchanged.
\<close>

definition demote :: "time \<Rightarrow> responder \<Rightarrow> responder" where
  "demote now r =
     (if status r = Some Active \<and> is_stale (now - heartbeatTimeout) r then mark_inactive now r else r)"

definition sweep_spec :: "time \<Rightarrow> db \<Rightarrow> db" where
  "sweep_spec now s = s\<lparr>responders := map (\<lambda>(k, r). (k, demote now r)) (responders s)\<rparr>"

definition demoted_count :: "time \<Rightarrow> db \<Rightarrow> nat" where
  "demoted_count now s =
     length (filter (\<lambda>(k, r). is_stale (now - heartbeatTimeout) r) (active_responders s))"

text \<open>
  The sweep is an \<open>onCall\<close> callable (lines 355-395); nothing in the code schedules
  it. \<open>run_sweeps\<close> is a sequence of invocations at the given times with no other
  write in between.
\<close>

fun run_sweeps :: "time list \<Rightarrow> db \<Rightarrow> db" where
  "run_sweeps [] s = s"
| "run_sweeps (now # ts) s = run_sweeps ts (snd (markInactiveResponders now s))"

subsection \<open>What one sweep does\<close>

lemma mark_inactive_idem [simp]: "mark_inactive now (mark_inactive now r) = mark_inactive now r"
  by (simp add: mark_inactive_def)

lemma sweep_writes_spec:
  assumes "\<forall>(k, r) \<in> set ds. map_of (responders s) k \<noteq> None"
  shows "\<exists>c. sweep_writes now cutoff ds n s =
      (Inr (n + length (filter (\<lambda>(k, r). is_stale cutoff r) ds)), s\<lparr>responders := c\<rparr>) \<and>
      map fst c = map fst (responders s) \<and>
      map_of c = (\<lambda>k. if stale_in cutoff ds k then map_option (mark_inactive now) (map_of (responders s) k)
                      else map_of (responders s) k)"
  using assms
proof (induction ds arbitrary: n s)
  case Nil
  then show ?case by (intro exI [of _ "responders s"]) (simp add: stale_in_def)
next
  case (Cons kr ds)
  obtain k r where kr: "kr = (k, r)" by fastforce
  show ?case
  proof (cases "is_stale cutoff r")
    case False
    then have "sweep_writes now cutoff (kr # ds) n s = sweep_writes now cutoff ds n s"
      by (simp add: kr)
    moreover have "stale_in cutoff (kr # ds) = stale_in cutoff ds"
      using False by (auto simp: kr stale_in_def fun_eq_iff)
    moreover have "length (filter (\<lambda>(k, r). is_stale cutoff r) (kr # ds)) =
        length (filter (\<lambda>(k, r). is_stale cutoff r) ds)"
      using False by (simp add: kr)
    moreover have "\<forall>(k, r) \<in> set ds. map_of (responders s) k \<noteq> None"
      using Cons.prems by simp
    ultimately show ?thesis
      using Cons.IH by simp
  next
    case True
    obtain r0 where r0: "map_of (responders s) k = Some r0"
      using Cons.prems kr by auto
    obtain c1 where c1: "update_responder k (mark_inactive now) s = (Inr (), s\<lparr>responders := c1\<rparr>)"
      "map_of c1 = (map_of (responders s))(k \<mapsto> mark_inactive now r0)"
      "map fst c1 = map fst (responders s)"
      using update_responder_Inr [OF r0] by blast
    have pres: "\<forall>(k', r') \<in> set ds. map_of (responders (s\<lparr>responders := c1\<rparr>)) k' \<noteq> None"
      using Cons.prems c1(2) by auto
    obtain c where c: "sweep_writes now cutoff ds (Suc n) (s\<lparr>responders := c1\<rparr>) =
        (Inr (Suc n + length (filter (\<lambda>(k, r). is_stale cutoff r) ds)), s\<lparr>responders := c\<rparr>)"
      "map fst c = map fst c1"
      "map_of c = (\<lambda>k'. if stale_in cutoff ds k' then map_option (mark_inactive now) (map_of c1 k')
                        else map_of c1 k')"
      using Cons.IH [OF pres, of "Suc n"] by fastforce
    have mo: "map_of c = (\<lambda>k'. if stale_in cutoff (kr # ds) k'
                           then map_option (mark_inactive now) (map_of (responders s) k')
                           else map_of (responders s) k')"
      using c(3) c1(2) True r0 by (auto simp: kr stale_in_def fun_eq_iff)
    have run: "sweep_writes now cutoff (kr # ds) n s =
        (Inr (n + length (filter (\<lambda>(k, r). is_stale cutoff r) (kr # ds))), s\<lparr>responders := c\<rparr>)"
      using True c(1) c1(1) by (simp add: kr)
    have keys: "map fst c = map fst (responders s)"
      using c(2) c1(3) by simp
    show ?thesis
      using run keys mo by blast
  qed
qed

subsection \<open>The sweep against its specification\<close>

lemma map_of_map_demote:
  "map_of (map (\<lambda>(k, r). (k, f r)) xs) = (\<lambda>k. map_option f (map_of xs k))"
  by (induction xs) (auto simp: fun_eq_iff)

lemma markInactiveResponders_eq:
  assumes wf: "db_wf s"
  shows "markInactiveResponders now s = (Inr (demoted_count now s), sweep_spec now s)"
proof -
  let ?cut = "now - heartbeatTimeout"
  have cwf: "coll_wf (responders s)" using wf by (simp add: db_wf_def)
  have pres: "\<forall>(k, r) \<in> set (active_responders s). map_of (responders s) k \<noteq> None"
    using active_responders_mem [OF cwf] by auto
  obtain c where c: "sweep_writes now ?cut (active_responders s) 0 s =
      (Inr (demoted_count now s), s\<lparr>responders := c\<rparr>)"
    "map fst c = map fst (responders s)"
    "map_of c = (\<lambda>k. if stale_in ?cut (active_responders s) k
                     then map_option (mark_inactive now) (map_of (responders s) k)
                     else map_of (responders s) k)"
    using sweep_writes_spec [OF pres, of now ?cut 0] by (auto simp: demoted_count_def)
  have "map_of c = map_of (map (\<lambda>(k, r). (k, demote now r)) (responders s))"
  proof
    fix k
    show "map_of c k = map_of (map (\<lambda>(k, r). (k, demote now r)) (responders s)) k"
      using active_responders_mem [OF cwf, of k]
      by (cases "map_of (responders s) k")
         (auto simp: c(3) map_of_map_demote stale_in_def demote_def)
  qed
  then have "c = map (\<lambda>(k, r). (k, demote now r)) (responders s)"
    using c(2) coll_wf_distinct [OF cwf]
    by (intro coll_eqI) (auto simp: comp_def case_prod_beta)
  then show ?thesis
    using c(1) by (simp add: markInactiveResponders_def sweep_spec_def)
qed

lemma demote_idem [simp]: "demote now (demote now r) = demote now r"
  by (simp add: demote_def mark_inactive_def)

lemma fst_comp_map_snd [simp]: "fst \<circ> (\<lambda>(k, r). (k, f r)) = fst"
  by auto

lemma db_wf_sweep_spec: "db_wf s \<Longrightarrow> db_wf (sweep_spec now s)"
  by (simp add: db_wf_def sweep_spec_def coll_wf_def)

lemma sweep_spec_idem: "sweep_spec now (sweep_spec now s) = sweep_spec now s"
  by (simp add: sweep_spec_def comp_def case_prod_beta)

lemma demoted_count_sweep_spec: "demoted_count now (sweep_spec now s) = 0"
proof -
  have "\<not> (status (demote now r) = Some Active \<and> is_stale (now - heartbeatTimeout) (demote now r))" for r
    by (auto simp: demote_def mark_inactive_def)
  then show ?thesis
    by (auto simp: demoted_count_def sweep_spec_def active_responders_def coll_where_def
             filter_empty_conv)
qed

text \<open>
  Claim C6. Refinement: on a well-formed store the sweep returns the number of stale active
  responders and leaves the store as the specification \<open>sweep_spec\<close> describes.
\<close>

theorem markInactiveResponders_refines:
  "db_wf s \<Longrightarrow> markInactiveResponders now s = (Inr (demoted_count now s), sweep_spec now s)"
  by (rule markInactiveResponders_eq)

text \<open>
  Claim C7. Idempotence: a second sweep at the same time demotes nobody and changes nothing.
\<close>

theorem sweep_idempotent:
  assumes "db_wf s" and "markInactiveResponders now s = (Inr n, s1)"
  shows "markInactiveResponders now s1 = (Inr 0, s1)"
proof -
  have s1: "s1 = sweep_spec now s"
    using assms markInactiveResponders_eq [OF assms(1), of now] by simp
  show ?thesis
    using markInactiveResponders_eq [OF db_wf_sweep_spec [OF assms(1)], of now]
    by (simp add: s1 sweep_spec_idem demoted_count_sweep_spec)
qed

text \<open>
  Claim C8. The specification's scenario: against the 3-minute timeout, an active responder whose
  last heartbeat is 4 minutes old is demoted, one whose heartbeat is 2 minutes old is
  kept, and so is one exactly 3 minutes old (the comparison is strict).
\<close>

theorem demote_heartbeat_age:
  assumes "status r = Some Active"
  shows "status (demote now (r\<lparr>lastHeartbeat := Some (now - 4 * 60 * 1000)\<rparr>)) = Some Inactive \<and>
    demote now (r\<lparr>lastHeartbeat := Some (now - 2 * 60 * 1000)\<rparr>) =
      r\<lparr>lastHeartbeat := Some (now - 2 * 60 * 1000)\<rparr> \<and>
    demote now (r\<lparr>lastHeartbeat := Some (now - 3 * 60 * 1000)\<rparr>) =
      r\<lparr>lastHeartbeat := Some (now - 3 * 60 * 1000)\<rparr>"
  using assms
  by (simp add: demote_def is_stale_def last_seen_def heartbeatTimeout_def mark_inactive_def)

subsection \<open>Eventual demotion\<close>

lemma sweep_at_key:
  "db_wf s \<Longrightarrow>
   map_of (responders (snd (markInactiveResponders now s))) k = map_option (demote now) (map_of (responders s) k)"
  by (simp add: markInactiveResponders_eq sweep_spec_def map_of_map_demote)

lemma db_wf_sweep: "db_wf s \<Longrightarrow> db_wf (snd (markInactiveResponders now s))"
  by (simp add: markInactiveResponders_eq db_wf_sweep_spec)

lemma run_sweeps_keeps_inactive:
  "db_wf s \<Longrightarrow> map_of (responders s) k = Some r \<Longrightarrow> status r = Some Inactive \<Longrightarrow>
   \<exists>r'. map_of (responders (run_sweeps ts s)) k = Some r' \<and> status r' = Some Inactive"
proof (induction ts arbitrary: s r)
  case Nil
  then show ?case by simp
next
  case (Cons now ts)
  have "demote now r = r" using Cons.prems(3) by (simp add: demote_def)
  then show ?case
    using Cons.IH [OF db_wf_sweep [OF Cons.prems(1)]] Cons.prems sweep_at_key [OF Cons.prems(1), of now k]
    by simp
qed

text \<open>
  Claim C11. Liveness of the monitor: an active responder whose last sign of life is at
  \<open>t\<close> and who sends nothing more is inactive after any sequence of sweeps that
  includes one invoked later than \<open>t\<close> plus the 3-minute timeout.
\<close>

theorem silent_responder_demoted:
  assumes "db_wf s" and "map_of (responders s) k = Some r" and "status r = Some Active"
    and "last_seen r = Some t" and "now \<in> set ts" and "t + heartbeatTimeout < now"
  shows "\<exists>r'. map_of (responders (run_sweeps ts s)) k = Some r' \<and> status r' = Some Inactive"
  using assms
proof (induction ts arbitrary: s r)
  case Nil
  then show ?case by simp
next
  case (Cons n ts)
  let ?s1 = "snd (markInactiveResponders n s)"
  have wf1: "db_wf ?s1" and k1: "map_of (responders ?s1) k = Some (demote n r)"
    using db_wf_sweep [OF Cons.prems(1)] sweep_at_key [OF Cons.prems(1)] Cons.prems(2) by auto
  show ?case
  proof (cases "is_stale (n - heartbeatTimeout) r")
    case True
    then have "status (demote n r) = Some Inactive"
      using Cons.prems(3) by (simp add: demote_def mark_inactive_def)
    then show ?thesis using run_sweeps_keeps_inactive [OF wf1 k1] by simp
  next
    case False
    then have "demote n r = r" and "n \<noteq> now"
      using Cons.prems(4,6) by (auto simp: demote_def is_stale_def)
    then show ?thesis using Cons.IH [OF wf1] k1 Cons.prems by simp
  qed
qed

end
