(* ===== verification/OtpGate.thy ===== *)
theory OtpGate
  imports Prelude "HOL-Library.Sublist"
begin

text \<open>
  The OTP Security Gate, \<open>src/functions/triggers/otptriggers.js\<close>: \<open>sendOtpHandler\<close>
  (lines 48-134) and \<open>verifyOtpHandler\<close> (lines 136-239), with \<open>generateOTP\<close>
  and the e-mail channel. Its state is a separate part of the database, keyed by
  e-mail: \<open>otps\<close>, \<open>rateLimits\<close>, \<open>failedAttempts\<close>, the \<open>users\<close> profiles,
  the Firebase Auth accounts and the append-only \<open>auditLogs\<close>. These documents are
  only read and written by key, never queried, so each collection is a map.

  Both handlers read the time with \<open>db.Timestamp.now()\<close> (lines 58 and 147), right
  after checking their input. \<open>db\<close> is the Firestore instance
  \<open>admin.firestore()\<close>, which has no \<open>Timestamp\<close> member (the class is
  \<open>admin.firestore.Timestamp\<close>, on the namespace), so the call throws a
  \<open>TypeError\<close>, which the callable runtime reports as \<open>internal\<close>. As written,
  every request that passes the input check fails there and writes nothing
  (\<open>sendOtpHandler\<close>, \<open>verifyOtpHandler\<close> below). The code past that line is
  modelled as well, as \<open>sendOtp_reached\<close> and \<open>verifyOtp_reached\<close>, the handlers run
  with the time they would have read: they are what the handlers do once line 58 and
  line 147 are corrected, and their lemmas (round trip, rate window, lockout, the
  invariant of their reachable states) describe that code, which the deployed
  program never reaches. What the environment decides is an argument: the random
  draw of \<open>generateOTP\<close> (\<open>k = floor(random * 900000)\<close>, so \<open>k < 900000\<close>),
  whether SendGrid sends the mail, the uid Firebase Auth gives a new account, and
  whether setting the password succeeds. \<open>../config/firebaseAdmin\<close>, which the
  module requires for \<open>admin\<close>, is not in the repository; it is taken to export the
  Admin SDK.
\<close>

type_synonym email = string

definition OTP_EXPIRY_MINUTES :: int where "OTP_EXPIRY_MINUTES = 5"
definition MAX_ATTEMPTS_PER_HOUR :: nat where "MAX_ATTEMPTS_PER_HOUR = 3"
definition LOCKOUT_MINUTES :: int where "LOCKOUT_MINUTES = 30"

record otp_doc =
  otp :: string
  expiresAt :: time
  createdAt :: time
  ip :: string

record rate_doc =
  rate_count :: nat
  resetAt :: time

record failed_doc =
  fail_count :: nat
  lockedUntil :: "time option"

record user_doc =
  u_uid :: string
  u_email :: email
  u_verified :: bool
  u_createdAt :: time
  u_role :: string

datatype audit_action = OTP_SENT | OTP_FAILED | USER_VERIFIED

datatype audit_details = Attempts nat | Fails nat | VerifiedUid string

record audit_entry =
  action :: audit_action
  au_email :: email
  au_timestamp :: time
  au_details :: audit_details

record otp_state =
  otps :: "email \<rightharpoonup> otp_doc"
  rateLimits :: "email \<rightharpoonup> rate_doc"
  failedAttempts :: "email \<rightharpoonup> failed_doc"
  users :: "string \<rightharpoonup> user_doc"
  auth_accounts :: "email \<rightharpoonup> string"
  passwords :: "string \<rightharpoonup> string"
  auditLogs :: "audit_entry list"

subsection \<open>Helpers of the handlers\<close>

text \<open>\<open>String.prototype.endsWith\<close>.\<close>

definition endsWith :: "string \<Rightarrow> string \<Rightarrow> bool" where
  "endsWith s suf \<longleftrightarrow> length suf \<le> length s \<and> drop (length s - length suf) s = suf"

definition student_domain :: string where
  "student_domain = ''@students.unilorin.edu.ng''"

text \<open>\<open>Number.prototype.toString\<close> on a non-negative integer: its decimal digits.\<close>

definition digit_char :: "nat \<Rightarrow> char" where
  "digit_char d = ''0123456789'' ! d"

fun decimal :: "nat \<Rightarrow> string" where
  "decimal n = (if n < 10 then [digit_char n] else decimal (n div 10) @ [digit_char (n mod 10)])"

declare decimal.simps [simp del]

text \<open>Reading a digit string back, the inverse used for the round-trip lemma.\<close>

definition digit_val :: "char \<Rightarrow> nat" where
  "digit_val c = of_char c - 48"

definition parse_decimal :: "string \<Rightarrow> nat" where
  "parse_decimal s = foldl (\<lambda>acc c. 10 * acc + digit_val c) 0 s"

definition is_digit :: "char \<Rightarrow> bool" where
  "is_digit c \<longleftrightarrow> (48::nat) \<le> of_char c \<and> (of_char c :: nat) \<le> 57"

definition generateOTP :: "nat \<Rightarrow> string" where
  "generateOTP k = decimal (100000 + k)"

definition audit :: "audit_action \<Rightarrow> email \<Rightarrow> time \<Rightarrow> audit_details \<Rightarrow> otp_state \<Rightarrow> otp_state" where
  "audit act e now d st =
     st\<lparr>auditLogs := auditLogs st @ [\<lparr>action = act, au_email = e, au_timestamp = now, au_details = d\<rparr>]\<rparr>"

text \<open>The rate-limit count this request would have (lines 62-74).\<close>

definition rate_attempts :: "otp_state \<Rightarrow> email \<Rightarrow> time \<Rightarrow> nat" where
  "rate_attempts st e now =
     (case rateLimits st e of
        Some rd \<Rightarrow> if now - 60 * 60 * 1000 < resetAt rd then rate_count rd + 1 else 1
      | None \<Rightarrow> 1)"

definition is_locked :: "otp_state \<Rightarrow> email \<Rightarrow> time \<Rightarrow> bool" where
  "is_locked st e now =
     (case failedAttempts st e of
        Some fd \<Rightarrow> (case lockedUntil fd of Some t \<Rightarrow> now < t | None \<Rightarrow> False)
      | None \<Rightarrow> False)"

subsection \<open>The handlers past the time read\<close>

definition sendOtp_reached ::
  "string option \<Rightarrow> string \<Rightarrow> time \<Rightarrow> nat \<Rightarrow> bool \<Rightarrow> otp_state \<Rightarrow> (unit, otp_state) result"
where
  "sendOtp_reached email reqip now k mail_ok st =
     (case email of
        None \<Rightarrow> (Inl ValidationError, st)
      | Some e \<Rightarrow>
          (if e = [] \<or> \<not> endsWith e student_domain then (Inl ValidationError, st)
           else
             (let attempts = rate_attempts st e now in
              if MAX_ATTEMPTS_PER_HOUR < attempts then (Inl RateLimitExceeded, st)
              else
                (let st1 = st\<lparr>rateLimits := (rateLimits st)(e \<mapsto>
                              \<lparr>rate_count = attempts, resetAt = now + 60 * 60 * 1000\<rparr>)\<rparr> in
                 if is_locked st1 e now then (Inl AccountLocked, st1)
                 else
                   (let st2 = st1\<lparr>otps := (otps st1)(e := None)\<rparr>;
                        code = generateOTP k;
                        st3 = st2\<lparr>otps := (otps st2)(e \<mapsto>
                                \<lparr>otp = code, expiresAt = now + OTP_EXPIRY_MINUTES * 60 * 1000,
                                 createdAt = now, ip = reqip\<rparr>)\<rparr>
                    in if \<not> mail_ok then (Inl InternalError, st3)
                       else (Inr (), audit OTP_SENT e now (Attempts attempts) st3))))))"

definition otp_matches :: "otp_state \<Rightarrow> email \<Rightarrow> string \<Rightarrow> time \<Rightarrow> bool" where
  "otp_matches st e code now =
     (case otps st e of
        None \<Rightarrow> False
      | Some d \<Rightarrow> otp d = code \<and> \<not> expiresAt d < now)"

definition record_failure :: "email \<Rightarrow> time \<Rightarrow> otp_state \<Rightarrow> otp_state" where
  "record_failure e now st =
     (let fails = (case failedAttempts st e of Some fd \<Rightarrow> fail_count fd + 1 | None \<Rightarrow> 1) in
      audit OTP_FAILED e now (Fails fails)
        (st\<lparr>failedAttempts := (failedAttempts st)(e \<mapsto>
           \<lparr>fail_count = fails,
            lockedUntil = (if 5 \<le> fails then Some (now + LOCKOUT_MINUTES * 60 * 1000) else None)\<rparr>)\<rparr>))"

definition provision_account :: "email \<Rightarrow> string \<Rightarrow> otp_state \<Rightarrow> string \<times> otp_state" where
  "provision_account e fresh st =
     (case auth_accounts st e of
        Some u \<Rightarrow> (u, st)
      | None \<Rightarrow> (fresh, st\<lparr>auth_accounts := (auth_accounts st)(e \<mapsto> fresh)\<rparr>))"

definition verifyOtp_reached ::
  "string option \<Rightarrow> string option \<Rightarrow> string option \<Rightarrow> time \<Rightarrow> string \<Rightarrow> bool \<Rightarrow> otp_state \<Rightarrow>
   (string, otp_state) result"
where
  "verifyOtp_reached email code password now fresh pw_ok st =
     (case (email, code) of
        (Some e, Some c) \<Rightarrow>
          (if e = [] \<or> c = [] then (Inl ValidationError, st)
           else if \<not> otp_matches st e c now then (Inl InvalidOrExpiredOTP, record_failure e now st)
           else
             (let st1 = st\<lparr>otps := (otps st)(e := None), rateLimits := (rateLimits st)(e := None),
                          failedAttempts := (failedAttempts st)(e := None)\<rparr>;
                  (uid, st2) = provision_account e fresh st1;
                  st3 = (if truthy_str password \<and> pw_ok
                         then st2\<lparr>passwords := (passwords st2)(uid \<mapsto> the password)\<rparr> else st2);
                  st4 = st3\<lparr>users := (users st3)(uid \<mapsto>
                          \<lparr>u_uid = uid, u_email = e, u_verified = True, u_createdAt = now,
                           u_role = ''student''\<rparr>)\<rparr>
              in (Inr uid, audit USER_VERIFIED e now (VerifiedUid uid) st4)))
      | _ \<Rightarrow> (Inl ValidationError, st))"

text \<open>
  \<open>db.Timestamp.now()\<close> on the Firestore instance (lines 58 and 147): \<open>db.Timestamp\<close>
  is undefined, so the call throws a \<open>TypeError\<close> whatever the time \<open>clock\<close> it
  would read; the callable runtime reports an error that is not an \<open>HttpsError\<close>
  as \<open>internal\<close>.
\<close>

definition db_Timestamp_now :: "time \<Rightarrow> error + time" where
  "db_Timestamp_now clock = Inl InternalError"

text \<open>
  The deployed handlers: the input check (lines 50-56 and 139-145), then the time,
  then the rest. \<open>request.ip\<close> (line 120) is the request's \<open>ip\<close> field, absent
  (\<open>None\<close>) on a callable request, which carries its HTTP request as
  \<open>rawRequest\<close>; \<open>request.ip || "unknown"\<close> is then \<open>unknown\<close>.
\<close>

definition sendOtpHandler ::
  "string option \<Rightarrow> string option \<Rightarrow> time \<Rightarrow> nat \<Rightarrow> bool \<Rightarrow> otp_state \<Rightarrow> (unit, otp_state) result"
where
  "sendOtpHandler email reqip clock k mail_ok st =
     (case email of
        None \<Rightarrow> (Inl ValidationError, st)
      | Some e \<Rightarrow>
          (if e = [] \<or> \<not> endsWith e student_domain then (Inl ValidationError, st)
           else (case db_Timestamp_now clock of
                   Inl err \<Rightarrow> (Inl err, st)
                 | Inr now \<Rightarrow> sendOtp_reached email (str_or reqip ''unknown'') now k mail_ok st)))"

definition verifyOtpHandler ::
  "string option \<Rightarrow> string option \<Rightarrow> string option \<Rightarrow> time \<Rightarrow> string \<Rightarrow> bool \<Rightarrow> otp_state \<Rightarrow>
   (string, otp_state) result"
where
  "verifyOtpHandler email code password clock fresh pw_ok st =
     (case (email, code) of
        (Some e, Some c) \<Rightarrow>
          (if e = [] \<or> c = [] then (Inl ValidationError, st)
           else (case db_Timestamp_now clock of
                   Inl err \<Rightarrow> (Inl err, st)
                 | Inr now \<Rightarrow> verifyOtp_reached email code password now fresh pw_ok st))
      | _ \<Rightarrow> (Inl ValidationError, st))"

text \<open>The results of the handlers' branches, named for the lemmas below.\<close>

definition valid_email :: "string \<Rightarrow> bool" where
  "valid_email e \<longleftrightarrow> e \<noteq> [] \<and> endsWith e student_domain"

definition rate_bumped :: "email \<Rightarrow> time \<Rightarrow> otp_state \<Rightarrow> otp_state" where
  "rate_bumped e now st = st\<lparr>rateLimits := (rateLimits st)(e \<mapsto>
      \<lparr>rate_count = rate_attempts st e now, resetAt = now + 60 * 60 * 1000\<rparr>)\<rparr>"

definition issued :: "email \<Rightarrow> string \<Rightarrow> time \<Rightarrow> nat \<Rightarrow> otp_state \<Rightarrow> otp_state" where
  "issued e rip now k st = st\<lparr>otps := (otps st)(e \<mapsto>
      \<lparr>otp = generateOTP k, expiresAt = now + OTP_EXPIRY_MINUTES * 60 * 1000, createdAt = now, ip = rip\<rparr>)\<rparr>"

definition verified :: "email \<Rightarrow> string option \<Rightarrow> time \<Rightarrow> string \<Rightarrow> bool \<Rightarrow> otp_state \<Rightarrow> string \<times> otp_state" where
  "verified e pw now fresh ok st =
     (let st1 = st\<lparr>otps := (otps st)(e := None), rateLimits := (rateLimits st)(e := None),
                  failedAttempts := (failedAttempts st)(e := None)\<rparr>;
          (uid, st2) = provision_account e fresh st1;
          st3 = (if truthy_str pw \<and> ok then st2\<lparr>passwords := (passwords st2)(uid \<mapsto> the pw)\<rparr> else st2);
          st4 = st3\<lparr>users := (users st3)(uid \<mapsto>
                  \<lparr>u_uid = uid, u_email = e, u_verified = True, u_createdAt = now, u_role = ''student''\<rparr>)\<rparr>
      in (uid, audit USER_VERIFIED e now (VerifiedUid uid) st4))"

text \<open>
  The gate's invariant, and its reachable states: from the empty database, any
  sequence of requests and verifications with any inputs, the random draw of each
  request being below 900000.
\<close>

definition otp_inv :: "otp_state \<Rightarrow> bool" where
  "otp_inv st \<longleftrightarrow>
     (\<forall>e d. otps st e = Some d \<longrightarrow>
        expiresAt d = createdAt d + OTP_EXPIRY_MINUTES * 60 * 1000 \<and> length (otp d) = 6) \<and>
     (\<forall>e rd. rateLimits st e = Some rd \<longrightarrow> 1 \<le> rate_count rd \<and> rate_count rd \<le> MAX_ATTEMPTS_PER_HOUR) \<and>
     (\<forall>e fd. failedAttempts st e = Some fd \<longrightarrow> (lockedUntil fd \<noteq> None \<longleftrightarrow> 5 \<le> fail_count fd))"

definition otp_empty :: otp_state where
  "otp_empty = \<lparr>otps = Map.empty, rateLimits = Map.empty, failedAttempts = Map.empty,
     users = Map.empty, auth_accounts = Map.empty, passwords = Map.empty, auditLogs = []\<rparr>"

inductive reached_reach :: "otp_state \<Rightarrow> bool" where
  start: "reached_reach otp_empty"
| send: "reached_reach st \<Longrightarrow> k < 900000 \<Longrightarrow> sendOtp_reached em rip now k ok st = (r, st') \<Longrightarrow> reached_reach st'"
| verify: "reached_reach st \<Longrightarrow> verifyOtp_reached em c pw now fresh ok st = (r', st') \<Longrightarrow> reached_reach st'"

text \<open>The gate's reachable states: from the empty database, any sequence of requests.\<close>

inductive otp_reach :: "otp_state \<Rightarrow> bool" where
  start: "otp_reach otp_empty"
| send: "otp_reach st \<Longrightarrow> sendOtpHandler em rip now k ok st = (r, st') \<Longrightarrow> otp_reach st'"
| verify: "otp_reach st \<Longrightarrow> verifyOtpHandler em c pw now fresh ok st = (r', st') \<Longrightarrow> otp_reach st'"

subsection \<open>Decimal digits\<close>

lemma digit_cases: "d < 10 \<Longrightarrow> d = 0 \<or> d = 1 \<or> d = 2 \<or> d = 3 \<or> d = 4 \<or> d = 5 \<or> d = 6 \<or> d = 7 \<or> d = 8 \<or> d = (9::nat)"
  by arith

lemma digit_val_char [simp]: "d < 10 \<Longrightarrow> digit_val (digit_char d) = d"
  using digit_cases [of d] by (auto simp: digit_val_def digit_char_def)

lemma is_digit_char [simp]: "d < 10 \<Longrightarrow> is_digit (digit_char d)"
  using digit_cases [of d] by (auto simp: is_digit_def digit_char_def)

lemma decimal_unfold:
  "decimal n = (if n < 10 then [digit_char n] else decimal (n div 10) @ [digit_char (n mod 10)])"
  by (rule decimal.simps)

lemma parse_decimal_snoc: "parse_decimal (xs @ [c]) = 10 * parse_decimal xs + digit_val c"
  by (simp add: parse_decimal_def)

lemma parse_decimal_decimal: "parse_decimal (decimal n) = n"
proof (induction n rule: decimal.induct)
  case (1 n)
  show ?case
  proof (cases "n < 10")
    case True
    then show ?thesis by (simp add: decimal_unfold [of n] parse_decimal_def)
  next
    case False
    then have "parse_decimal (decimal n) = 10 * (n div 10) + n mod 10"
      using "1.IH" by (simp add: decimal_unfold [of n] parse_decimal_snoc)
    then show ?thesis by simp
  qed
qed

lemma decimal_digits: "\<forall>c \<in> set (decimal n). is_digit c"
proof (induction n rule: decimal.induct)
  case (1 n)
  then show ?case by (subst decimal_unfold) auto
qed

lemma decimal_length: "10 ^ k \<le> n \<Longrightarrow> n < 10 ^ Suc k \<Longrightarrow> length (decimal n) = Suc k"
proof (induction k arbitrary: n)
  case 0
  then show ?case by (simp add: decimal_unfold [of n])
next
  case (Suc k)
  have "(10::nat) \<le> 10 ^ Suc k" by (induction k) auto
  then have ge: "\<not> n < 10" using Suc.prems(1) by linarith
  have "10 ^ k \<le> n div 10" using Suc.prems(1) by (simp add: less_eq_div_iff_mult_less_eq mult.commute)
  moreover have "n div 10 < 10 ^ Suc k" using Suc.prems(2) by (simp add: div_less_iff_less_mult mult.commute)
  ultimately have "length (decimal (n div 10)) = Suc k" by (rule Suc.IH)
  with ge show ?case by (simp add: decimal_unfold [of n])
qed

subsection \<open>endsWith is the suffix relation\<close>

lemma endsWith_suffix: "endsWith s suf \<longleftrightarrow> suffix suf s"
proof
  assume "endsWith s suf"
  then have "s = take (length s - length suf) s @ suf"
    by (metis append_take_drop_id endsWith_def)
  then show "suffix suf s" unfolding suffix_def by blast
next
  assume "suffix suf s"
  then obtain zs where "s = zs @ suf" by (auto simp: suffix_def)
  then show "endsWith s suf" by (simp add: endsWith_def)
qed

subsection \<open>Branches of the handlers past the time read\<close>

text \<open>
  The lemmas from here to the deployed handlers are about \<open>sendOtp_reached\<close> and
  \<open>verifyOtp_reached\<close>: the gate's logic as it runs once the time is obtained,
  which the deployed handlers never reach.
\<close>

lemma is_locked_rate [simp]: "is_locked (st\<lparr>rateLimits := x\<rparr>) e now = is_locked st e now"
  by (simp add: is_locked_def)

lemma sendOtp_invalid:
  "\<not> valid_email e \<Longrightarrow> sendOtp_reached (Some e) rip now k ok st = (Inl ValidationError, st)"
  by (simp add: sendOtp_reached_def valid_email_def)

lemma sendOtp_rate_limited:
  "valid_email e \<Longrightarrow> MAX_ATTEMPTS_PER_HOUR < rate_attempts st e now \<Longrightarrow>
   sendOtp_reached (Some e) rip now k ok st = (Inl RateLimitExceeded, st)"
  by (simp add: sendOtp_reached_def valid_email_def Let_def)

lemma sendOtp_locked:
  "valid_email e \<Longrightarrow> rate_attempts st e now \<le> MAX_ATTEMPTS_PER_HOUR \<Longrightarrow> is_locked st e now \<Longrightarrow>
   sendOtp_reached (Some e) rip now k ok st = (Inl AccountLocked, rate_bumped e now st)"
  by (simp add: sendOtp_reached_def valid_email_def Let_def rate_bumped_def not_less)

lemma sendOtp_mail_fails:
  "valid_email e \<Longrightarrow> rate_attempts st e now \<le> MAX_ATTEMPTS_PER_HOUR \<Longrightarrow> \<not> is_locked st e now \<Longrightarrow>
   sendOtp_reached (Some e) rip now k False st = (Inl InternalError, issued e rip now k (rate_bumped e now st))"
  by (simp add: sendOtp_reached_def valid_email_def Let_def rate_bumped_def issued_def not_less)

lemma sendOtp_ok:
  "valid_email e \<Longrightarrow> rate_attempts st e now \<le> MAX_ATTEMPTS_PER_HOUR \<Longrightarrow> \<not> is_locked st e now \<Longrightarrow>
   sendOtp_reached (Some e) rip now k True st =
     (Inr (), audit OTP_SENT e now (Attempts (rate_attempts st e now)) (issued e rip now k (rate_bumped e now st)))"
  by (simp add: sendOtp_reached_def valid_email_def Let_def rate_bumped_def issued_def not_less)

lemma sendOtp_Inr_iff:
  "sendOtp_reached (Some e) rip now k ok st = (Inr (), st') \<longleftrightarrow>
   valid_email e \<and> rate_attempts st e now \<le> MAX_ATTEMPTS_PER_HOUR \<and> \<not> is_locked st e now \<and> ok \<and>
   st' = audit OTP_SENT e now (Attempts (rate_attempts st e now)) (issued e rip now k (rate_bumped e now st))"
  by (cases ok) (auto simp: sendOtp_reached_def valid_email_def Let_def rate_bumped_def issued_def not_less)

lemma verifyOtp_fail:
  "e \<noteq> [] \<Longrightarrow> c \<noteq> [] \<Longrightarrow> \<not> otp_matches st e c now \<Longrightarrow>
   verifyOtp_reached (Some e) (Some c) pw now fresh ok st = (Inl InvalidOrExpiredOTP, record_failure e now st)"
  by (simp add: verifyOtp_reached_def)

lemma verifyOtp_ok:
  "e \<noteq> [] \<Longrightarrow> c \<noteq> [] \<Longrightarrow> otp_matches st e c now \<Longrightarrow>
   verifyOtp_reached (Some e) (Some c) pw now fresh ok st =
     (Inr (fst (verified e pw now fresh ok st)), snd (verified e pw now fresh ok st))"
  by (simp add: verifyOtp_reached_def verified_def Let_def split: prod.splits)

lemma verified_fields:
  "fst (verified e pw now fresh ok st) = (case auth_accounts st e of Some u \<Rightarrow> u | None \<Rightarrow> fresh)"
  "otps (snd (verified e pw now fresh ok st)) = (otps st)(e := None)"
  "rateLimits (snd (verified e pw now fresh ok st)) = (rateLimits st)(e := None)"
  "failedAttempts (snd (verified e pw now fresh ok st)) = (failedAttempts st)(e := None)"
  "auth_accounts (snd (verified e pw now fresh ok st)) e =
     Some (case auth_accounts st e of Some u \<Rightarrow> u | None \<Rightarrow> fresh)"
  by (simp_all add: verified_def Let_def provision_account_def audit_def split: option.splits prod.splits)

lemma audit_fields [simp]:
  "otps (audit a e now d st) = otps st"
  "rateLimits (audit a e now d st) = rateLimits st"
  "failedAttempts (audit a e now d st) = failedAttempts st"
  "users (audit a e now d st) = users st"
  "auth_accounts (audit a e now d st) = auth_accounts st"
  "passwords (audit a e now d st) = passwords st"
  by (simp_all add: audit_def)

lemma decimal_nonempty [simp]: "decimal n \<noteq> []"
  by (subst decimal_unfold) simp

lemma generateOTP_nonempty [simp]: "generateOTP k \<noteq> []"
  by (simp add: generateOTP_def)

lemma sendOtp_Inr_otps:
  assumes "sendOtp_reached (Some e) rip now k ok st = (Inr (), st1)"
  shows "otps st1 e = Some \<lparr>otp = generateOTP k, expiresAt = now + OTP_EXPIRY_MINUTES * 60 * 1000,
                            createdAt = now, ip = rip\<rparr>"
    and "auth_accounts st1 = auth_accounts st" and "valid_email e"
    and "rateLimits st1 e = Some \<lparr>rate_count = rate_attempts st e now, resetAt = now + 60 * 60 * 1000\<rparr>"
    and "failedAttempts st1 = failedAttempts st"
  using assms by (auto simp: sendOtp_Inr_iff issued_def rate_bumped_def)

text \<open>
  Round trip: after a successful request, verifying with the issued code
  within the 5-minute expiry succeeds and returns the account id (the existing
  account's, else the new one), and replaying the same code then fails, because the
  challenge was consumed.
\<close>

theorem otp_round_trip:
  assumes send: "sendOtp_reached (Some e) rip now k True st = (Inr (), st1)"
    and window: "now' \<le> now + OTP_EXPIRY_MINUTES * 60 * 1000"
  shows "\<exists>st2 st3.
     verifyOtp_reached (Some e) (Some (generateOTP k)) pw now' fresh ok st1 =
       (Inr (case auth_accounts st e of Some u \<Rightarrow> u | None \<Rightarrow> fresh), st2) \<and>
     verifyOtp_reached (Some e) (Some (generateOTP k)) pw' now'' fresh' ok' st2 =
       (Inl InvalidOrExpiredOTP, st3)"
proof -
  have e: "e \<noteq> []" using sendOtp_Inr_otps(3) [OF send] by (simp add: valid_email_def)
  have m: "otp_matches st1 e (generateOTP k) now'"
    using sendOtp_Inr_otps(1) [OF send] window by (simp add: otp_matches_def)
  let ?st2 = "snd (verified e pw now' fresh ok st1)"
  have v1: "verifyOtp_reached (Some e) (Some (generateOTP k)) pw now' fresh ok st1 =
      (Inr (case auth_accounts st e of Some u \<Rightarrow> u | None \<Rightarrow> fresh), ?st2)"
    using verifyOtp_ok [OF e generateOTP_nonempty m] verified_fields(1)
      sendOtp_Inr_otps(2) [OF send] by simp
  have "\<not> otp_matches ?st2 e (generateOTP k) now''"
    by (simp add: otp_matches_def verified_fields(2))
  then have "verifyOtp_reached (Some e) (Some (generateOTP k)) pw' now'' fresh' ok' ?st2 =
      (Inl InvalidOrExpiredOTP, record_failure e now'' ?st2)"
    by (rule verifyOtp_fail [OF e generateOTP_nonempty])
  with v1 show ?thesis by blast
qed

text \<open>
  The rate-limit window. A successful request stores \<open>resetAt = now + 1 h\<close>,
  and a later request continues the count when \<open>resetAt > now' - 1 h\<close>: the count
  resets only two hours after the last accepted request, not one hour after the
  first request of the window.
\<close>

theorem rate_window_two_hours:
  assumes "sendOtp_reached (Some e) rip t k ok st = (Inr (), st1)"
  shows "rate_attempts st1 e t' =
    (if t' < t + 2 * 60 * 60 * 1000 then rate_attempts st e t + 1 else 1)"
  using sendOtp_Inr_otps(4) [OF assms] by (simp add: rate_attempts_def)

text \<open>
  Verification never reads the lockout record: a matching, unexpired code
  is accepted while the account is locked, and the success deletes the lockout.
\<close>

theorem verify_ignores_lockout:
  assumes "is_locked st e now" and "otp_matches st e c now" and "e \<noteq> []" and "c \<noteq> []"
  shows "\<exists>st'. verifyOtp_reached (Some e) (Some c) pw now fresh ok st =
      (Inr (case auth_accounts st e of Some u \<Rightarrow> u | None \<Rightarrow> fresh), st') \<and>
    failedAttempts st' e = None"
  using verifyOtp_ok [OF assms(3,4,2)] verified_fields(1,4) by simp

lemma send_unlocked_step:
  assumes "valid_email e" "rate_attempts st e now \<le> MAX_ATTEMPTS_PER_HOUR" "failedAttempts st e = None"
  shows "\<exists>st'. sendOtp_reached (Some e) rip now k True st = (Inr (), st') \<and>
    rateLimits st' e = Some \<lparr>rate_count = rate_attempts st e now, resetAt = now + 60 * 60 * 1000\<rparr> \<and>
    failedAttempts st' e = None"
proof -
  have "\<not> is_locked st e now" using assms(3) by (simp add: is_locked_def)
  then show ?thesis
    using sendOtp_ok [OF assms(1,2)] assms(3) by (simp add: issued_def rate_bumped_def)
qed

text \<open>
  Rate-limit boundary: for an address with no rate-limit and no lockout
  record, three requests within one hour succeed and a fourth within the same hour
  fails with RateLimitExceeded, changing nothing.
\<close>

theorem rate_limit_boundary:
  assumes e: "valid_email e" "rateLimits st e = None" "failedAttempts st e = None"
    and t: "t1 \<le> t2" "t2 \<le> t3" "t3 \<le> t4" "t4 < t1 + 60 * 60 * 1000"
  shows "\<exists>st1 st2 st3.
    sendOtp_reached (Some e) rip t1 k1 True st = (Inr (), st1) \<and>
    sendOtp_reached (Some e) rip t2 k2 True st1 = (Inr (), st2) \<and>
    sendOtp_reached (Some e) rip t3 k3 True st2 = (Inr (), st3) \<and>
    sendOtp_reached (Some e) rip t4 k4 True st3 = (Inl RateLimitExceeded, st3)"
proof -
  have a1: "rate_attempts st e t1 = 1" using e(2) by (simp add: rate_attempts_def)
  obtain st1 where s1: "sendOtp_reached (Some e) rip t1 k1 True st = (Inr (), st1)"
    "rateLimits st1 e = Some \<lparr>rate_count = 1, resetAt = t1 + 60 * 60 * 1000\<rparr>" "failedAttempts st1 e = None"
    using send_unlocked_step [OF e(1) _ e(3), of t1 rip k1] a1 by (auto simp: MAX_ATTEMPTS_PER_HOUR_def)
  have a2: "rate_attempts st1 e t2 = 2" using s1(2) t by (simp add: rate_attempts_def)
  obtain st2 where s2: "sendOtp_reached (Some e) rip t2 k2 True st1 = (Inr (), st2)"
    "rateLimits st2 e = Some \<lparr>rate_count = 2, resetAt = t2 + 60 * 60 * 1000\<rparr>" "failedAttempts st2 e = None"
    using send_unlocked_step [OF e(1) _ s1(3), of t2 rip k2] a2 by (auto simp: MAX_ATTEMPTS_PER_HOUR_def)
  have a3: "rate_attempts st2 e t3 = 3" using s2(2) t by (simp add: rate_attempts_def)
  obtain st3 where s3: "sendOtp_reached (Some e) rip t3 k3 True st2 = (Inr (), st3)"
    "rateLimits st3 e = Some \<lparr>rate_count = 3, resetAt = t3 + 60 * 60 * 1000\<rparr>"
    using send_unlocked_step [OF e(1) _ s2(3), of t3 rip k3] a3 by (auto simp: MAX_ATTEMPTS_PER_HOUR_def)
  have "MAX_ATTEMPTS_PER_HOUR < rate_attempts st3 e t4"
    using s3(2) t by (simp add: rate_attempts_def MAX_ATTEMPTS_PER_HOUR_def)
  then have "sendOtp_reached (Some e) rip t4 k4 True st3 = (Inl RateLimitExceeded, st3)"
    by (rule sendOtp_rate_limited [OF e(1)])
  with s1(1) s2(1) s3(1) show ?thesis by blast
qed

lemma record_failure_fields [simp]:
  "otps (record_failure e t st) = otps st"
  "rateLimits (record_failure e t st) = rateLimits st"
  "failedAttempts (record_failure e t st) = (failedAttempts st)(e \<mapsto>
     \<lparr>fail_count = (case failedAttempts st e of Some fd \<Rightarrow> fail_count fd + 1 | None \<Rightarrow> 1),
      lockedUntil = (if 5 \<le> (case failedAttempts st e of Some fd \<Rightarrow> fail_count fd + 1 | None \<Rightarrow> 1)
                     then Some (t + LOCKOUT_MINUTES * 60 * 1000) else None)\<rparr>)"
  by (simp_all add: record_failure_def Let_def audit_def)

lemma verify_without_challenge:
  "otps st e = None \<Longrightarrow> e \<noteq> [] \<Longrightarrow> c \<noteq> [] \<Longrightarrow>
   verifyOtp_reached (Some e) (Some c) pw t fresh ok st = (Inl InvalidOrExpiredOTP, record_failure e t st)"
  by (simp add: verifyOtp_fail otp_matches_def)

text \<open>
  Lockout boundary: with no challenge outstanding, five failed
  verifications in a row leave a failure count of 5 and a lock until 30 minutes after
  the fifth, and a new OTP request within that lock fails with AccountLocked.
\<close>

theorem lockout_after_five_failures:
  assumes e: "valid_email e" "otps st e = None" "failedAttempts st e = None" "rateLimits st e = None"
    and c: "c \<noteq> []" and t6: "t6 < t5 + LOCKOUT_MINUTES * 60 * 1000"
  shows "\<exists>st1 st2 st3 st4 st5 st6.
    verifyOtp_reached (Some e) (Some c) pw t1 fresh ok st = (Inl InvalidOrExpiredOTP, st1) \<and>
    verifyOtp_reached (Some e) (Some c) pw t2 fresh ok st1 = (Inl InvalidOrExpiredOTP, st2) \<and>
    verifyOtp_reached (Some e) (Some c) pw t3 fresh ok st2 = (Inl InvalidOrExpiredOTP, st3) \<and>
    verifyOtp_reached (Some e) (Some c) pw t4 fresh ok st3 = (Inl InvalidOrExpiredOTP, st4) \<and>
    verifyOtp_reached (Some e) (Some c) pw t5 fresh ok st4 = (Inl InvalidOrExpiredOTP, st5) \<and>
    failedAttempts st5 e = Some \<lparr>fail_count = 5, lockedUntil = Some (t5 + LOCKOUT_MINUTES * 60 * 1000)\<rparr> \<and>
    sendOtp_reached (Some e) rip t6 k mail_ok st5 = (Inl AccountLocked, rate_bumped e t6 st5)"
proof -
  have ne: "e \<noteq> []" using e(1) by (simp add: valid_email_def)
  define st1 where "st1 = record_failure e t1 st"
  define st2 where "st2 = record_failure e t2 st1"
  define st3 where "st3 = record_failure e t3 st2"
  define st4 where "st4 = record_failure e t4 st3"
  define st5 where "st5 = record_failure e t5 st4"
  have o: "otps st1 e = None" "otps st2 e = None" "otps st3 e = None" "otps st4 e = None"
    using e(2) by (simp_all add: st1_def st2_def st3_def st4_def)
  have f5: "failedAttempts st5 e =
      Some \<lparr>fail_count = 5, lockedUntil = Some (t5 + LOCKOUT_MINUTES * 60 * 1000)\<rparr>"
    using e(3) by (simp add: st1_def st2_def st3_def st4_def st5_def)
  have "rate_attempts st5 e t6 = 1"
    using e(4) by (simp add: st1_def st2_def st3_def st4_def st5_def rate_attempts_def)
  moreover have "is_locked st5 e t6"
    using f5 t6 by (simp add: is_locked_def)
  ultimately have "sendOtp_reached (Some e) rip t6 k mail_ok st5 = (Inl AccountLocked, rate_bumped e t6 st5)"
    using sendOtp_locked [OF e(1)] by (simp add: MAX_ATTEMPTS_PER_HOUR_def)
  moreover have "verifyOtp_reached (Some e) (Some c) pw t1 fresh ok st = (Inl InvalidOrExpiredOTP, st1)"
    "verifyOtp_reached (Some e) (Some c) pw t2 fresh ok st1 = (Inl InvalidOrExpiredOTP, st2)"
    "verifyOtp_reached (Some e) (Some c) pw t3 fresh ok st2 = (Inl InvalidOrExpiredOTP, st3)"
    "verifyOtp_reached (Some e) (Some c) pw t4 fresh ok st3 = (Inl InvalidOrExpiredOTP, st4)"
    "verifyOtp_reached (Some e) (Some c) pw t5 fresh ok st4 = (Inl InvalidOrExpiredOTP, st5)"
    using verify_without_challenge [OF _ ne c] e(2) o
    by (simp_all add: st1_def st2_def st3_def st4_def st5_def)
  ultimately show ?thesis using f5 by blast
qed

subsection \<open>The generated code\<close>

lemma generateOTP_length:
  assumes "k < 900000"
  shows "length (generateOTP k) = 6"
proof -
  have "length (decimal (100000 + k)) = Suc 5"
    by (rule decimal_length) (use assms in simp_all)
  then show ?thesis by (simp add: generateOTP_def)
qed

text \<open>
  For every draw of \<open>Math.random\<close> the code is a string of six decimal
  digits that reads back as \<open>100000 + k\<close>.
\<close>

theorem generateOTP_roundtrip:
  "k < 900000 \<Longrightarrow>
   length (generateOTP k) = 6 \<and> list_all is_digit (generateOTP k) \<and> parse_decimal (generateOTP k) = 100000 + k"
  using generateOTP_length decimal_digits [of "100000 + k"] parse_decimal_decimal [of "100000 + k"]
  by (simp add: generateOTP_def list_all_iff)

subsection \<open>The invariant of the gate past the time read\<close>

lemma rate_attempts_pos: "1 \<le> rate_attempts st e now"
  by (simp add: rate_attempts_def split: option.splits)

lemma otp_inv_audit [simp]: "otp_inv (audit a e now d st) = otp_inv st"
  by (simp add: otp_inv_def)

lemma otp_inv_rate_bumped:
  "otp_inv st \<Longrightarrow> rate_attempts st e now \<le> MAX_ATTEMPTS_PER_HOUR \<Longrightarrow> otp_inv (rate_bumped e now st)"
  using rate_attempts_pos [of st e now] by (auto simp: otp_inv_def rate_bumped_def)

lemma otp_inv_issued: "otp_inv st \<Longrightarrow> k < 900000 \<Longrightarrow> otp_inv (issued e rip now k st)"
  using generateOTP_length [of k] by (auto simp: otp_inv_def issued_def)

lemma otp_inv_record_failure: "otp_inv st \<Longrightarrow> otp_inv (record_failure e now st)"
  by (auto simp: otp_inv_def split: option.splits)

lemma otp_inv_verified: "otp_inv st \<Longrightarrow> otp_inv (snd (verified e pw now fresh ok st))"
  by (auto simp: otp_inv_def verified_fields)

lemma otp_inv_send_branches:
  assumes "otp_inv st" "k < 900000" "rate_attempts st e now \<le> MAX_ATTEMPTS_PER_HOUR"
  shows "otp_inv (rate_bumped e now st) \<and> otp_inv (issued e rip now k (rate_bumped e now st)) \<and>
    otp_inv (audit a e now d (issued e rip now k (rate_bumped e now st)))"
  using otp_inv_rate_bumped [OF assms(1,3)] otp_inv_issued [OF _ assms(2)] by simp

lemma sendOtp_results:
  assumes "sendOtp_reached em rip now k ok st = (r, st')"
  shows "st' = st \<or>
    (\<exists>e. rate_attempts st e now \<le> MAX_ATTEMPTS_PER_HOUR \<and>
       (st' = rate_bumped e now st \<or> st' = issued e rip now k (rate_bumped e now st) \<or>
        st' = audit OTP_SENT e now (Attempts (rate_attempts st e now)) (issued e rip now k (rate_bumped e now st))))"
  using assms
  by (auto simp: sendOtp_reached_def Let_def rate_bumped_def issued_def not_less
           split: option.splits if_splits)

lemma verifyOtp_results:
  assumes run: "verifyOtp_reached em c pw now fresh ok st = (r, st')"
  shows "st' = st \<or> (\<exists>e. st' = record_failure e now st) \<or> (\<exists>e. st' = snd (verified e pw now fresh ok st))"
proof (cases "\<exists>e c'. em = Some e \<and> c = Some c' \<and> e \<noteq> [] \<and> c' \<noteq> []")
  case False
  then have "st' = st"
    using run by (auto simp: verifyOtp_reached_def split: option.splits)
  then show ?thesis by simp
next
  case True
  then obtain e c' where ec: "em = Some e" "c = Some c'" "e \<noteq> []" "c' \<noteq> []" by blast
  show ?thesis
  proof (cases "otp_matches st e c' now")
    case True
    then show ?thesis using run verifyOtp_ok [OF ec(3,4) True] ec by auto
  next
    case False
    then show ?thesis using run verifyOtp_fail [OF ec(3,4) False] ec by auto
  qed
qed

text \<open>
  In every reachable state of the gate, a stored challenge expires exactly
  5 minutes after its creation and holds a 6-character code, every rate-limit count
  is between 1 and 3, and a lockout is set exactly when the failure count has
  reached 5.
\<close>

theorem otp_reach_inv: "reached_reach st \<Longrightarrow> otp_inv st"
proof (induction rule: reached_reach.induct)
  case start
  then show ?case by (simp add: otp_inv_def otp_empty_def)
next
  case (send st k em rip now ok r st')
  from sendOtp_results [OF send.hyps(3)] show ?case
    using send.IH otp_inv_send_branches [OF send.IH send.hyps(2)] by auto
next
  case (verify st em c pw now fresh ok r' st')
  from verifyOtp_results [OF verify.hyps(2)] show ?case
    using verify.IH by (auto intro: otp_inv_record_failure otp_inv_verified)
qed

subsection \<open>The deployed handlers\<close>

text \<open>
  Every request fails before touching the gate: a bad input with
  \<open>invalid-argument\<close>, any other with \<open>internal\<close>, and the state is unchanged.
\<close>

lemma sendOtpHandler_fails:
  "sendOtpHandler em rip clock k ok st =
     (if em \<noteq> None \<and> valid_email (the em) then Inl InternalError else Inl ValidationError, st)"
  by (auto simp: sendOtpHandler_def db_Timestamp_now_def valid_email_def split: option.splits)

lemma verifyOtpHandler_fails:
  "verifyOtpHandler em c pw clock fresh ok st =
     (if em \<noteq> None \<and> c \<noteq> None \<and> the em \<noteq> [] \<and> the c \<noteq> [] then Inl InternalError else Inl ValidationError, st)"
  by (auto simp: verifyOtpHandler_def db_Timestamp_now_def split: option.splits)

text \<open>
  Claim C25. The gate never holds anything: every state reachable from the empty database by
  any requests is the empty database. No code is issued, no rate limit or lockout
  is recorded, no account or profile is created and nothing is audited.
\<close>

theorem otp_reach_empty: "otp_reach st \<Longrightarrow> st = otp_empty"
  by (induction rule: otp_reach.induct) (simp_all add: sendOtpHandler_fails verifyOtpHandler_fails)

end
