(* ===== verification/Scenarios.thy ===== *)
theory Scenarios
  imports Intake Lifecycle Registry Liveness OtpGate
begin

text \<open>
  Concrete databases on which the theorems of the component theories are applied:
  each \<open>_witness\<close> theorem discharges a theorem's hypotheses at one of these states,
  evaluating the definitions by simp, so that no theorem is about an empty case.
\<close>

definition campus :: geo where
  "campus = \<lparr>lat = 8.48, lng = 4.67\<rparr>"

definition resp_on_duty :: responder where
  "resp_on_duty = \<lparr>status = Some Active, currentLocation = Some (campus, 0),
     lastKnownLocation = None, lastHeartbeat = Some 0, lastActiveAt = Some 0,
     lastInactiveAt = None, assignedEmergency = None, expoPushToken = Some ''tok1'', rprofile = None\<rparr>"

definition gate_location :: report_location where
  "gate_location = \<lparr>lat = 8.49, lng = 4.67, readableAddress = Some ''Main gate''\<rparr>"

definition security_request :: report_request where
  "security_request = \<lparr>req_type = Some ''security'', req_location = Some gate_location,
     req_details = None, req_notes = None, req_urgency = Some ''high'', req_contactMethod = None,
     req_createdByUID = Some ''student1'', req_displayCode = None\<rparr>"

definition db_one :: "responder \<Rightarrow> db" where
  "db_one r = \<lparr>emergencies = [], responders = [(''r1'', r)], responders_alerts = [],
     clinic = [], fireDept = [], pushes = []\<rparr>"

definition report_e1 :: report where
  "report_e1 = new_report security_request ''security'' gate_location ''student1'' 0"

definition alert_e1 :: alert where
  "alert_e1 = new_alert report_e1 ''e1'' (Some ''r1'') 0"

definition db_assigned :: "alert_status \<Rightarrow> db" where
  "db_assigned st = \<lparr>emergencies = [(''e1'', report_e1)],
     responders = [(''r1'', resp_on_duty\<lparr>status := Some Busy, assignedEmergency := Some ''e1''\<rparr>)],
     responders_alerts = [(''e1'', alert_e1\<lparr>a_status := st\<rparr>)],
     clinic = [], fireDept = [], pushes = []\<rparr>"

definition db_two_alerts :: db where
  "db_two_alerts = \<lparr>emergencies = [], responders = [(''r1'', resp_on_duty)],
     responders_alerts = [(''e1'', alert_e1), (''e2'', alert_e1\<lparr>a_emergencyId := ''e2''\<rparr>)],
     clinic = [], fireDept = [], pushes = []\<rparr>"

definition student_email :: string where
  "student_email = ''a@students.unilorin.edu.ng''"

definition otp_after_request :: otp_state where
  "otp_after_request = snd (sendOtp_reached (Some student_email) ''10.0.0.1'' 0 23456 True otp_empty)"

lemmas scenario_defs = campus_def resp_on_duty_def gate_location_def security_request_def
  db_one_def report_e1_def alert_e1_def db_assigned_def

lemma db_wf_db_one: "db_wf (db_one r)"
  by (simp add: db_wf_def db_one_def coll_wf_def)

lemma db_wf_db_assigned: "db_wf (db_assigned st)"
  by (simp add: db_wf_def db_assigned_def coll_wf_def)

lemma assign_read_db_one: "assign_read gate_location (db_one resp_on_duty) = Some ''r1''"
  by (simp add: assign_read_def active_responders_def coll_where_def scenario_defs loc_of_def)

theorem assign_read_nearest_witness:
  "db_wf (db_one resp_on_duty) \<and> assign_read gate_location (db_one resp_on_duty) = Some ''r1'' \<and>
   (\<exists>r g. map_of (responders (db_one resp_on_duty)) ''r1'' = Some r \<and> status r = Some Active \<and>
      loc_of r = Some g)"
  using db_wf_db_one assign_read_db_one
    assign_read_nearest [OF db_wf_db_one assign_read_db_one] by blast

theorem createEmergencyReport_assigns_witness:
  "db_wf (db_one resp_on_duty) \<and> req_type security_request = Some ''security'' \<and>
   req_location security_request = Some gate_location \<and>
   req_createdByUID security_request = Some ''student1'' \<and> ''student1'' \<noteq> [] \<and>
   assign_read gate_location (db_one resp_on_duty) = Some ''r1'' \<and>
   (\<exists>s' r a. createEmergencyReport security_request ''e1'' 0 (db_one resp_on_duty) = (Inr ''e1'', s') \<and>
     map_of (responders (db_one resp_on_duty)) ''r1'' = Some r \<and> status r = Some Active \<and>
     map_of (responders s') ''r1'' = Some (r\<lparr>status := Some Busy, assignedEmergency := Some ''e1''\<rparr>) \<and>
     map_of (responders_alerts s') ''e1'' = Some a \<and>
     a_assignedResponder a = Some ''r1'' \<and> a_status a = Pending)"
proof -
  have req: "req_type security_request = Some ''security''"
    "req_location security_request = Some gate_location"
    "req_createdByUID security_request = Some ''student1''" "''student1'' \<noteq> []"
    by (simp_all add: security_request_def)
  show ?thesis
    using req db_wf_db_one assign_read_db_one
      createEmergencyReport_assigns [OF db_wf_db_one req assign_read_db_one, of "''e1''" 0]
    by blast
qed

theorem createEmergencyReport_no_candidate_witness:
  "req_type security_request = Some ''security'' \<and>
   req_location security_request = Some gate_location \<and>
   req_createdByUID security_request = Some ''student1'' \<and> ''student1'' \<noteq> [] \<and>
   (\<exists>s' a. createEmergencyReport security_request ''e1'' 0 (db_one (resp_on_duty\<lparr>status := Some Inactive\<rparr>))
       = (Inr ''e1'', s') \<and>
     map_of (responders_alerts s') ''e1'' = Some a \<and>
     a_assignedResponder a = None \<and> a_status a = Pending \<and>
     responders s' = responders (db_one (resp_on_duty\<lparr>status := Some Inactive\<rparr>)))"
proof -
  have req: "req_type security_request = Some ''security''"
    "req_location security_request = Some gate_location"
    "req_createdByUID security_request = Some ''student1''" "''student1'' \<noteq> []"
    by (simp_all add: security_request_def)
  have none: "\<forall>(k, r) \<in> set (responders (db_one (resp_on_duty\<lparr>status := Some Inactive\<rparr>))).
      status r = Some Active \<longrightarrow> loc_of r = None"
    by (simp add: db_one_def)
  show ?thesis
    using req createEmergencyReport_no_candidate [OF req none, of "''e1''" 0] by blast
qed

theorem completeEmergency_releases_witness:
  "''r1'' \<noteq> [] \<and> ''e1'' \<noteq> [] \<and>
   map_of (responders (db_assigned Accepted)) ''r1'' =
     Some (resp_on_duty\<lparr>status := Some Busy, assignedEmergency := Some ''e1''\<rparr>) \<and>
   map_of (emergencies (db_assigned Accepted)) ''e1'' = Some report_e1 \<and>
   (\<exists>s'. completeEmergency (Some ''r1'') (Some ''e1'') 5 (db_assigned Accepted) = (Inr (), s') \<and>
     map_of (responders s') ''r1'' =
       Some (resp_on_duty\<lparr>status := Some Busy, assignedEmergency := Some ''e1''\<rparr>
               \<lparr>status := Some Active, assignedEmergency := None, lastActiveAt := Some 5\<rparr>) \<and>
     map_of (emergencies s') ''e1'' = Some (report_e1\<lparr>e_status := RepCompleted, e_completedAt := Some 5\<rparr>) \<and>
     responders_alerts s' = responders_alerts (db_assigned Accepted))"
proof -
  have h: "''r1'' \<noteq> []" "''e1'' \<noteq> []"
    "map_of (responders (db_assigned Accepted)) ''r1'' =
       Some (resp_on_duty\<lparr>status := Some Busy, assignedEmergency := Some ''e1''\<rparr>)"
    "map_of (emergencies (db_assigned Accepted)) ''e1'' = Some report_e1"
    by (simp_all add: db_assigned_def)
  show ?thesis
    using h completeEmergency_releases [OF h, of 5] by blast
qed

theorem handleAccept_any_status_witness:
  "map_of (responders_alerts (db_assigned Declined)) ''e1'' = Some (alert_e1\<lparr>a_status := Declined\<rparr>) \<and>
   map_of (responders (db_assigned Declined)) ''r1'' =
     Some (resp_on_duty\<lparr>status := Some Busy, assignedEmergency := Some ''e1''\<rparr>) \<and>
   (\<exists>s'. handleAccept ''e1'' ''r1'' 7 (db_assigned Declined) = (Inr (), s') \<and>
     map_of (responders_alerts s') ''e1'' =
       Some (alert_e1\<lparr>a_status := Declined\<rparr>\<lparr>a_status := Accepted, a_acceptedAt := Some 7,
                                                 a_responderUID := Some ''r1''\<rparr>) \<and>
     map_of (responders s') ''r1'' =
       Some (resp_on_duty\<lparr>status := Some Busy, assignedEmergency := Some ''e1''\<rparr>
               \<lparr>status := Some Busy, assignedEmergency := Some ''e1''\<rparr>))"
proof -
  have h: "map_of (responders_alerts (db_assigned Declined)) ''e1'' = Some (alert_e1\<lparr>a_status := Declined\<rparr>)"
    "map_of (responders (db_assigned Declined)) ''r1'' =
       Some (resp_on_duty\<lparr>status := Some Busy, assignedEmergency := Some ''e1''\<rparr>)"
    by (simp_all add: db_assigned_def)
  show ?thesis
    using h handleAccept_any_status [OF h, of 7] by blast
qed

theorem heartbeat_sets_active_witness:
  "''r1'' \<noteq> [] \<and>
   map_of (responders (db_assigned Pending)) ''r1'' =
     Some (resp_on_duty\<lparr>status := Some Busy, assignedEmergency := Some ''e1''\<rparr>) \<and>
   (\<exists>s'. updateResponderHeartbeat (Some ''r1'') None 9 (db_assigned Pending) = (Inr (), s') \<and>
     map_of (responders s') ''r1'' =
       Some (heartbeat_fields None 9 (resp_on_duty\<lparr>status := Some Busy, assignedEmergency := Some ''e1''\<rparr>)) \<and>
     status (heartbeat_fields None 9 (resp_on_duty\<lparr>status := Some Busy, assignedEmergency := Some ''e1''\<rparr>))
       = Some Active \<and>
     assignedEmergency (heartbeat_fields None 9
         (resp_on_duty\<lparr>status := Some Busy, assignedEmergency := Some ''e1''\<rparr>)) =
       assignedEmergency (resp_on_duty\<lparr>status := Some Busy, assignedEmergency := Some ''e1''\<rparr>) \<and>
     lastHeartbeat (heartbeat_fields None 9
         (resp_on_duty\<lparr>status := Some Busy, assignedEmergency := Some ''e1''\<rparr>)) = Some 9)"
proof -
  have h: "''r1'' \<noteq> []"
    "map_of (responders (db_assigned Pending)) ''r1'' =
       Some (resp_on_duty\<lparr>status := Some Busy, assignedEmergency := Some ''e1''\<rparr>)"
    by (simp_all add: db_assigned_def)
  show ?thesis
    using h heartbeat_sets_active [OF h, of None 9] by blast
qed

theorem markInactiveResponders_refines_witness:
  "db_wf (db_one resp_on_duty) \<and>
   markInactiveResponders 600000 (db_one resp_on_duty) =
     (Inr (demoted_count 600000 (db_one resp_on_duty)), sweep_spec 600000 (db_one resp_on_duty))"
  using db_wf_db_one markInactiveResponders_refines [OF db_wf_db_one] by blast

theorem sweep_idempotent_witness:
  "db_wf (db_one resp_on_duty) \<and>
   markInactiveResponders 600000 (db_one resp_on_duty) =
     (Inr 1, db_one (mark_inactive 600000 resp_on_duty)) \<and>
   markInactiveResponders 600000 (db_one (mark_inactive 600000 resp_on_duty)) =
     (Inr 0, db_one (mark_inactive 600000 resp_on_duty))"
proof -
  have run: "markInactiveResponders 600000 (db_one resp_on_duty) =
      (Inr 1, db_one (mark_inactive 600000 resp_on_duty))"
    by (simp add: markInactiveResponders_def active_responders_def coll_where_def db_one_def
        resp_on_duty_def is_stale_def last_seen_def heartbeatTimeout_def update_responder_def
        mark_inactive_def)
  show ?thesis
    using db_wf_db_one run sweep_idempotent [OF db_wf_db_one run] by blast
qed

theorem demote_heartbeat_age_witness:
  "status resp_on_duty = Some Active \<and>
   status (demote 600000 (resp_on_duty\<lparr>lastHeartbeat := Some (600000 - 4 * 60 * 1000)\<rparr>)) = Some Inactive \<and>
   demote 600000 (resp_on_duty\<lparr>lastHeartbeat := Some (600000 - 2 * 60 * 1000)\<rparr>) =
     resp_on_duty\<lparr>lastHeartbeat := Some (600000 - 2 * 60 * 1000)\<rparr> \<and>
   demote 600000 (resp_on_duty\<lparr>lastHeartbeat := Some (600000 - 3 * 60 * 1000)\<rparr>) =
     resp_on_duty\<lparr>lastHeartbeat := Some (600000 - 3 * 60 * 1000)\<rparr>"
proof -
  have h: "status resp_on_duty = Some Active" by (simp add: resp_on_duty_def)
  show ?thesis using h demote_heartbeat_age [OF h, of 600000] by blast
qed

lemma student_email_valid: "valid_email student_email"
  by (simp add: valid_email_def endsWith_def student_domain_def student_email_def)

lemma otp_empty_fields [simp]:
  "rateLimits otp_empty e = None" "failedAttempts otp_empty e = None" "otps otp_empty e = None"
  "auth_accounts otp_empty e = None"
  by (simp_all add: otp_empty_def)

lemma first_request:
  "sendOtp_reached (Some student_email) ''10.0.0.1'' 0 23456 True otp_empty = (Inr (), otp_after_request)"
proof -
  have "rate_attempts otp_empty student_email 0 \<le> MAX_ATTEMPTS_PER_HOUR" "\<not> is_locked otp_empty student_email 0"
    by (simp_all add: rate_attempts_def MAX_ATTEMPTS_PER_HOUR_def is_locked_def)
  then show ?thesis
    using sendOtp_ok [OF student_email_valid] by (simp add: otp_after_request_def)
qed

theorem otp_round_trip_witness:
  "sendOtp_reached (Some student_email) ''10.0.0.1'' 0 23456 True otp_empty = (Inr (), otp_after_request) \<and>
   (60000::int) \<le> 0 + OTP_EXPIRY_MINUTES * 60 * 1000 \<and>
   (\<exists>st2 st3.
     verifyOtp_reached (Some student_email) (Some (generateOTP 23456)) (Some ''secret1'') 60000 ''uid1'' True
       otp_after_request = (Inr ''uid1'', st2) \<and>
     verifyOtp_reached (Some student_email) (Some (generateOTP 23456)) None 61000 ''uid2'' True st2 =
       (Inl InvalidOrExpiredOTP, st3))"
proof -
  have w: "(60000::int) \<le> 0 + OTP_EXPIRY_MINUTES * 60 * 1000" by (simp add: OTP_EXPIRY_MINUTES_def)
  show ?thesis
    using first_request w
      otp_round_trip [OF first_request w, of "Some ''secret1''" "''uid1''" True None 61000 "''uid2''" True]
    by simp
qed

theorem rate_window_two_hours_witness:
  "sendOtp_reached (Some student_email) ''10.0.0.1'' 0 23456 True otp_empty = (Inr (), otp_after_request) \<and>
   rate_attempts otp_after_request student_email (90 * 60 * 1000) = 2"
  using first_request rate_window_two_hours [OF first_request, of "90 * 60 * 1000"]
  by (simp add: rate_attempts_def)

definition otp_locked_with_code :: otp_state where
  "otp_locked_with_code = otp_after_request\<lparr>failedAttempts :=
     [student_email \<mapsto> \<lparr>fail_count = 5, lockedUntil = Some (30 * 60 * 1000)\<rparr>]\<rparr>"

theorem verify_ignores_lockout_witness:
  "is_locked otp_locked_with_code student_email 1000 \<and>
   otp_matches otp_locked_with_code student_email (generateOTP 23456) 1000 \<and>
   (\<exists>st'. verifyOtp_reached (Some student_email) (Some (generateOTP 23456)) None 1000 ''uid1'' True
      otp_locked_with_code = (Inr ''uid1'', st') \<and> failedAttempts st' student_email = None)"
proof -
  have otps: "otps otp_after_request student_email = Some \<lparr>otp = generateOTP 23456,
      expiresAt = 0 + OTP_EXPIRY_MINUTES * 60 * 1000, createdAt = 0, ip = ''10.0.0.1''\<rparr>"
    "auth_accounts otp_after_request = auth_accounts otp_empty"
    using sendOtp_Inr_otps(1,2) [OF first_request] by simp_all
  have h: "is_locked otp_locked_with_code student_email 1000"
    "otp_matches otp_locked_with_code student_email (generateOTP 23456) 1000"
    "student_email \<noteq> []" "generateOTP 23456 \<noteq> []"
    using otps(1)
    by (simp_all add: is_locked_def otp_locked_with_code_def otp_matches_def OTP_EXPIRY_MINUTES_def
        student_email_def)
  have "auth_accounts otp_locked_with_code student_email = None"
    using otps(2) by (simp add: otp_locked_with_code_def)
  then show ?thesis
    using h verify_ignores_lockout [OF h, of None "''uid1''" True] by simp
qed

theorem rate_limit_boundary_witness:
  "valid_email student_email \<and> rateLimits otp_empty student_email = None \<and>
   failedAttempts otp_empty student_email = None \<and>
   (\<exists>st1 st2 st3.
    sendOtp_reached (Some student_email) ''10.0.0.1'' 0 1 True otp_empty = (Inr (), st1) \<and>
    sendOtp_reached (Some student_email) ''10.0.0.1'' 1000 2 True st1 = (Inr (), st2) \<and>
    sendOtp_reached (Some student_email) ''10.0.0.1'' 2000 3 True st2 = (Inr (), st3) \<and>
    sendOtp_reached (Some student_email) ''10.0.0.1'' 3000 4 True st3 = (Inl RateLimitExceeded, st3))"
proof -
  have h: "valid_email student_email" "rateLimits otp_empty student_email = None"
    "failedAttempts otp_empty student_email = None"
    using student_email_valid by simp_all
  have t: "(0::int) \<le> 1000" "(1000::int) \<le> 2000" "(2000::int) \<le> 3000" "(3000::int) < 0 + 60 * 60 * 1000"
    by simp_all
  show ?thesis
    using h rate_limit_boundary [OF h t, of "''10.0.0.1''" 1 2 3 4] by blast
qed

theorem lockout_after_five_failures_witness:
  "valid_email student_email \<and> otps otp_empty student_email = None \<and>
   failedAttempts otp_empty student_email = None \<and> rateLimits otp_empty student_email = None \<and>
   ''000000'' \<noteq> [] \<and> (6000::int) < 5000 + LOCKOUT_MINUTES * 60 * 1000 \<and>
   (\<exists>st1 st2 st3 st4 st5 st6.
    verifyOtp_reached (Some student_email) (Some ''000000'') None 1000 ''uid1'' True otp_empty = (Inl InvalidOrExpiredOTP, st1) \<and>
    verifyOtp_reached (Some student_email) (Some ''000000'') None 2000 ''uid1'' True st1 = (Inl InvalidOrExpiredOTP, st2) \<and>
    verifyOtp_reached (Some student_email) (Some ''000000'') None 3000 ''uid1'' True st2 = (Inl InvalidOrExpiredOTP, st3) \<and>
    verifyOtp_reached (Some student_email) (Some ''000000'') None 4000 ''uid1'' True st3 = (Inl InvalidOrExpiredOTP, st4) \<and>
    verifyOtp_reached (Some student_email) (Some ''000000'') None 5000 ''uid1'' True st4 = (Inl InvalidOrExpiredOTP, st5) \<and>
    failedAttempts st5 student_email = Some \<lparr>fail_count = 5, lockedUntil = Some (5000 + LOCKOUT_MINUTES * 60 * 1000)\<rparr> \<and>
    sendOtp_reached (Some student_email) ''10.0.0.1'' 6000 7 True st5 = (Inl AccountLocked, rate_bumped student_email 6000 st5))"
proof -
  have h: "valid_email student_email" "otps otp_empty student_email = None"
    "failedAttempts otp_empty student_email = None" "rateLimits otp_empty student_email = None"
    using student_email_valid by simp_all
  have c: "''000000'' \<noteq> []" by simp
  have t: "(6000::int) < 5000 + LOCKOUT_MINUTES * 60 * 1000" by (simp add: LOCKOUT_MINUTES_def)
  show ?thesis
    using h c t lockout_after_five_failures [OF h c t, of None 1000 "''uid1''" True 2000 3000 4000
        "''10.0.0.1''" 7 True]
    by blast
qed

theorem otp_reach_inv_witness: "reached_reach otp_after_request \<and> otp_inv otp_after_request"
proof -
  have r: "reached_reach otp_after_request"
    by (rule reached_reach.send [OF reached_reach.start _ first_request]) simp
  show ?thesis using r otp_reach_inv [OF r] by blast
qed

theorem generateOTP_roundtrip_witness:
  "(23456::nat) < 900000 \<and> length (generateOTP 23456) = 6 \<and> list_all is_digit (generateOTP 23456) \<and>
   parse_decimal (generateOTP 23456) = 123456"
  using generateOTP_roundtrip [of 23456] by simp

end
