(* ===== verification/System.thy ===== *)
theory System
  imports Intake Lifecycle Registry Liveness
begin

text \<open>
  The dispatch side as one system. Every callable and every client write that
  changes the dispatch collections is a step of \<open>dispatch_step\<close>, with any
  arguments and whatever its outcome (a failed operation keeps the writes it made).
  \<open>dispatch_inv\<close> is what every step preserves: collections sorted by id, a busy
  responder always carries an assignment, every alert belongs to a stored security
  report under the same id, and every assignee of an alert is a registered
  responder. The read and write phases of the assigner are also exposed as separate
  steps, so that the interleavings the code allows can be stated.
\<close>

inductive dispatch_step :: "db \<Rightarrow> db \<Rightarrow> bool" where
  create: "createEmergencyReport req rid now s = (r, s') \<Longrightarrow> dispatch_step s s'"
| heartbeat: "updateResponderHeartbeat u loc now s = (r1, s') \<Longrightarrow> dispatch_step s s'"
| accept: "handleAccept aid uid now s = (r1, s') \<Longrightarrow> dispatch_step s s'"
| decline: "handleDecline aid now s = (r1, s') \<Longrightarrow> dispatch_step s s'"
| complete: "completeEmergency u e now s = (r1, s') \<Longrightarrow> dispatch_step s s'"
| sweep: "markInactiveResponders now s = (r2, s') \<Longrightarrow> dispatch_step s s'"
| go_active: "goActive uid tok now s = (r1, s') \<Longrightarrow> dispatch_step s s'"
| go_inactive: "goInactive uid now s = (r1, s') \<Longrightarrow> dispatch_step s s'"

definition busy_assigned :: "responder \<Rightarrow> bool" where
  "busy_assigned r \<longleftrightarrow> (status r = Some Busy \<longrightarrow> assignedEmergency r \<noteq> None)"

definition dispatch_inv :: "db \<Rightarrow> bool" where
  "dispatch_inv s \<longleftrightarrow> db_wf s \<and>
     (\<forall>k r. map_of (responders s) k = Some r \<longrightarrow> busy_assigned r) \<and>
     (\<forall>aid a. map_of (responders_alerts s) aid = Some a \<longrightarrow>
        a_emergencyId a = aid \<and> a_type a = ''security'' \<and> map_of (emergencies s) aid \<noteq> None \<and>
        (\<forall>k. a_assignedResponder a = Some k \<longrightarrow> map_of (responders s) k \<noteq> None))"

inductive dispatch_reach :: "db \<Rightarrow> db \<Rightarrow> bool" for s0 where
  refl: "dispatch_reach s0 s0"
| step: "dispatch_reach s0 s \<Longrightarrow> dispatch_step s s' \<Longrightarrow> dispatch_reach s0 s'"

text \<open>
  The two handlers whose read and write are separate Firestore calls, split at that
  point. \<open>security_finish\<close> is the security branch after the assigner's query: the
  write of the chosen responder, the alert and the push, given the pick of the read
  phase. \<open>sweep_after\<close> is the sweep's write loop run on the current database with
  the snapshot a query returned earlier. Run back to back they are the handlers
  (\<open>route_security_split\<close>, \<open>markInactiveResponders_split\<close>); with other
  steps between the phases they are the interleavings the concurrency section of the
  specification describes.
\<close>

definition security_finish :: "report \<Rightarrow> docid \<Rightarrow> time \<Rightarrow> docid option \<Rightarrow> db \<Rightarrow> (unit, db) result" where
  "security_finish nr rid now pick s =
     (case (case pick of
              None \<Rightarrow> (Inr None, s)
            | Some k \<Rightarrow> (case assign_write k rid s of
                           (Inl err, s') \<Rightarrow> (Inl err, s')
                         | (Inr _, s') \<Rightarrow> (Inr (Some k), s'))) of
        (Inl err, s') \<Rightarrow> (Inl err, s')
      | (Inr a, s') \<Rightarrow>
          (Inr (), notify_assignee a rid
             (s'\<lparr>responders_alerts := coll_set (responders_alerts s') rid (new_alert nr rid a now)\<rparr>)))"

definition race_schedule :: "report \<Rightarrow> docid \<Rightarrow> report \<Rightarrow> docid \<Rightarrow> time \<Rightarrow> db \<Rightarrow> db" where
  "race_schedule nr1 rid1 nr2 rid2 now s =
     (let s1 = s\<lparr>emergencies := coll_set (emergencies s) rid1 nr1\<rparr>;
          p1 = assign_read (e_location nr1) s1;
          s2 = s1\<lparr>emergencies := coll_set (emergencies s1) rid2 nr2\<rparr>;
          p2 = assign_read (e_location nr2) s2;
          s3 = snd (security_finish nr1 rid1 now p1 s2)
      in snd (security_finish nr2 rid2 now p2 s3))"

definition sweep_after :: "time \<Rightarrow> db \<Rightarrow> db \<Rightarrow> (nat, db) result" where
  "sweep_after now snap s =
     (case sweep_writes now (now - heartbeatTimeout) (active_responders snap) 0 s of
        (Inl _, s') \<Rightarrow> (Inl InternalError, s')
      | (Inr n, s') \<Rightarrow> (Inr n, s'))"

text \<open>
  The preload script \<open>src/uploadResponders.mjs\<close> (lines 37-41) writes each
  responder of \<open>preload.json\<close> with \<open>setDoc\<close>, in file order; it is how the
  registry gets its first documents.
\<close>

definition uploadResponders :: "(docid \<times> responder) list \<Rightarrow> db \<Rightarrow> db" where
  "uploadResponders rs s = foldl (\<lambda>s (k, r). s\<lparr>responders := coll_set (responders s) k r\<rparr>) s rs"

subsection \<open>Writes of one responder document\<close>

lemma update_responder_cases:
  assumes "update_responder uid f s = (r, s')"
  shows "s' = s \<or> (\<exists>c x. map_of (responders s) uid = Some x \<and> s' = s\<lparr>responders := c\<rparr> \<and>
           map_of c = (map_of (responders s))(uid \<mapsto> f x) \<and> map fst c = map fst (responders s))"
proof (cases "map_of (responders s) uid")
  case None
  then show ?thesis using assms update_responder_missing [OF None] by simp
next
  case (Some x)
  then show ?thesis using assms update_responder_Inr [OF Some, of f] by auto
qed

lemma dispatch_inv_responders:
  assumes "dispatch_inv s" "map_of (responders s) k = Some x"
    "map_of c = (map_of (responders s))(k \<mapsto> y)" "map fst c = map fst (responders s)" "busy_assigned y"
  shows "dispatch_inv (s\<lparr>responders := c\<rparr>)"
proof -
  have "dom (map_of c) = dom (map_of (responders s))" using assms(2,3) by auto
  then show ?thesis
    using assms by (auto simp: dispatch_inv_def db_wf_def coll_wf_def domIff split: if_splits)
qed

lemma dispatch_inv_update_responder:
  assumes "update_responder uid f s = (r, s')" and "dispatch_inv s"
    and "\<And>x. busy_assigned x \<Longrightarrow> busy_assigned (f x)"
  shows "dispatch_inv s'"
  using update_responder_cases [OF assms(1)]
proof
  assume "s' = s" then show ?thesis using assms(2) by simp
next
  assume "\<exists>c x. map_of (responders s) uid = Some x \<and> s' = s\<lparr>responders := c\<rparr> \<and>
           map_of c = (map_of (responders s))(uid \<mapsto> f x) \<and> map fst c = map fst (responders s)"
  then obtain c x where c: "map_of (responders s) uid = Some x" "s' = s\<lparr>responders := c\<rparr>"
    "map_of c = (map_of (responders s))(uid \<mapsto> f x)" "map fst c = map fst (responders s)"
    by blast
  have "busy_assigned x" using assms(2) c(1) by (auto simp: dispatch_inv_def)
  then show ?thesis
    using dispatch_inv_responders [OF assms(2) c(1,3,4)] assms(3) c(2) by simp
qed

lemma dispatch_inv_update_alert:
  assumes "update_alert aid f s = (r, s')" and "dispatch_inv s"
    and "\<And>a. a_emergencyId (f a) = a_emergencyId a" "\<And>a. a_type (f a) = a_type a"
    "\<And>a. a_assignedResponder (f a) = a_assignedResponder a"
  shows "dispatch_inv s'"
proof (cases "map_of (responders_alerts s) aid")
  case None
  then show ?thesis using assms(1,2) update_alert_missing [OF None] by simp
next
  case (Some x)
  then obtain c where c: "s' = s\<lparr>responders_alerts := c\<rparr>"
    "map_of c = (map_of (responders_alerts s))(aid \<mapsto> f x)" "map fst c = map fst (responders_alerts s)"
    using assms(1) update_alert_Inr [OF Some, of f] by auto
  show ?thesis
    using assms(2-) c Some by (auto simp: dispatch_inv_def db_wf_def coll_wf_def split: if_splits)
qed

lemma dispatch_inv_update_emergency:
  assumes "update_emergency eid f s = (r, s')" and "dispatch_inv s"
  shows "dispatch_inv s'"
proof (cases "map_of (emergencies s) eid")
  case None
  then show ?thesis using assms update_emergency_missing [OF None] by simp
next
  case (Some x)
  then obtain c where c: "s' = s\<lparr>emergencies := c\<rparr>"
    "map_of c = (map_of (emergencies s))(eid \<mapsto> f x)" "map fst c = map fst (emergencies s)"
    using assms(1) update_emergency_Inr [OF Some, of f] by auto
  show ?thesis
    using assms(2) c Some by (auto simp: dispatch_inv_def db_wf_def coll_wf_def split: if_splits)
qed

lemma busy_assigned_set [simp]:
  "busy_assigned (r\<lparr>status := Some Active, lastActiveAt := t\<rparr>)"
  "busy_assigned (r\<lparr>status := Some Inactive, lastInactiveAt := t\<rparr>)"
  "busy_assigned (r\<lparr>status := Some Busy, assignedEmergency := Some e\<rparr>)"
  "busy_assigned (r\<lparr>expoPushToken := tok\<rparr>) = busy_assigned r"
  by (simp_all add: busy_assigned_def)

lemma busy_assigned_ops [simp]:
  "busy_assigned (heartbeat_fields loc now r)"
  "busy_assigned (release_responder now r)"
  "busy_assigned (mark_inactive now r)"
  "busy_assigned (demote now r) = busy_assigned r"
  by (simp_all add: busy_assigned_def heartbeat_fields_def release_responder_def mark_inactive_def
                    demote_def)


subsection \<open>Each operation preserves the invariant\<close>

lemma dispatch_inv_heartbeat:
  "updateResponderHeartbeat u loc now s = (r, s') \<Longrightarrow> dispatch_inv s \<Longrightarrow> dispatch_inv s'"
  by (auto simp: updateResponderHeartbeat_def split: option.splits if_splits
           elim: dispatch_inv_update_responder)

lemma dispatch_inv_accept:
  assumes "handleAccept aid uid now s = (r, s')" "dispatch_inv s"
  shows "dispatch_inv s'"
proof -
  obtain r1 s1 where s1: "update_alert aid (accept_alert uid now) s = (r1, s1)" by fastforce
  have "dispatch_inv s1"
    using dispatch_inv_update_alert [OF s1 assms(2)] by (simp add: accept_alert_def)
  then show ?thesis
    using assms(1) s1 by (auto simp: handleAccept_def split: sum.splits elim: dispatch_inv_update_responder)
qed

lemma dispatch_inv_decline:
  "handleDecline aid now s = (r, s') \<Longrightarrow> dispatch_inv s \<Longrightarrow> dispatch_inv s'"
  unfolding handleDecline_def
  by (erule dispatch_inv_update_alert) (simp_all add: decline_alert_def)

lemma dispatch_inv_complete:
  assumes "completeEmergency u e now s = (r, s')" "dispatch_inv s"
  shows "dispatch_inv s'"
proof (cases "\<exists>uid eid. u = Some uid \<and> e = Some eid \<and> uid \<noteq> [] \<and> eid \<noteq> []")
  case True
  then obtain uid eid where ue: "u = Some uid" "e = Some eid" "uid \<noteq> []" "eid \<noteq> []" by blast
  obtain r1 s1 where s1: "update_responder uid (release_responder now) s = (r1, s1)" by fastforce
  have "dispatch_inv s1" using dispatch_inv_update_responder [OF s1 assms(2)] by simp
  then show ?thesis
    using assms(1) s1 ue by (auto simp: completeEmergency_def split: sum.splits
                                  elim: dispatch_inv_update_emergency)
next
  case False
  then have "s' = s" using assms(1)
    by (auto simp: completeEmergency_def split: option.splits if_splits)
  then show ?thesis using assms(2) by simp
qed

lemma dispatch_inv_go_active:
  assumes "goActive uid tok now s = (r, s')" "dispatch_inv s"
  shows "dispatch_inv s'"
proof -
  let ?s1 = "if truthy_str tok then snd (update_responder uid (\<lambda>r. r\<lparr>expoPushToken := tok\<rparr>) s) else s"
  obtain r1 s1 where s1: "update_responder uid (\<lambda>r. r\<lparr>expoPushToken := tok\<rparr>) s = (r1, s1)"
    by fastforce
  have "dispatch_inv s1" using dispatch_inv_update_responder [OF s1 assms(2)] by simp
  then have "dispatch_inv ?s1" using assms(2) s1 by simp
  then show ?thesis
    using assms(1) by (auto simp: goActive_def Let_def elim: dispatch_inv_update_responder)
qed

lemma dispatch_inv_go_inactive:
  "goInactive uid now s = (r, s') \<Longrightarrow> dispatch_inv s \<Longrightarrow> dispatch_inv s'"
  unfolding goInactive_def by (erule dispatch_inv_update_responder) simp_all

lemma dispatch_inv_sweep:
  assumes "markInactiveResponders now s = (r, s')" "dispatch_inv s"
  shows "dispatch_inv s'"
proof -
  have wf: "db_wf s" using assms(2) by (simp add: dispatch_inv_def)
  then have s': "s' = sweep_spec now s" using assms(1) markInactiveResponders_eq by simp
  have "db_wf s'" using db_wf_sweep_spec [OF wf] s' by simp
  then show ?thesis
    using assms(2) by (auto simp: s' dispatch_inv_def sweep_spec_def map_of_map_demote)
qed

lemma dispatch_inv_notify [simp]: "dispatch_inv (notify_assignee a rid s) = dispatch_inv s"
  by (simp add: dispatch_inv_def db_wf_def)

lemma dispatch_inv_route_departments:
  "dispatch_inv s \<Longrightarrow> dispatch_inv (route_departments nr rid now s)"
  by (simp add: route_departments_def Let_def dispatch_inv_def db_wf_def coll_wf_set)

lemma dispatch_inv_add_emergency:
  "dispatch_inv s \<Longrightarrow> dispatch_inv (s\<lparr>emergencies := coll_set (emergencies s) rid nr\<rparr>)"
  unfolding dispatch_inv_def db_wf_def by (auto simp: coll_wf_set)

lemma dispatch_inv_set_alert:
  assumes "dispatch_inv s" "map_of (emergencies s) rid \<noteq> None" "a_emergencyId a = rid"
    "a_type a = ''security''" "\<And>k. a_assignedResponder a = Some k \<Longrightarrow> map_of (responders s) k \<noteq> None"
  shows "dispatch_inv (s\<lparr>responders_alerts := coll_set (responders_alerts s) rid a\<rparr>)"
  using assms by (auto simp: dispatch_inv_def db_wf_def coll_wf_set)

lemma dispatch_inv_assign:
  assumes "assignNearestResponder e rid s = (r, s')" "dispatch_inv s"
  shows "dispatch_inv s' \<and> emergencies s' = emergencies s \<and> responders_alerts s' = responders_alerts s \<and>
         (\<forall>k. r = Inr (Some k) \<longrightarrow> map_of (responders s') k \<noteq> None)"
proof (cases "assign_read e s")
  case None
  then show ?thesis using assms by (auto simp: assignNearestResponder_None)
next
  case (Some k)
  have wf: "db_wf s" using assms(2) by (simp add: dispatch_inv_def)
  obtain x c where x: "map_of (responders s) k = Some x"
    "assignNearestResponder e rid s = (Inr (Some k), s\<lparr>responders := c\<rparr>)"
    "map_of c = (map_of (responders s))(k \<mapsto> x\<lparr>status := Some Busy, assignedEmergency := Some rid\<rparr>)"
    "map fst c = map fst (responders s)"
    using assignNearestResponder_Some [OF wf Some, of rid] by blast
  have "dispatch_inv (s\<lparr>responders := c\<rparr>)"
    using dispatch_inv_responders [OF assms(2) x(1,3,4)] by simp
  then show ?thesis using assms(1) x by auto
qed

lemma dispatch_inv_route_security:
  assumes "route_security nr rid now s = (r, s')" "dispatch_inv s"
    and "map_of (emergencies s) rid \<noteq> None" "e_type nr = ''security''"
  shows "dispatch_inv s'"
proof -
  obtain r1 s1 where s1: "assignNearestResponder (e_location nr) rid s = (r1, s1)" by fastforce
  note a = dispatch_inv_assign [OF s1 assms(2)]
  show ?thesis
  proof (cases r1)
    case (Inl err)
    then show ?thesis using assms(1) s1 a by (simp add: route_security_def)
  next
    case (Inr k)
    have "dispatch_inv (s1\<lparr>responders_alerts := coll_set (responders_alerts s1) rid (new_alert nr rid k now)\<rparr>)"
      using a Inr assms(3,4) by (intro dispatch_inv_set_alert) (auto simp: new_alert_def)
    then show ?thesis using assms(1) s1 Inr by (auto simp: route_security_def)
  qed
qed

lemma dispatch_inv_create:
  assumes "createEmergencyReport req rid now s = (r, s')" "dispatch_inv s"
  shows "dispatch_inv s'"
proof (cases "\<exists>t loc uid. req_type req = Some t \<and> req_location req = Some loc \<and>
                req_createdByUID req = Some uid \<and> t \<noteq> [] \<and> uid \<noteq> []")
  case True
  then obtain t loc uid where v: "req_type req = Some t" "req_location req = Some loc"
    "req_createdByUID req = Some uid" "t \<noteq> []" "uid \<noteq> []" by blast
  let ?nr = "new_report req t loc uid now"
  let ?s1 = "s\<lparr>emergencies := coll_set (emergencies s) rid ?nr\<rparr>"
  have i1: "dispatch_inv ?s1" using dispatch_inv_add_emergency [OF assms(2)] .
  obtain r2 s2 where s2: "(if t = ''security'' then route_security ?nr rid now ?s1 else (Inr (), ?s1)) = (r2, s2)"
    by fastforce
  have i2: "dispatch_inv s2"
    using s2 i1 dispatch_inv_route_security [of ?nr rid now ?s1 r2 s2] by (auto split: if_splits)
  show ?thesis
    using assms(1) createEmergencyReport_valid_unfold [OF v, of rid now s] s2 i2
    by (auto simp: Let_def split: sum.splits intro: dispatch_inv_route_departments)
next
  case False
  then have "s' = s" using assms(1)
    by (auto simp: createEmergencyReport_def split: option.splits if_splits)
  then show ?thesis using assms(2) by simp
qed

theorem dispatch_step_inv:
  "dispatch_step s s' \<Longrightarrow> dispatch_inv s \<Longrightarrow> dispatch_inv s'"
  by (induction rule: dispatch_step.induct)
     (auto elim: dispatch_inv_create dispatch_inv_heartbeat dispatch_inv_accept dispatch_inv_decline
                 dispatch_inv_complete dispatch_inv_sweep dispatch_inv_go_active dispatch_inv_go_inactive)

subsection \<open>Interleavings\<close>

lemma route_security_split:
  "route_security nr rid now s = security_finish nr rid now (assign_read (e_location nr) s) s"
  by (simp add: route_security_def security_finish_def assignNearestResponder_def
           split: option.splits)

lemma markInactiveResponders_split: "markInactiveResponders now s = sweep_after now s s"
  by (simp add: markInactiveResponders_def sweep_after_def)

lemma security_finish_assign:
  assumes "map_of (responders s) k = Some r"
  shows "\<exists>c. security_finish nr rid now (Some k) s =
      (Inr (), notify_assignee (Some k) rid (s\<lparr>responders := c,
          responders_alerts := coll_set (responders_alerts s) rid (new_alert nr rid (Some k) now)\<rparr>)) \<and>
      map_of c = (map_of (responders s))(k \<mapsto> r\<lparr>status := Some Busy, assignedEmergency := Some rid\<rparr>) \<and>
      map fst c = map fst (responders s)"
  using assign_write_effect [OF assms, of rid] by (auto simp: security_finish_def)

lemma db_wf_security_finish:
  assumes "db_wf s" "map_of (responders s) k = Some r"
  shows "\<exists>c. security_finish nr rid now (Some k) s =
      (Inr (), notify_assignee (Some k) rid (s\<lparr>responders := c,
          responders_alerts := coll_set (responders_alerts s) rid (new_alert nr rid (Some k) now)\<rparr>)) \<and>
      map_of c k = Some (r\<lparr>status := Some Busy, assignedEmergency := Some rid\<rparr>) \<and>
      db_wf (s\<lparr>responders := c,
          responders_alerts := coll_set (responders_alerts s) rid (new_alert nr rid (Some k) now)\<rparr>)"
proof -
  obtain c where c: "security_finish nr rid now (Some k) s =
      (Inr (), notify_assignee (Some k) rid (s\<lparr>responders := c,
          responders_alerts := coll_set (responders_alerts s) rid (new_alert nr rid (Some k) now)\<rparr>))"
      "map_of c = (map_of (responders s))(k \<mapsto> r\<lparr>status := Some Busy, assignedEmergency := Some rid\<rparr>)"
      "map fst c = map fst (responders s)"
    using security_finish_assign [OF assms(2), of nr rid now] by blast
  have "coll_wf c" using assms(1) c(3) by (simp add: db_wf_def coll_wf_def)
  then show ?thesis using c assms(1) by (auto simp: db_wf_def coll_wf_set)
qed

subsection \<open>The preload\<close>

lemma dispatch_inv_set_responder:
  assumes "dispatch_inv s" and "busy_assigned r"
  shows "dispatch_inv (s\<lparr>responders := coll_set (responders s) k r\<rparr>)"
  using assms unfolding dispatch_inv_def db_wf_def by (auto simp: coll_wf_set split: if_splits)

text \<open>
  The preload establishes the invariant: uploading responder documents that are each
  busy only with an assignment into a database satisfying it keeps it.
\<close>

theorem preload_establishes_inv:
  assumes "dispatch_inv s" and "\<forall>(k, r) \<in> set rs. busy_assigned r"
  shows "dispatch_inv (uploadResponders rs s)"
  using assms unfolding uploadResponders_def
  by (induction rs arbitrary: s) (auto intro: dispatch_inv_set_responder)

lemma preload_lookup:
  "map_of (responders (uploadResponders rs s)) k =
     (case map_of (rev rs) k of Some r \<Rightarrow> Some r | None \<Rightarrow> map_of (responders s) k)"
  unfolding uploadResponders_def
  by (induction rs arbitrary: s) (auto simp: map_of_append split: option.splits)

end
