(* ===== verification/Dashboard.thy ===== *)
theory Dashboard
  imports Registry Geo
begin

text \<open>
  The responder dashboard (\<open>src/Screens/Responders/dashboard.js\<close>) as a client
  state machine over the database. The screen's state is its \<open>isActive\<close> flag, the
  \<open>lastLocation\<close> ref and the two interval handles (a flag each: running or
  cleared), plus whether a \<open>startLiveLocationTracking\<close> call is still waiting for
  the location permission. \<open>toggleActive\<close> does not await
  \<open>startLiveLocationTracking\<close>: its part after the permission prompt is the
  separate event \<open>PermissionResolved\<close>, so that other events can come in between.
  Every write is a Firestore \<open>updateDoc\<close> of the signed-in responder's own document;
  a thrown write is caught by the screen and leaves the database as it was. Push
  token metadata (\<open>pushUpdatedAt\<close>), alerts and notifications shown to the user
  are not part of the database model.
\<close>

record dash =
  d_isActive :: bool
  d_lastLocation :: "geo option"
  d_locTimer :: bool
  d_hbTimer :: bool
  d_pendingStart :: bool

definition dash_init :: dash where
  "dash_init = \<lparr>d_isActive = False, d_lastLocation = None, d_locTimer = False, d_hbTimer = False,
                d_pendingStart = False\<rparr>"

text \<open>
  \<open>sendExpoPushToken\<close> (lines 37-59): skipped on the web; otherwise the token the
  device returned (\<open>None\<close> when \<open>getExpoPushTokenAsync\<close> fails) is saved when it
  and the uid are truthy. A failed write is only logged.
\<close>

definition sendExpoPushToken :: "bool \<Rightarrow> docid \<Rightarrow> string option \<Rightarrow> db \<Rightarrow> db" where
  "sendExpoPushToken web uid tok s =
     (if web then s
      else if uid \<noteq> [] \<and> truthy_str tok
      then snd (update_responder uid (\<lambda>r. r\<lparr>expoPushToken := tok\<rparr>) s)
      else s)"

text \<open>\<open>startHeartbeat\<close> (lines 64-86): starts the 30 s interval when signed in.\<close>

definition startHeartbeat :: "docid \<Rightarrow> dash \<Rightarrow> dash" where
  "startHeartbeat uid d = (if uid = [] then d else d\<lparr>d_hbTimer := True\<rparr>)"

text \<open>
  The interval's payload (lines 75-78): the last location when both coordinates are
  truthy, else \<open>null\<close>; the callable's outcome is only logged.
\<close>

definition heartbeat_payload :: "geo option \<Rightarrow> (real \<times> real) option" where
  "heartbeat_payload l =
     (case l of
        Some g \<Rightarrow> if lat g \<noteq> 0 \<and> lng g \<noteq> 0 then Some (lat g, lng g) else None
      | None \<Rightarrow> None)"

definition heartbeat_tick :: "docid \<Rightarrow> time \<Rightarrow> dash \<Rightarrow> db \<Rightarrow> db" where
  "heartbeat_tick uid now d s =
     (if d_hbTimer d
      then snd (updateResponderHeartbeat (Some uid) (heartbeat_payload (d_lastLocation d)) now s)
      else s)"

text \<open>The screen's own copy of the haversine distance (lines 91-103).\<close>

definition dash_getDistance :: "geo \<Rightarrow> geo \<Rightarrow> real" where
  "dash_getDistance loc1 loc2 =
     (let R = 6371000;
          dLat = toRad (lat loc2 - lat loc1);
          dLon = toRad (lng loc2 - lng loc1);
          a = sin (dLat / 2) ^ 2 + cos (toRad (lat loc1)) * cos (toRad (lat loc2)) * sin (dLon / 2) ^ 2;
          c = 2 * js_atan2 (sqrt a) (sqrt (1 - a))
      in R * c)"

text \<open>
  The location interval's body (lines 128-147): a new fix replaces the stored
  location when there is none or when it is more than 15 m away; a failed fix
  (\<open>None\<close>) is only logged.
\<close>

definition location_tick :: "geo option \<Rightarrow> dash \<Rightarrow> dash" where
  "location_tick fix d =
     (case fix of
        None \<Rightarrow> d
      | Some newLoc \<Rightarrow>
          (case d_lastLocation d of
             None \<Rightarrow> d\<lparr>d_lastLocation := Some newLoc\<rparr>
           | Some prev \<Rightarrow>
               (if dash_getDistance prev newLoc > 15 then d\<lparr>d_lastLocation := Some newLoc\<rparr> else d)))"

text \<open>
  \<open>startLiveLocationTracking\<close> after the permission prompt (lines 110-151): a refused
  permission returns; otherwise the status is written active and the 60 s location
  interval is started. A failing write throws into the function's \<open>catch\<close>, so the
  interval is then not started.
\<close>

definition startLiveLocationTracking :: "bool \<Rightarrow> docid \<Rightarrow> time \<Rightarrow> dash \<Rightarrow> db \<Rightarrow> dash \<times> db" where
  "startLiveLocationTracking granted uid now d s =
     (if \<not> granted \<or> uid = [] then (d, s)
      else (case update_responder uid (\<lambda>r. r\<lparr>status := Some Active, lastActiveAt := Some now\<rparr>) s of
              (Inl _, s') \<Rightarrow> (d, s')
            | (Inr _, s') \<Rightarrow> (d\<lparr>d_locTimer := True\<rparr>, s')))"

text \<open>\<open>stopLiveLocationTracking\<close> (lines 154-171): clears both intervals, writes inactive.\<close>

definition stopLiveLocationTracking :: "docid \<Rightarrow> time \<Rightarrow> dash \<Rightarrow> db \<Rightarrow> dash \<times> db" where
  "stopLiveLocationTracking uid now d s =
     (if uid = [] then (d, s)
      else (d\<lparr>d_locTimer := False, d_hbTimer := False\<rparr>,
            snd (update_responder uid (\<lambda>r. r\<lparr>status := Some Inactive, lastInactiveAt := Some now\<rparr>) s)))"

text \<open>
  \<open>toggleActive\<close> (lines 176-200). Going on duty: \<open>startLiveLocationTracking\<close> is
  started and left waiting for the permission prompt, the heartbeat interval starts,
  the push token is saved, and the status is written active. Going off duty:
  \<open>stopLiveLocationTracking\<close> and the toggle both write inactive.
\<close>

definition toggleActive :: "docid \<Rightarrow> bool \<Rightarrow> string option \<Rightarrow> time \<Rightarrow> dash \<Rightarrow> db \<Rightarrow> dash \<times> db" where
  "toggleActive uid web tok now d s =
     (if uid = [] then (d, s)
      else if \<not> d_isActive d then
        (startHeartbeat uid (d\<lparr>d_isActive := True, d_pendingStart := True\<rparr>),
         snd (update_responder uid (\<lambda>r. r\<lparr>status := Some Active, lastActiveAt := Some now\<rparr>)
                (sendExpoPushToken web uid tok s)))
      else
        (let (d1, s1) = stopLiveLocationTracking uid now (d\<lparr>d_isActive := False\<rparr>) s
         in (d1, snd (update_responder uid (\<lambda>r. r\<lparr>status := Some Inactive, lastInactiveAt := Some now\<rparr>) s1))))"

text \<open>The continuation of a waiting \<open>startLiveLocationTracking\<close> once the prompt is answered.\<close>

definition permission_resolved :: "bool \<Rightarrow> docid \<Rightarrow> time \<Rightarrow> dash \<Rightarrow> db \<Rightarrow> dash \<times> db" where
  "permission_resolved granted uid now d s =
     (if d_pendingStart d then startLiveLocationTracking granted uid now (d\<lparr>d_pendingStart := False\<rparr>) s
      else (d, s))"

text \<open>
  The real-time alert listener (lines 215-259): while active, the query of the
  responder's pending alerts (in document-id order) sends the screen to the first
  result's \<open>emergencyId\<close>, or its document id when that is empty.
\<close>

definition alert_listener :: "docid \<Rightarrow> dash \<Rightarrow> db \<Rightarrow> docid option" where
  "alert_listener uid d s =
     (if uid = [] \<or> \<not> d_isActive d then None
      else case coll_where (\<lambda>a. a_assignedResponder a = Some uid \<and> a_status a = Pending)
                  (responders_alerts s) of
             [] \<Rightarrow> None
           | (aid, a) # _ \<Rightarrow> Some (if a_emergencyId a \<noteq> [] then a_emergencyId a else aid))"

text \<open>
  The cleanup effect (lines 205-210): when the screen unmounts, both intervals are
  cleared. Nothing is written: the responder's status stays as it was.
\<close>

definition dash_unmount :: "dash \<Rightarrow> dash" where
  "dash_unmount d = d\<lparr>d_locTimer := False, d_hbTimer := False\<rparr>"

datatype dash_event =
    Toggle bool "string option"
  | PermissionResolved bool
  | LocationFix "geo option"
  | HeartbeatTick
  | Unmount

fun dash_step :: "docid \<Rightarrow> time \<Rightarrow> dash_event \<Rightarrow> dash \<times> db \<Rightarrow> dash \<times> db" where
  "dash_step uid now (Toggle web tok) (d, s) = toggleActive uid web tok now d s"
| "dash_step uid now (PermissionResolved g) (d, s) = permission_resolved g uid now d s"
| "dash_step uid now (LocationFix fix) (d, s) =
     (if d_locTimer d then (location_tick fix d, s) else (d, s))"
| "dash_step uid now HeartbeatTick (d, s) = (d, heartbeat_tick uid now d s)"
| "dash_step uid now Unmount (d, s) = (dash_unmount d, s)"

text \<open>
  What the screen shows (lines 272-320): the status and the toggle's label follow
  \<open>isActive\<close>, not the responder's document. The grid buttons open the routes
  \<open>AlertDetails\<close> (without an alert id), \<open>ResponderProfile\<close> and, under the
  label History, \<open>IncomingEmergency\<close>; Settings has no handler.
\<close>

definition dash_statusText :: "dash \<Rightarrow> string" where
  "dash_statusText d = (if d_isActive d then ''Active'' else ''Inactive'')"

definition dash_toggleLabel :: "dash \<Rightarrow> string" where
  "dash_toggleLabel d = (if d_isActive d then ''On Duty'' else ''Go Active'')"

datatype dash_button = AlertsButton | ProfileButton | HistoryButton | SettingsButton

definition dash_button_route :: "dash_button \<Rightarrow> string option" where
  "dash_button_route b =
     (case b of
        AlertsButton \<Rightarrow> Some ''AlertDetails''
      | ProfileButton \<Rightarrow> Some ''ResponderProfile''
      | HistoryButton \<Rightarrow> Some ''IncomingEmergency''
      | SettingsButton \<Rightarrow> None)"

text \<open>A sequence of timed dashboard events.\<close>

fun dash_run :: "docid \<Rightarrow> (time \<times> dash_event) list \<Rightarrow> dash \<times> db \<Rightarrow> dash \<times> db" where
  "dash_run uid [] ds = ds"
| "dash_run uid ((now, ev) # evs) ds = dash_run uid evs (dash_step uid now ev ds)"

text \<open>The dashboard's own invariant: a running heartbeat interval means the screen is on duty.\<close>

definition dash_inv :: "dash \<Rightarrow> bool" where
  "dash_inv d \<longleftrightarrow> (d_hbTimer d \<longrightarrow> d_isActive d)"

text \<open>
  Sessions of one signed-in responder: dashboard events at any times, interleaved with
  any change of the database by the rest of the system.
\<close>

inductive dash_reach :: "docid \<Rightarrow> dash \<times> db \<Rightarrow> bool" for uid where
  init: "dash_reach uid (dash_init, s)"
| step: "dash_reach uid ds \<Longrightarrow> dash_reach uid (dash_step uid now ev ds)"
| env: "dash_reach uid (d, s) \<Longrightarrow> dash_reach uid (d, s')"

subsection \<open>Properties of the dashboard\<close>

lemma dash_step_inv: "dash_inv d \<Longrightarrow> dash_inv (fst (dash_step uid now ev (d, s)))"
  by (cases ev)
     (auto simp: dash_inv_def toggleActive_def startHeartbeat_def stopLiveLocationTracking_def
        permission_resolved_def startLiveLocationTracking_def location_tick_def dash_unmount_def
        split: prod.splits sum.splits option.splits)

lemma dash_reach_inv_gen: "dash_reach uid ds \<Longrightarrow> dash_inv (fst ds)"
proof (induction rule: dash_reach.induct)
  case (init s) then show ?case by (simp add: dash_inv_def dash_init_def)
next
  case (step ds now ev) then show ?case using dash_step_inv [of "fst ds"] by (cases ds) auto
next
  case (env d s s') then show ?case by simp
qed

text \<open>
  Claim C16. In every session, an off-duty dashboard sends no heartbeat: the heartbeat interval
  runs only while \<open>isActive\<close> holds, so a tick changes nothing. (A heartbeat would
  set the responder active again.)
\<close>

theorem inactive_dashboard_no_heartbeat:
  assumes "dash_reach uid (d, s)" and "\<not> d_isActive d"
  shows "dash_step uid now HeartbeatTick (d, s) = (d, s)"
  using dash_reach_inv_gen [OF assms(1)] assms(2) by (simp add: dash_inv_def heartbeat_tick_def)

text \<open>The screen's distance is the server's \<open>getDistance\<close> on the same coordinates.\<close>

lemma dash_getDistance_eq: "dash_getDistance l1 l2 = getDistance (lat l1) (lng l1) (lat l2) (lng l2)"
  by (simp add: dash_getDistance_def getDistance_def)

text \<open>
  After a location fix, the location the screen keeps (and sends with the next
  heartbeat) is within 15 m of that fix.
\<close>

theorem location_tick_within_15m:
  "\<exists>g. d_lastLocation (location_tick (Some newLoc) d) = Some g \<and> dash_getDistance g newLoc \<le> 15"
  using getDistance_self [of "lat newLoc" "lng newLoc"]
  by (auto simp: location_tick_def dash_getDistance_eq split: option.splits)

lemma dom_sendExpoPushToken [simp]:
  "dom (map_of (responders (sendExpoPushToken web uid tok s))) = dom (map_of (responders s))"
  by (simp add: sendExpoPushToken_def)

lemma startLive_db:
  "uid \<noteq> [] \<Longrightarrow> snd (startLiveLocationTracking True uid now d s) =
     snd (update_responder uid (\<lambda>r. r\<lparr>status := Some Active, lastActiveAt := Some now\<rparr>) s)"
  by (simp add: startLiveLocationTracking_def split: prod.splits sum.splits)

text \<open>
  Claim C19. Going on duty on a device (not the web) with the permission granted writes exactly
  what \<open>goActive\<close> writes: the push token when there is one, then the active status.
  The second active write of \<open>startLiveLocationTracking\<close> is absorbed because it is
  idempotent.
\<close>

theorem dashboard_on_refines_goActive:
  assumes "uid \<noteq> []"
  shows "snd (dash_step uid now (PermissionResolved True) (dash_step uid now (Toggle False tok) (dash_init, s))) =
         snd (goActive uid tok now s)"
proof -
  let ?f = "\<lambda>r. r\<lparr>status := Some Active, lastActiveAt := Some now\<rparr>"
  let ?s1 = "sendExpoPushToken False uid tok s"
  have t: "toggleActive uid False tok now dash_init s =
      (startHeartbeat uid (dash_init\<lparr>d_isActive := True, d_pendingStart := True\<rparr>), snd (update_responder uid ?f ?s1))"
    using assms by (simp add: toggleActive_def dash_init_def)
  have "snd (dash_step uid now (PermissionResolved True) (dash_step uid now (Toggle False tok) (dash_init, s))) =
      snd (update_responder uid ?f (snd (update_responder uid ?f ?s1)))"
    using assms by (simp add: t permission_resolved_def startHeartbeat_def startLive_db)
  also have "\<dots> = snd (update_responder uid ?f ?s1)" by (rule update_responder_idem) simp
  finally show ?thesis
    using assms by (simp add: goActive_def sendExpoPushToken_def Let_def)
qed

text \<open>Going off duty writes exactly what \<open>goInactive\<close> writes.\<close>

theorem dashboard_off_refines_goInactive:
  assumes "uid \<noteq> []" and "d_isActive d"
  shows "snd (dash_step uid now (Toggle web tok) (d, s)) = snd (goInactive uid now s)"
proof -
  let ?f = "\<lambda>r. r\<lparr>status := Some Inactive, lastInactiveAt := Some now\<rparr>"
  have "snd (dash_step uid now (Toggle web tok) (d, s)) = snd (update_responder uid ?f (snd (update_responder uid ?f s)))"
    using assms by (simp add: toggleActive_def stopLiveLocationTracking_def)
  also have "\<dots> = snd (update_responder uid ?f s)" by (rule update_responder_idem) simp
  finally show ?thesis by (simp add: goInactive_def)
qed

text \<open>
  Claim C17. A permission prompt answered after the responder has already gone off duty again
  still runs the rest of \<open>startLiveLocationTracking\<close>: the screen is off duty and
  sends no heartbeats, yet the responder's document says active and a location
  interval runs that nothing clears.
\<close>

theorem late_permission_reactivates:
  assumes uid: "uid \<noteq> []" and r: "map_of (responders s) uid = Some r"
  shows "let (d1, s1) = dash_step uid t1 (Toggle web tok) (dash_init, s);
             (d2, s2) = dash_step uid t2 (Toggle web tok) (d1, s1);
             (d3, s3) = dash_step uid t3 (PermissionResolved True) (d2, s2)
         in \<not> d_isActive d3 \<and> d_locTimer d3 \<and> \<not> d_hbTimer d3 \<and>
            (\<exists>r3. map_of (responders s3) uid = Some r3 \<and> status r3 = Some Active)"
proof -
  let ?fa = "\<lambda>t. \<lambda>r. r\<lparr>status := Some Active, lastActiveAt := Some t\<rparr>"
  let ?fi = "\<lambda>t. \<lambda>r. r\<lparr>status := Some Inactive, lastInactiveAt := Some t\<rparr>"
  obtain s1 where s1: "snd (update_responder uid (?fa t1) (sendExpoPushToken web uid tok s)) = s1" by blast
  have k1: "uid \<in> dom (map_of (responders s1))"
    unfolding s1 [symmetric] by (simp only: dom_update_responder dom_sendExpoPushToken) (rule domI, rule r)
  obtain s2 where s2: "snd (update_responder uid (?fi t2) (snd (update_responder uid (?fi t2) s1))) = s2" by blast
  have k2: "uid \<in> dom (map_of (responders s2))"
    unfolding s2 [symmetric] by (simp only: dom_update_responder) (rule k1)
  then obtain x2 where x2: "map_of (responders s2) uid = Some x2" by blast
  obtain c where c: "update_responder uid (?fa t3) s2 = (Inr (), s2\<lparr>responders := c\<rparr>)"
    "map_of c = (map_of (responders s2))(uid \<mapsto> ?fa t3 x2)"
    using update_responder_Inr [OF x2, of "?fa t3"] by blast
  show ?thesis
    using uid s1 s2 c
    by (simp add: toggleActive_def dash_init_def startHeartbeat_def stopLiveLocationTracking_def
                  permission_resolved_def startLiveLocationTracking_def)
qed

lemma idle_dashboard_run:
  assumes "\<not> d_hbTimer d" and "\<not> d_locTimer d"
    and "\<forall>(t, e) \<in> set evs. e = HeartbeatTick \<or> (\<exists>f. e = LocationFix f)"
  shows "dash_run uid evs (d, s) = (d, s)"
  using assms(3)
proof (induction evs)
  case Nil
  then show ?case by simp
next
  case (Cons te evs)
  then show ?case using assms(1,2) by (cases te) (auto simp: heartbeat_tick_def)
qed

text \<open>
  Claim C18. Leaving the dashboard while on duty: after going on duty (permission granted) the
  screen unmounts; from then on no heartbeat or location event changes anything, so
  the responder's document keeps the status active and its last heartbeat forever
  (only a sweep can demote it), and the assigner keeps seeing the responder as
  available.
\<close>

theorem unmounted_dashboard_stays_active:
  assumes uid: "uid \<noteq> []" and r: "map_of (responders s) uid = Some r"
    and evs: "\<forall>(t, e) \<in> set evs. e = HeartbeatTick \<or> (\<exists>f. e = LocationFix f)"
  shows "let (d1, s1) = dash_step uid ta (Toggle False tok) (dash_init, s);
             (d2, s2) = dash_step uid tb (PermissionResolved True) (d1, s1);
             (d3, s3) = dash_run uid evs (dash_step uid tc Unmount (d2, s2))
         in s3 = s2 \<and> \<not> d_hbTimer d3 \<and> \<not> d_locTimer d3 \<and>
            (\<exists>r2. map_of (responders s3) uid = Some r2 \<and> status r2 = Some Active)"
proof -
  let ?fa = "\<lambda>t. \<lambda>r. r\<lparr>status := Some Active, lastActiveAt := Some t\<rparr>"
  obtain s1 where s1: "snd (update_responder uid (?fa ta) (sendExpoPushToken False uid tok s)) = s1" by blast
  have k1: "uid \<in> dom (map_of (responders s1))"
    unfolding s1 [symmetric] by (simp only: dom_update_responder dom_sendExpoPushToken) (rule domI, rule r)
  then obtain x1 where x1: "map_of (responders s1) uid = Some x1" by blast
  obtain c where c: "update_responder uid (?fa tb) s1 = (Inr (), s1\<lparr>responders := c\<rparr>)"
    "map_of c = (map_of (responders s1))(uid \<mapsto> ?fa tb x1)"
    using update_responder_Inr [OF x1, of "?fa tb"] by blast
  let ?d2 = "dash_unmount ((startHeartbeat uid (dash_init\<lparr>d_isActive := True, d_pendingStart := True\<rparr>))
                \<lparr>d_pendingStart := False, d_locTimer := True\<rparr>)"
  have idle: "dash_run uid evs (?d2, s1\<lparr>responders := c\<rparr>) = (?d2, s1\<lparr>responders := c\<rparr>)"
    by (rule idle_dashboard_run [OF _ _ evs]) (simp_all add: dash_unmount_def)
  show ?thesis
    using uid s1 c idle
    by (simp add: toggleActive_def dash_init_def permission_resolved_def startLiveLocationTracking_def
                  startHeartbeat_def dash_unmount_def)
qed

end
