(* ===== verification/StudentClient.thy ===== *)
theory StudentClient
  imports Intake OtpGate
begin

text \<open>
  The student side's calls into the backend: \<open>reportEmergency\<close> of
  \<open>src/utils/reportemergency.js\<close> (client validation and defaults in front of the
  callable \<open>createEmergencyReport\<close>), and the signup screen
  \<open>src/Screens/Students/signup.js\<close> (\<open>handleSendOtp\<close> and
  \<open>handleVerifyAndSignup\<close>, the client checks in front of the callables
  \<open>sendOtp\<close> and \<open>verifyOtp\<close>). A check that fails on the client shows an alert and
  sends nothing; it is the value \<open>Inl ValidationError\<close> with the state unchanged.
  Strings are 8-bit character lists, so JavaScript's \<open>trim\<close> removes the ASCII
  white space characters only.
\<close>

definition js_space :: "char \<Rightarrow> bool" where
  "js_space c \<longleftrightarrow> c = CHR '' '' \<or> c = CHR 0x09 \<or> c = CHR 0x0A \<or> c = CHR 0x0B \<or> c = CHR 0x0C \<or> c = CHR 0x0D"

definition js_trim :: "string \<Rightarrow> string" where
  "js_trim s = rev (dropWhile js_space (rev (dropWhile js_space s)))"

text \<open>
  \<open>reportEmergency\<close> (lines 12-41): the three required fields must be truthy (a
  location object always is), then the defaults are spread under the caller's data.
  An absent optional field (\<open>None\<close>) takes the default; a present one is kept.
\<close>

definition report_missing :: "report_request \<Rightarrow> bool" where
  "report_missing r \<longleftrightarrow>
     \<not> truthy_str (req_type r) \<or> req_location r = None \<or> \<not> truthy_str (req_createdByUID r)"

definition prepare_report :: "report_request \<Rightarrow> report_request" where
  "prepare_report r =
     r\<lparr>req_details := Some (case req_details r of Some x \<Rightarrow> x | None \<Rightarrow> ''''),
       req_urgency := Some (case req_urgency r of Some x \<Rightarrow> x | None \<Rightarrow> ''medium''),
       req_contactMethod := Some (case req_contactMethod r of Some x \<Rightarrow> x | None \<Rightarrow> ''chat''),
       req_displayCode := Some (case req_displayCode r of Some x \<Rightarrow> x | None \<Rightarrow> ''ANON'')\<rparr>"

definition reportEmergency :: "report_request \<Rightarrow> docid \<Rightarrow> time \<Rightarrow> db \<Rightarrow> (docid, db) result" where
  "reportEmergency r rid now s =
     (if report_missing r then (Inl ValidationError, s)
      else createEmergencyReport (prepare_report r) rid now s)"

text \<open>
  \<open>handleSendOtp\<close> (lines 29-57): an empty (after trimming) email is refused on the
  screen; otherwise the trimmed email goes to \<open>sendOtp\<close>. The screen shows the code
  field (\<open>otpSent\<close>) exactly when the call succeeds.
\<close>

definition handleSendOtp ::
  "string \<Rightarrow> time \<Rightarrow> nat \<Rightarrow> bool \<Rightarrow> otp_state \<Rightarrow> (unit, otp_state) result"
where
  "handleSendOtp email now k mail_ok st =
     (if js_trim email = [] then (Inl ValidationError, st)
      else sendOtpHandler (Some (js_trim email)) None now k mail_ok st)"

definition otpSent_after :: "bool \<Rightarrow> (unit, otp_state) result \<Rightarrow> bool" where
  "otpSent_after sent res = (case fst res of Inr _ \<Rightarrow> True | Inl _ \<Rightarrow> sent)"

text \<open>
  \<open>handleVerifyAndSignup\<close> (lines 60-107): every field must be non-empty (the
  matric number, email and code after trimming), the terms box checked and the
  password at least 6 characters long; then \<open>verifyOtp\<close> gets the trimmed email and
  code and the password. The matric number is checked but not sent.
\<close>

definition handleVerifyAndSignup ::
  "string \<Rightarrow> string \<Rightarrow> string \<Rightarrow> string \<Rightarrow> bool \<Rightarrow> time \<Rightarrow> string \<Rightarrow> bool \<Rightarrow> otp_state \<Rightarrow>
   (string, otp_state) result"
where
  "handleVerifyAndSignup matric email password otp_in checked now fresh pw_ok st =
     (if js_trim matric = [] \<or> js_trim email = [] \<or> password = [] \<or> js_trim otp_in = []
      then (Inl ValidationError, st)
      else if \<not> checked then (Inl ValidationError, st)
      else if length password < 6 then (Inl ValidationError, st)
      else verifyOtpHandler (Some (js_trim email)) (Some (js_trim otp_in)) (Some password) now fresh pw_ok st)"

text \<open>
  The alerts shown when a call fails (lines 45-53 and 93-103), by the error's
  \<open>code\<close> as the client receives it. The OTP handlers throw \<open>HttpsError\<close>s
  (\<open>otptriggers.js\<close> lines 27-29, 44, 52-55, 77-80, 95-98, 141-144, 179-182) whose codes are
  \<open>https_code\<close> below.
\<close>

definition https_code :: "error \<Rightarrow> string" where
  "https_code e =
     (case e of
        ValidationError \<Rightarrow> ''invalid-argument''
      | InvalidOrExpiredOTP \<Rightarrow> ''invalid-argument''
      | RateLimitExceeded \<Rightarrow> ''resource-exhausted''
      | AccountLocked \<Rightarrow> ''permission-denied''
      | InternalError \<Rightarrow> ''internal''
      | NotFoundError \<Rightarrow> ''internal'')"

definition sendOtp_error_message :: "string \<Rightarrow> string" where
  "sendOtp_error_message code =
     (if code = ''permission-denied'' then ''Invalid email domain. Use @students.unilorin.edu.ng.''
      else if code = ''internal'' then ''Server error. Contact support.''
      else if code = ''unavailable'' then ''Service unavailable. Try later.''
      else ''Failed to send OTP. Check your connection and try again.'')"

definition signup_error_message :: "string \<Rightarrow> string" where
  "signup_error_message code =
     (if code = ''functions/unavailable'' then ''Service unavailable. Check connection.''
      else if code = ''auth/invalid-email'' then ''Invalid email format.''
      else if code = ''auth/weak-password'' then ''Password must be at least 6 characters.''
      else if code = ''auth/email-already-in-use'' then ''Email already registered.''
      else ''Signup failed. Try again.'')"

subsection \<open>The signup screen\<close>

text \<open>
  The screen's state (lines 19-26) and its inputs (lines 109-223). A call is one
  event here, from the press to the \<open>finally\<close>, so \<open>loading\<close> is false between
  events and is not kept. The code field is editable only once a code was sent, the
  Send button is disabled once it was sent, and \<open>otpSent\<close> is never reset. The
  success alert's OK navigates to \<open>Login\<close> (kept as \<open>sf_toLogin\<close>).
\<close>

record signup_form =
  sf_isChecked :: bool
  sf_passwordVisible :: bool
  sf_email :: string
  sf_otp :: string
  sf_matric :: string
  sf_password :: string
  sf_otpSent :: bool
  sf_toLogin :: bool

definition signup_init :: signup_form where
  "signup_init = \<lparr>sf_isChecked = False, sf_passwordVisible = False, sf_email = [], sf_otp = [],
                  sf_matric = [], sf_password = [], sf_otpSent = False, sf_toLogin = False\<rparr>"

datatype signup_event =
    SetMatric string | SetEmail string | SetOtp string | SetPassword string
  | TogglePasswordVisible | SetChecked bool
  | PressSend nat bool
  | PressSignup string bool

fun signup_step :: "time \<Rightarrow> signup_event \<Rightarrow> signup_form \<times> otp_state \<Rightarrow> signup_form \<times> otp_state" where
  "signup_step now (SetMatric x) (f, st) = (f\<lparr>sf_matric := x\<rparr>, st)"
| "signup_step now (SetEmail x) (f, st) = (f\<lparr>sf_email := x\<rparr>, st)"
| "signup_step now (SetOtp x) (f, st) = (if sf_otpSent f then f\<lparr>sf_otp := x\<rparr> else f, st)"
| "signup_step now (SetPassword x) (f, st) = (f\<lparr>sf_password := x\<rparr>, st)"
| "signup_step now TogglePasswordVisible (f, st) = (f\<lparr>sf_passwordVisible := \<not> sf_passwordVisible f\<rparr>, st)"
| "signup_step now (SetChecked b) (f, st) = (f\<lparr>sf_isChecked := b\<rparr>, st)"
| "signup_step now (PressSend k mail) (f, st) =
     (if sf_otpSent f then (f, st)
      else let res = handleSendOtp (sf_email f) now k mail st
           in (f\<lparr>sf_otpSent := otpSent_after (sf_otpSent f) res\<rparr>, snd res))"
| "signup_step now (PressSignup fresh pwok) (f, st) =
     (let res = handleVerifyAndSignup (sf_matric f) (sf_email f) (sf_password f) (sf_otp f)
                  (sf_isChecked f) now fresh pwok st
      in (case fst res of Inr _ \<Rightarrow> f\<lparr>sf_toLogin := True\<rparr> | Inl _ \<Rightarrow> f, snd res))"

fun signup_run :: "(time \<times> signup_event) list \<Rightarrow> signup_form \<times> otp_state \<Rightarrow> signup_form \<times> otp_state" where
  "signup_run [] fs = fs"
| "signup_run ((now, ev) # evs) fs = signup_run evs (signup_step now ev fs)"

subsection \<open>Properties of the student calls\<close>

lemma new_report_prepare [simp]: "new_report (prepare_report r) t loc uid now = new_report r t loc uid now"
  by (simp add: new_report_def prepare_report_def str_or_def split: option.splits)

lemma prepare_report_fields [simp]:
  "req_type (prepare_report r) = req_type r"
  "req_location (prepare_report r) = req_location r"
  "req_createdByUID (prepare_report r) = req_createdByUID r"
  by (simp_all add: prepare_report_def)

lemma report_missing_valid: "report_missing r \<longleftrightarrow> \<not> valid_request r"
  by (simp add: report_missing_def valid_request_def)

text \<open>
  Claim C27. The client wrapper changes nothing: \<open>reportEmergency\<close> has exactly the outcome and
  the database effect of calling \<open>createEmergencyReport\<close> with the caller's data.
  Its check is the server's validation, and its defaults are the server's defaults.
\<close>

theorem reportEmergency_eq_server:
  "reportEmergency r rid now s = createEmergencyReport r rid now s"
proof (cases "report_missing r")
  case True
  then show ?thesis
    by (simp add: reportEmergency_def report_missing_valid createEmergencyReport_invalid)
next
  case False
  then show ?thesis
    unfolding reportEmergency_def createEmergencyReport_def by (simp only: new_report_prepare prepare_report_fields if_False)
qed

text \<open>
  The matric number is required by the form but never sent: any two non-empty matric
  numbers give the same outcome and the same gate state.
\<close>

theorem matric_not_sent:
  "js_trim m1 \<noteq> [] \<Longrightarrow> js_trim m2 \<noteq> [] \<Longrightarrow>
   handleVerifyAndSignup m1 email pw c checked now fresh ok st =
   handleVerifyAndSignup m2 email pw c checked now fresh ok st"
  by (simp add: handleVerifyAndSignup_def)

subsection \<open>The signup screen's sessions\<close>

lemma handleSendOtp_fails: "\<exists>e. handleSendOtp email now k ok st = (Inl e, st)"
  by (simp add: handleSendOtp_def sendOtpHandler_fails)

lemma handleVerifyAndSignup_fails:
  "\<exists>e. handleVerifyAndSignup matric email pw c checked now fresh ok st = (Inl e, st)"
  by (simp add: handleVerifyAndSignup_def verifyOtpHandler_fails)

lemma signup_step_fails:
  assumes "\<not> sf_otpSent f" and "\<not> sf_toLogin f"
  shows "\<not> sf_otpSent (fst (signup_step now ev (f, st))) \<and> \<not> sf_toLogin (fst (signup_step now ev (f, st))) \<and>
         sf_otp (fst (signup_step now ev (f, st))) = sf_otp f \<and> snd (signup_step now ev (f, st)) = st"
proof (cases ev)
  case (PressSend k mail)
  obtain e where "handleSendOtp (sf_email f) now k mail st = (Inl e, st)" using handleSendOtp_fails by blast
  then show ?thesis using assms PressSend by (simp add: otpSent_after_def)
next
  case (PressSignup fresh ok)
  obtain e where "handleVerifyAndSignup (sf_matric f) (sf_email f) (sf_password f) (sf_otp f) (sf_isChecked f)
      now fresh ok st = (Inl e, st)" using handleVerifyAndSignup_fails by blast
  then show ?thesis using assms PressSignup by simp
qed (use assms in simp_all)

text \<open>
  Claim C26. No student can sign up on the screen: whatever is typed and pressed, in any order
  and at any time, the code is never shown as sent (so the code field never becomes
  editable), the screen never goes on to \<open>Login\<close>, and the gate's collections
  (codes, rate limits, lockouts, accounts, profiles, audit log) are left as they
  were. Every Send and every Sign Up fails on the server at the time read.
\<close>

theorem signup_never_registers:
  assumes "\<not> sf_otpSent f" and "\<not> sf_toLogin f"
  shows "\<not> sf_otpSent (fst (signup_run evs (f, st))) \<and> \<not> sf_toLogin (fst (signup_run evs (f, st))) \<and>
         sf_otp (fst (signup_run evs (f, st))) = sf_otp f \<and> snd (signup_run evs (f, st)) = st"
  using assms
proof (induction evs arbitrary: f)
  case Nil
  then show ?case by simp
next
  case (Cons te evs)
  obtain t ev where te: "te = (t, ev)" by (cases te)
  obtain f1 where s1: "signup_step t ev (f, st) = (f1, st)" and h: "\<not> sf_otpSent f1" "\<not> sf_toLogin f1" "sf_otp f1 = sf_otp f"
    using signup_step_fails [OF Cons.prems, of t ev st] by (cases "signup_step t ev (f, st)") auto
  show ?case using Cons.IH [OF h(1,2)] te s1 h(3) by simp
qed

text \<open>
  The send screen's messages do not match the gate's codes: a locked account
  (\<open>permission-denied\<close>) is told its e-mail domain is invalid, and an invalid
  domain (\<open>invalid-argument\<close>) or the rate limit (\<open>resource-exhausted\<close>) gets the
  generic message; a code the SDK prefixes with \<open>functions/\<close> always does.
\<close>

lemma sendOtp_error_messages:
  "sendOtp_error_message (https_code AccountLocked) = ''Invalid email domain. Use @students.unilorin.edu.ng.'' \<and>
   sendOtp_error_message (https_code ValidationError) = sendOtp_error_message [] \<and>
   sendOtp_error_message (https_code RateLimitExceeded) = sendOtp_error_message [] \<and>
   sendOtp_error_message (''functions/'' @ c) = sendOtp_error_message []"
  by (simp add: sendOtp_error_message_def https_code_def)

end
