(* ===== verification/Profile.thy ===== *)
theory Profile
  imports Data
begin

text \<open>
  The responder profile screen (\<open>src/Screens/Responders/profile.js\<close>). On mount
  \<open>fetchProfile\<close> reads the responder's document and spreads all of it into the
  screen's \<open>profile\<close> state, or creates a profile document when there is none;
  \<open>saveChanges\<close> spreads that state back into an \<open>updateDoc\<close>. The screen state is
  the snapshot read (if any), the profile fields being edited, and the edit flag. A
  field that is \<open>None\<close> in the snapshot is taken as absent from it, so the write
  leaves that field as it is; a field present in the snapshot is written back with
  the value read. The image upload to Storage is an argument: the download URL it
  produced, or \<open>None\<close> when it failed (the save then throws before writing).
  \<open>uid\<close>, \<open>createdAt\<close> and \<open>updatedAt\<close> are not part of the document model.
\<close>

text \<open>The screen's initial \<open>profile\<close> state (lines 35-42).\<close>

definition default_profile :: profile_info where
  "default_profile = \<lparr>p_name = '''', p_phoneNumber = '''', p_station = '''', p_responderType = '''',
                      p_notifications = True, p_profileImage = None\<rparr>"

record profile_screen =
  ps_snapshot :: "responder option"
  ps_profile :: profile_info
  ps_editing :: bool

definition profile_screen_init :: profile_screen where
  "profile_screen_init = \<lparr>ps_snapshot = None, ps_profile = default_profile, ps_editing = False\<rparr>"

text \<open>The document \<open>fetchProfile\<close> creates when there is none (lines 58-67).\<close>

definition initial_profile_doc :: "string \<Rightarrow> string \<Rightarrow> responder" where
  "initial_profile_doc phone name =
     \<lparr>status = None, currentLocation = None, lastKnownLocation = None, lastHeartbeat = None,
      lastActiveAt = None, lastInactiveAt = None, assignedEmergency = None, expoPushToken = None,
      rprofile = Some \<lparr>p_name = name, p_phoneNumber = phone, p_station = '''',
                        p_responderType = ''medical'', p_notifications = True, p_profileImage = None\<rparr>\<rparr>"

text \<open>
  \<open>fetchProfile\<close> (lines 47-77): the signed-in user's phone number and display name
  are the arguments \<open>phone\<close> and \<open>name\<close>.
\<close>

definition fetchProfile :: "docid \<Rightarrow> string \<Rightarrow> string \<Rightarrow> profile_screen \<Rightarrow> db \<Rightarrow> profile_screen \<times> db" where
  "fetchProfile uid phone name ps s =
     (if uid = [] then (ps, s)
      else case map_of (responders s) uid of
             Some r \<Rightarrow>
               (ps\<lparr>ps_snapshot := Some r,
                   ps_profile := (case rprofile r of Some p \<Rightarrow> p | None \<Rightarrow> ps_profile ps)\<rparr>, s)
           | None \<Rightarrow>
               (ps, s\<lparr>responders := coll_set (responders s) uid (initial_profile_doc phone name)\<rparr>))"

definition opt_or :: "'a option \<Rightarrow> 'a option \<Rightarrow> 'a option" where
  "opt_or a b = (case a of Some x \<Rightarrow> Some x | None \<Rightarrow> b)"

text \<open>The spread of the snapshot over the current document: its present fields win.\<close>

definition overlay :: "responder \<Rightarrow> responder \<Rightarrow> responder" where
  "overlay r0 r =
     r\<lparr>status := opt_or (status r0) (status r),
       currentLocation := opt_or (currentLocation r0) (currentLocation r),
       lastKnownLocation := opt_or (lastKnownLocation r0) (lastKnownLocation r),
       lastHeartbeat := opt_or (lastHeartbeat r0) (lastHeartbeat r),
       lastActiveAt := opt_or (lastActiveAt r0) (lastActiveAt r),
       lastInactiveAt := opt_or (lastInactiveAt r0) (lastInactiveAt r),
       assignedEmergency := opt_or (assignedEmergency r0) (assignedEmergency r),
       expoPushToken := opt_or (expoPushToken r0) (expoPushToken r)\<rparr>"

definition is_remote_url :: "string \<Rightarrow> bool" where
  "is_remote_url u \<longleftrightarrow> take 5 u = ''https''"

text \<open>
  \<open>saveChanges\<close> (lines 96-123): a local image (a non-empty URL not starting
  with \<open>https\<close>) is uploaded first; then the whole
  screen state is written with the image URL. On success the screen leaves edit mode;
  on an error (upload failure, missing document) only an alert is shown.
\<close>

definition saveChanges :: "docid \<Rightarrow> string option \<Rightarrow> profile_screen \<Rightarrow> db \<Rightarrow> profile_screen \<times> db" where
  "saveChanges uid uploaded ps s =
     (if uid = [] then (ps, s)
      else
        (let img = p_profileImage (ps_profile ps);
             url = (case img of
                      Some u \<Rightarrow> if u = [] \<or> is_remote_url u then Some (Some u) else map_option Some uploaded
                    | None \<Rightarrow> Some None)
         in case url of
              None \<Rightarrow> (ps, s)
            | Some photo \<Rightarrow>
                (let p = (ps_profile ps)\<lparr>p_profileImage := photo\<rparr>;
                     f = (\<lambda>r. (case ps_snapshot ps of Some r0 \<Rightarrow> overlay r0 r | None \<Rightarrow> r)\<lparr>rprofile := Some p\<rparr>)
                 in case update_responder uid f s of
                      (Inl _, s') \<Rightarrow> (ps, s')
                    | (Inr _, s') \<Rightarrow> (ps\<lparr>ps_editing := False\<rparr>, s'))))"

text \<open>\<open>toggleEdit\<close> (lines 125-128): enter edit mode, or save when editing.\<close>

definition toggleEdit :: "docid \<Rightarrow> string option \<Rightarrow> profile_screen \<Rightarrow> db \<Rightarrow> profile_screen \<times> db" where
  "toggleEdit uid uploaded ps s =
     (if ps_editing ps then saveChanges uid uploaded ps s else (ps\<lparr>ps_editing := True\<rparr>, s))"

text \<open>
  \<open>pickImage\<close> (lines 80-93): only in edit mode; the picker's result is the chosen
  image's local URI, or \<open>None\<close> when the user cancelled.
\<close>

definition pickImage :: "string option \<Rightarrow> profile_screen \<Rightarrow> profile_screen" where
  "pickImage picked ps =
     (if \<not> ps_editing ps then ps
      else case picked of
             None \<Rightarrow> ps
           | Some uri \<Rightarrow> ps\<lparr>ps_profile := (ps_profile ps)\<lparr>p_profileImage := Some uri\<rparr>\<rparr>)"

text \<open>
  The form's inputs (lines 180-248): the three text fields are \<open>editable\<close> only in
  edit mode, and the responder-type buttons are disabled outside it and offer
  \<open>medical\<close>, \<open>security\<close> and \<open>fire\<close> only.
\<close>

datatype profile_edit = EditName string | EditPhone string | EditStation string | EditType string

definition responder_types :: "string list" where
  "responder_types = [''medical'', ''security'', ''fire'']"

definition profile_input :: "profile_edit \<Rightarrow> profile_screen \<Rightarrow> profile_screen" where
  "profile_input e ps =
     (if \<not> ps_editing ps then ps
      else let p = ps_profile ps in
        case e of
          EditName x \<Rightarrow> ps\<lparr>ps_profile := p\<lparr>p_name := x\<rparr>\<rparr>
        | EditPhone x \<Rightarrow> ps\<lparr>ps_profile := p\<lparr>p_phoneNumber := x\<rparr>\<rparr>
        | EditStation x \<Rightarrow> ps\<lparr>ps_profile := p\<lparr>p_station := x\<rparr>\<rparr>
        | EditType x \<Rightarrow> if x \<in> set responder_types then ps\<lparr>ps_profile := p\<lparr>p_responderType := x\<rparr>\<rparr> else ps)"

text \<open>
  \<open>handleLogout\<close> (lines 130-139): sign out, then remove the saved session, then go
  to \<open>Welcome\<close>; a failure of either shows an alert and stays. The state is whether
  a user is signed in and whether \<open>responderData\<close> is stored; the outcomes of the
  two calls are arguments.
\<close>

definition handleLogout :: "bool \<Rightarrow> bool \<Rightarrow> bool \<times> bool \<Rightarrow> (bool \<times> bool) \<times> string option" where
  "handleLogout signOutOk removeOk st =
     (let (signedIn, stored) = st in
      if \<not> signOutOk then ((signedIn, stored), None)
      else if \<not> removeOk then ((False, stored), None)
      else ((False, False), Some ''Welcome''))"

text \<open>
  The \<open>loading\<close> flag (lines 34 and 49-74): \<open>fetchProfile\<close> clears it in its
  \<open>finally\<close>, which an early return for a signed-out user never reaches.
\<close>

definition fetchProfile_loading :: "docid \<Rightarrow> bool" where
  "fetchProfile_loading uid = (uid = [])"

text \<open>
  What the screen renders (lines 141-273): while loading, only a spinner and
  \<open>Loading profile...\<close>; else the picked image or the placeholder, the three text
  fields and the selected responder type (editable in edit mode only), and the
  primary button labelled \<open>Save Changes\<close> in edit mode and \<open>Edit Profile\<close>
  outside it.
\<close>

datatype profile_view =
    ProfileLoading
  | ProfileForm "string option" string string string string bool string

definition profile_render :: "bool \<Rightarrow> profile_screen \<Rightarrow> profile_view" where
  "profile_render loading ps =
     (if loading then ProfileLoading
      else let p = ps_profile ps in
        ProfileForm (p_profileImage p) (p_name p) (p_phoneNumber p) (p_station p) (p_responderType p)
          (ps_editing ps) (if ps_editing ps then ''Save Changes'' else ''Edit Profile''))"

subsection \<open>What a save writes\<close>

lemma saveChanges_snapshot:
  assumes "uid \<noteq> []" and "ps_snapshot ps = Some r0" and "map_of (responders s) uid = Some r"
    and "p_profileImage (ps_profile ps) = None"
  shows "\<exists>s'. saveChanges uid up ps s = (ps\<lparr>ps_editing := False\<rparr>, s') \<and>
     map_of (responders s') uid =
       Some ((overlay r0 r)\<lparr>rprofile := Some ((ps_profile ps)\<lparr>p_profileImage := None\<rparr>)\<rparr>) \<and>
     emergencies s' = emergencies s \<and> responders_alerts s' = responders_alerts s"
proof -
  let ?f = "\<lambda>r. (overlay r0 r)\<lparr>rprofile := Some ((ps_profile ps)\<lparr>p_profileImage := None\<rparr>)\<rparr>"
  obtain c where c: "update_responder uid ?f s = (Inr (), s\<lparr>responders := c\<rparr>)"
    "map_of c = (map_of (responders s))(uid \<mapsto> ?f r)"
    using update_responder_Inr [OF assms(3), of ?f] by blast
  show ?thesis using assms(1,2,4) c by (simp add: saveChanges_def Let_def)
qed

lemma db_wf_saveChanges: "db_wf s \<Longrightarrow> db_wf (snd (saveChanges uid up ps s))"
  by (auto simp: saveChanges_def Let_def split: option.splits prod.splits sum.splits
           elim: db_wf_update_responder_eq)

text \<open>
  A save writes back the document the screen read when it opened: every field present
  in that snapshot (status and assignment included) replaces the current value,
  whatever was written in between, and the profile fields are those edited.
\<close>

theorem profile_save_writes_snapshot:
  assumes "uid \<noteq> []" and "map_of (responders s0) uid = Some r0" and "rprofile r0 = None"
    and "map_of (responders s) uid = Some r"
  shows "\<exists>s'. saveChanges uid up (fst (fetchProfile uid ph nm profile_screen_init s0)) s = (\<lparr>ps_snapshot = Some r0, ps_profile = default_profile, ps_editing = False\<rparr>, s') \<and>
     map_of (responders s') uid = Some ((overlay r0 r)\<lparr>rprofile := Some default_profile\<rparr>)"
proof -
  have f: "fst (fetchProfile uid ph nm profile_screen_init s0) =
      \<lparr>ps_snapshot = Some r0, ps_profile = default_profile, ps_editing = False\<rparr>"
    using assms(1-3) by (simp add: fetchProfile_def profile_screen_init_def)
  show ?thesis
    using saveChanges_snapshot [of uid "fst (fetchProfile uid ph nm profile_screen_init s0)" r0 s r up] assms(1,4) f
    by (simp add: default_profile_def, blast)
qed

subsection \<open>The form\<close>

text \<open>Outside edit mode no input, pick or type button changes what a save would write.\<close>

lemma read_only_form:
  "\<not> ps_editing ps \<Longrightarrow> profile_input e ps = ps \<and> pickImage picked ps = ps"
  by (simp add: profile_input_def pickImage_def)

text \<open>
  A picked local image that fails to upload makes the save write nothing: the screen
  stays in edit mode with the local URI, and the database is unchanged.
\<close>

lemma save_upload_failure:
  assumes "uid \<noteq> []" and "uri \<noteq> []" and "\<not> is_remote_url uri" and "ps_editing ps"
  shows "toggleEdit uid None (pickImage (Some uri) ps) s = (pickImage (Some uri) ps, s)"
  using assms by (simp add: toggleEdit_def saveChanges_def pickImage_def Let_def)

subsection \<open>What the screen shows\<close>

text \<open>
  A signed-out user sees the spinner for good, since no fetch clears the flag; a
  signed-in user sees the form once the fetch has run, and after a save that
  succeeded its button reads \<open>Edit Profile\<close> again.
\<close>

lemma profile_render_after_fetch:
  "profile_render (fetchProfile_loading uid) ps = ProfileLoading \<longleftrightarrow> uid = []"
  by (simp add: profile_render_def fetchProfile_loading_def Let_def)

lemma profile_render_after_save:
  assumes "uid \<noteq> []" and "ps_snapshot ps = Some r0" and "map_of (responders s) uid = Some r"
    and "p_profileImage (ps_profile ps) = None"
  shows "case profile_render (fetchProfile_loading uid) (fst (saveChanges uid up ps s)) of
           ProfileForm _ _ _ _ _ editing lbl \<Rightarrow> \<not> editing \<and> lbl = ''Edit Profile''
         | ProfileLoading \<Rightarrow> False"
  using saveChanges_snapshot [OF assms, of up] assms(1)
  by (auto simp: profile_render_def fetchProfile_loading_def Let_def)

end
