(* ===== verification/Backend.thy ===== *)
theory Backend
  imports System OtpGate
begin

text \<open>
  The callable API of the deployed functions: the exports of
  \<open>src/functions/index.js\<close> and the OTP handlers of
  \<open>src/functions/triggers/otptriggers.js\<close> they load, over one backend state made of
  the dispatch database and the OTP gate's collections. What the environment decides
  (the time, Firestore's generated id, the random draw, the mail configuration and
  delivery, the new account id, the password update outcome) is a record of
  arguments. The dispatch callables catch every error and rethrow it as a plain
  \<open>Error\<close>, which the callable runtime reports to the client as \<open>internal\<close>; the
  OTP handlers' input checks throw \<open>HttpsError\<close>s whose codes reach the client
  unchanged; past the checks they throw a \<open>TypeError\<close> (OtpGate), reported as
  \<open>internal\<close>. A callable request has no \<open>ip\<close> field, so \<open>sendOtp\<close> gets none.
\<close>

record backend =
  b_db :: db
  b_gate :: otp_state

record env =
  env_now :: time
  env_rid :: docid
  env_k :: nat
  env_cfgKey :: "string option"
  env_envKey :: "string option"
  env_cfgSender :: "string option"
  env_envSender :: "string option"
  env_delivered :: bool
  env_fresh :: string
  env_pwOk :: bool

text \<open>
  \<open>sendEmail\<close> (otptriggers.js lines 12-46): the SendGrid key and sender come from
  the functions config, else from the environment; a missing one, or a failed send,
  is an \<open>internal\<close> error.
\<close>

definition sendEmail :: "string option \<Rightarrow> string option \<Rightarrow> string option \<Rightarrow> string option \<Rightarrow> bool \<Rightarrow> error + unit" where
  "sendEmail cfgKey envKey cfgSender envSender delivered =
     (let apiKey = (if truthy_str cfgKey then cfgKey else envKey);
          sender = (if truthy_str cfgSender then cfgSender else envSender)
      in if \<not> truthy_str apiKey \<or> \<not> truthy_str sender then Inl InternalError
         else if \<not> delivered then Inl InternalError
         else Inr ())"

definition mail_ok :: "env \<Rightarrow> bool" where
  "mail_ok v \<longleftrightarrow>
     sendEmail (env_cfgKey v) (env_envKey v) (env_cfgSender v) (env_envSender v) (env_delivered v) = Inr ()"

datatype call =
    SendOtp "string option"
  | VerifyOtp "string option" "string option" "string option"
  | CreateEmergencyReport report_request
  | CompleteEmergency "string option" "string option"
  | UpdateResponderHeartbeat "string option" "(real \<times> real) option"

datatype response = RSuccess | RReport docid | RUid string

text \<open>The \<open>catch\<close> of the dispatch callables: \<open>throw new Error(err.message)\<close>.\<close>

definition rethrow_plain :: "error + 'a \<Rightarrow> error + 'a" where
  "rethrow_plain r = (case r of Inl _ \<Rightarrow> Inl InternalError | Inr x \<Rightarrow> Inr x)"

definition on_db :: "(error + 'a) \<times> db \<Rightarrow> ('a \<Rightarrow> response) \<Rightarrow> backend \<Rightarrow> (error + response) \<times> backend" where
  "on_db rs f b = (rethrow_plain (map_sum id f (fst rs)), b\<lparr>b_db := snd rs\<rparr>)"

definition on_gate :: "(error + 'a) \<times> otp_state \<Rightarrow> ('a \<Rightarrow> response) \<Rightarrow> backend \<Rightarrow> (error + response) \<times> backend" where
  "on_gate rs f b = (map_sum id f (fst rs), b\<lparr>b_gate := snd rs\<rparr>)"

definition invoke :: "env \<Rightarrow> call \<Rightarrow> backend \<Rightarrow> (error + response) \<times> backend" where
  "invoke v c b =
     (case c of
        SendOtp e \<Rightarrow>
          on_gate (sendOtpHandler e None (env_now v) (env_k v) (mail_ok v) (b_gate b)) (\<lambda>_. RSuccess) b
      | VerifyOtp e code pw \<Rightarrow>
          on_gate (verifyOtpHandler e code pw (env_now v) (env_fresh v) (env_pwOk v) (b_gate b)) RUid b
      | CreateEmergencyReport req \<Rightarrow>
          on_db (createEmergencyReport req (env_rid v) (env_now v) (b_db b)) RReport b
      | CompleteEmergency u e \<Rightarrow>
          on_db (completeEmergency u e (env_now v) (b_db b)) (\<lambda>_. RSuccess) b
      | UpdateResponderHeartbeat u loc \<Rightarrow>
          on_db (updateResponderHeartbeat u loc (env_now v) (b_db b)) (\<lambda>_. RSuccess) b)"

definition is_dispatch_call :: "call \<Rightarrow> bool" where
  "is_dispatch_call c = (case c of SendOtp _ \<Rightarrow> False | VerifyOtp _ _ _ \<Rightarrow> False | _ \<Rightarrow> True)"

text \<open>
  Module initialisation (lines 22-41): \<open>onInit\<close> only registers its callback, which
  initialises the Admin SDK (for the emulator with the project id, in production
  with the default credentials) before the first invocation; the module then goes
  on, at load time, to \<open>admin.firestore()\<close>, which needs a default app and throws
  when there is none. The number of initialised apps and the emulator flag are
  arguments.
\<close>

datatype init_action = InitEmulator string | InitProduction | AlreadyInitialized

definition onInit_callback :: "nat \<Rightarrow> bool \<Rightarrow> init_action" where
  "onInit_callback apps emulator =
     (if apps = 0 then (if emulator then InitEmulator ''alertivo-new'' else InitProduction)
      else AlreadyInitialized)"

definition module_load :: "nat \<Rightarrow> error + unit" where
  "module_load apps = (if apps = 0 then Inl InternalError else Inr ())"

text \<open>
  The manual test \<open>src/testotp.js\<close> (lines 5-32) posts \<open>sendOtp\<close> for a fixed
  address through the callable protocol.
\<close>

definition testEmail :: string where
  "testEmail = ''olanrewajupelumi606@gmail.com''"

definition testSendOtp :: "env \<Rightarrow> backend \<Rightarrow> (error + response) \<times> backend" where
  "testSendOtp v b = invoke v (SendOtp (Some testEmail)) b"

subsection \<open>Properties of the API layer\<close>

text \<open>
  Every error of a dispatch callable reaches the client as \<open>internal\<close>: a missing
  field (the specification's \<open>ValidationError\<close>) and a missing document
  (\<open>NotFoundError\<close>) included, because each handler's \<open>catch\<close> rethrows a plain
  \<open>Error\<close>.
\<close>

theorem dispatch_errors_internal:
  "is_dispatch_call c \<Longrightarrow> fst (invoke v c b) = Inl e \<Longrightarrow> e = InternalError"
  by (cases c) (auto simp: is_dispatch_call_def invoke_def on_db_def rethrow_plain_def split: sum.splits)

lemma invoke_separation:
  "is_dispatch_call c \<Longrightarrow> b_gate (snd (invoke v c b)) = b_gate b"
  "\<not> is_dispatch_call c \<Longrightarrow> b_db (snd (invoke v c b)) = b_db b"
  by (cases c; simp add: is_dispatch_call_def invoke_def on_db_def on_gate_def)+

lemma invalid_report_reported_internal:
  "\<not> valid_request req \<Longrightarrow>
   invoke v (CreateEmergencyReport req) b = (Inl InternalError, b)"
  by (simp add: invoke_def on_db_def rethrow_plain_def createEmergencyReport_invalid)

text \<open>The OTP mail goes out exactly when a key and a sender are configured and SendGrid accepts it.\<close>

lemma mail_ok_iff:
  "mail_ok v \<longleftrightarrow> (truthy_str (env_cfgKey v) \<or> truthy_str (env_envKey v)) \<and>
                 (truthy_str (env_cfgSender v) \<or> truthy_str (env_envSender v)) \<and> env_delivered v"
  by (auto simp: mail_ok_def sendEmail_def Let_def)

text \<open>The test script's request is always refused: its address is not a student address.\<close>

lemma testSendOtp_refused: "testSendOtp v b = (Inl ValidationError, b)"
  by (simp add: testSendOtp_def invoke_def on_gate_def sendOtpHandler_def testEmail_def
                endsWith_def student_domain_def)

end
