(* ===== verification/IncomingAlert.thy ===== *)
theory IncomingAlert
  imports Lifecycle
begin

text \<open>
  The incoming-alert screen (\<open>src/Screens/Responders/incomingalert.js\<close>). Its data
  (lines 26-95): the alert passed in the route or fetched by id (single mode), and
  otherwise the list built by a listener on the responder's pending alerts. The
  listener appends the documents a snapshot reports as \<open>added\<close>, i.e. those in the
  query's result that were not in its previous result; removed and modified documents
  are ignored. The SDK's previous result is part of the screen state (\<open>ia_seen\<close>); a
  new subscription starts with none. A displayed alert carries the \<open>id\<close> field the
  screen gives it: the document id for a listed or fetched alert, none for the
  \<open>alertData\<close> of the route, which is the document's data only.

  The handlers \<open>handleAccept\<close> and \<open>handleDecline\<close> are asynchronous. A press runs
  the handler up to its first \<open>await\<close>: \<open>setProcessingId\<close> and the first
  \<open>updateDoc\<close>, which is issued then; a write that throws synchronously (an
  undefined document id, an undefined field value) ends the handler at once in its
  \<open>catch\<close> and \<open>finally\<close>. The Firestore client commits one client's writes in
  the order they are issued and settles their promises in that order, so the
  operations in flight form a queue ordered by the issue of their outstanding write,
  and each \<open>IaAck\<close> event settles the oldest one and runs its handler to the next
  \<open>await\<close> (issuing the next write, which joins the end of the queue) or to its end.
  A write takes effect on the database when it is issued. Presses and snapshots can
  come between the acknowledgements. An operation ends in its \<open>finally\<close>, which
  clears \<open>processingId\<close> and, when the screen was in single mode at the press, the
  single alert.
\<close>

record ia_screen =
  ia_alerts :: "(docid \<times> alert) list"
  ia_single :: "(docid option \<times> alert) option"
  ia_seen :: "docid list"

definition ia_init :: ia_screen where
  "ia_init = \<lparr>ia_alerts = [], ia_single = None, ia_seen = []\<rparr>"

text \<open>The query of lines 69-73: alerts assigned to the responder and pending, by id.\<close>

definition pending_for :: "docid \<Rightarrow> db \<Rightarrow> (docid \<times> alert) list" where
  "pending_for uid s =
     coll_where (\<lambda>a. a_assignedResponder a = Some uid \<and> a_status a = Pending) (responders_alerts s)"

text \<open>A snapshot of the list listener (lines 75-87); it runs only without a single alert.\<close>

definition ia_snapshot :: "docid \<Rightarrow> db \<Rightarrow> ia_screen \<Rightarrow> ia_screen" where
  "ia_snapshot uid s sc =
     (if ia_single sc \<noteq> None \<or> uid = [] then sc
      else
        (let new = pending_for uid s;
             added = filter (\<lambda>(k, a). k \<notin> set (ia_seen sc)) new
         in sc\<lparr>ia_alerts := ia_alerts sc @ added, ia_seen := map fst new\<rparr>))"

text \<open>
  \<open>fetchSingleAlert\<close> (lines 40-61): with an id but no data in the route, the alert is
  read by id and shown with that id; a missing alert leaves the screen (\<open>None\<close>).
\<close>

definition fetchSingleAlert :: "docid \<Rightarrow> db \<Rightarrow> ia_screen \<Rightarrow> ia_screen option" where
  "fetchSingleAlert aid s sc =
     (case map_of (responders_alerts s) aid of
        Some a \<Rightarrow> Some (sc\<lparr>ia_single := Some (Some aid, a)\<rparr>)
      | None \<Rightarrow> None)"

subsection \<open>The screen's events\<close>

datatype ia_kind = OpAccept | OpDecline

text \<open>
  A handler in flight: its kind and alert, which write is outstanding (0: the alert
  write, 1: the responder write of an accept), whether that write succeeds, and
  whether the screen was in single mode at the press.
\<close>

record ia_op =
  op_kind :: ia_kind
  op_target :: docid
  op_phase :: nat
  op_ok :: bool
  op_single :: bool

datatype ia_nav = NavAlertDetails docid | NavBack

text \<open>
  The screen state: its data, the \<open>loading\<close> flag, \<open>processingId\<close> (\<open>None\<close> is
  \<open>null\<close>, \<open>Some None\<close> is \<open>undefined\<close>), the operations in flight and the
  navigation requests made so far.
\<close>

record ia_ui =
  ui_sc :: ia_screen
  ui_loading :: bool
  ui_processing :: "docid option option"
  ui_ops :: "ia_op list"
  ui_nav :: "ia_nav list"

definition ia_ui_init :: ia_ui where
  "ia_ui_init = \<lparr>ui_sc = ia_init, ui_loading = True, ui_processing = None, ui_ops = [], ui_nav = []\<rparr>"

text \<open>The route effect (lines 34-63).\<close>

definition ia_route :: "string option \<Rightarrow> alert option \<Rightarrow> ia_ui \<Rightarrow> db \<Rightarrow> ia_ui" where
  "ia_route alertId alertData u s =
     (case alertData of
        Some a \<Rightarrow> u\<lparr>ui_sc := (ui_sc u)\<lparr>ia_single := Some (None, a)\<rparr>, ui_loading := False\<rparr>
      | None \<Rightarrow>
          (if \<not> truthy_str alertId then u
           else case fetchSingleAlert (the alertId) s (ui_sc u) of
                  Some sc \<Rightarrow> u\<lparr>ui_sc := sc, ui_loading := False\<rparr>
                | None \<Rightarrow> u\<lparr>ui_nav := ui_nav u @ [NavBack], ui_loading := False\<rparr>))"

text \<open>A snapshot delivered to the list listener, which is subscribed only without a single alert.\<close>

definition ia_listen :: "docid \<Rightarrow> db \<Rightarrow> ia_ui \<Rightarrow> ia_ui" where
  "ia_listen uid s u =
     (if ia_single (ui_sc u) \<noteq> None \<or> uid = [] then u
      else u\<lparr>ui_sc := ia_snapshot uid s (ui_sc u), ui_loading := False\<rparr>)"

text \<open>What the screen shows (lines 245-275): a spinner, the single alert, the list, or nothing.\<close>

datatype ia_body = BodyLoading | BodyAlerts "(docid option \<times> alert) list" | BodyEmpty

definition ia_body :: "ia_ui \<Rightarrow> ia_body" where
  "ia_body u =
     (if ui_loading u then BodyLoading
      else case ia_single (ui_sc u) of
             Some x \<Rightarrow> BodyAlerts [x]
           | None \<Rightarrow> if ia_alerts (ui_sc u) \<noteq> [] then BodyAlerts (map (\<lambda>(k, a). (Some k, a)) (ia_alerts (ui_sc u)))
                     else BodyEmpty)"

definition ia_header :: "ia_ui \<Rightarrow> string" where
  "ia_header u =
     (if ia_single (ui_sc u) \<noteq> None then ''New alert assigned to you''
      else if ia_alerts (ui_sc u) \<noteq> [] then ''You have new alerts''
      else ''Waiting for new emergency alerts...'')"

text \<open>
  The card of one alert (\<open>renderAlert\<close>, lines 149-170): its title, location and
  details. The location falls back from the address to the coordinates; the
  template string of the coordinates is never empty, so the final \<open>N/A\<close> is never
  shown.
\<close>

datatype loc_text = LocAddress string | LocCoords real real

definition alert_card :: "alert \<Rightarrow> string \<times> loc_text \<times> string" where
  "alert_card a =
     (if a_type a \<noteq> [] then a_type a else ''Emergency'',
      if a_readableAddress a \<noteq> [] then LocAddress (a_readableAddress a)
      else LocCoords (lat (a_location a)) (lng (a_location a)),
      if a_details a \<noteq> [] then a_details a else ''N/A'')"

text \<open>
  The Accept and Decline buttons of a shown alert (lines 191-225) are disabled while
  \<open>processingId\<close> equals that alert's \<open>id\<close>.
\<close>

definition ia_items :: "ia_ui \<Rightarrow> (docid option \<times> alert) list" where
  "ia_items u = (case ia_body u of BodyAlerts xs \<Rightarrow> xs | _ \<Rightarrow> [])"

definition ia_enabled :: "ia_ui \<Rightarrow> docid option \<Rightarrow> bool" where
  "ia_enabled u t \<longleftrightarrow> t \<in> set (map fst (ia_items u)) \<and> ui_processing u \<noteq> Some t"

text \<open>
  The whole card (\<open>renderAlert\<close>, lines 149-237). Its time reads
  \<open>alert.createdAt\<close>, which no alert document has (the writer of
  \<open>responders_alerts\<close> stores \<open>routedAt\<close>), so it is \<open>N/A\<close>. The
  \<open>additionalInfo\<close> block is shown for every alert this code writes, since the
  writer stores \<open>additionalInfo || {}\<close>; of it the model keeps the urgency line (the
  attacker fields come from the client's opaque \<open>additionalInfo\<close>). Both buttons
  show a spinner and are disabled while \<open>processingId\<close> equals the alert's
  \<open>id\<close>; Call Dispatcher is always enabled.
\<close>

record ia_card =
  card_title :: string
  card_location :: loc_text
  card_time :: string
  card_details :: string
  card_urgency :: string
  card_busy :: bool

definition renderAlert :: "ia_ui \<Rightarrow> docid option \<times> alert \<Rightarrow> ia_card" where
  "renderAlert u x =
     (let (t, a) = x; (title, loc, det) = alert_card a
      in \<lparr>card_title = title, card_location = loc, card_time = ''N/A'', card_details = det,
          card_urgency = (if a_urgency a \<noteq> [] then a_urgency a else ''N/A''),
          card_busy = (ui_processing u = Some t)\<rparr>)"

definition ia_cards :: "ia_ui \<Rightarrow> ia_card list" where
  "ia_cards u = map (renderAlert u) (ia_items u)"

text \<open>
  \<open>handleCall\<close> (lines 143-147) logs and shows an alert; it dials no number and
  changes no state.
\<close>

definition handleCall :: "ia_ui \<Rightarrow> ia_ui \<times> string \<times> string" where
  "handleCall u = (u, ''Call'', ''Calling dispatcher... (Integrate tel: link)'')"

text \<open>
  The \<open>finally\<close> blocks (lines 118-121 and 137-140): \<open>processingId\<close> becomes
  \<open>null\<close>; the single alert is cleared when the press was made in single mode, and a
  cleared single alert subscribes the list listener anew.
\<close>

definition ia_finish :: "bool \<Rightarrow> ia_ui \<Rightarrow> ia_ui" where
  "ia_finish single u =
     (let u1 = u\<lparr>ui_processing := None\<rparr>
      in if single \<and> ia_single (ui_sc u1) \<noteq> None
         then u1\<lparr>ui_sc := (ui_sc u1)\<lparr>ia_single := None, ia_seen := []\<rparr>\<rparr>
         else u1)"

text \<open>
  A press (lines 97-105 and 124-131) up to the first \<open>await\<close>. \<open>doc(db, ...,
  undefined)\<close> throws, and so does the accept's write of the undefined
  \<open>responderUID\<close> of a signed-out user: the handler ends at once. Otherwise the
  alert write is issued (and takes effect if the document exists) and the handler
  waits for it.
\<close>

definition ia_press :: "docid \<Rightarrow> time \<Rightarrow> ia_kind \<Rightarrow> docid option \<Rightarrow> ia_ui \<Rightarrow> db \<Rightarrow> ia_ui \<times> db" where
  "ia_press uid now k t u s =
     (let u1 = u\<lparr>ui_processing := Some t\<rparr>;
          single = (ia_single (ui_sc u) \<noteq> None)
      in case t of
           None \<Rightarrow> (ia_finish single u1, s)
         | Some aid \<Rightarrow>
             (if k = OpAccept \<and> uid = [] then (ia_finish single u1, s)
              else
                (case update_alert aid (if k = OpAccept then accept_alert uid now else decline_alert now) s of
                   (r, s1) \<Rightarrow>
                     (u1\<lparr>ui_ops := ui_ops u @ [\<lparr>op_kind = k, op_target = aid, op_phase = 0,
                                                 op_ok = \<not> isl r, op_single = single\<rparr>]\<rparr>, s1))))"

text \<open>
  The oldest outstanding write settles (lines 106-121 and 132-140). A failed write
  goes to the \<open>catch\<close> and the \<open>finally\<close>. After the alert write, Decline goes
  back and ends, and Accept issues the responder write and waits again; after that
  one, Accept navigates to the details and ends.
\<close>

definition ia_ack :: "docid \<Rightarrow> ia_ui \<Rightarrow> db \<Rightarrow> ia_ui \<times> db" where
  "ia_ack uid u s =
     (case ui_ops u of
        [] \<Rightarrow> (u, s)
      | op # ops \<Rightarrow>
          (let u1 = u\<lparr>ui_ops := ops\<rparr> in
           if \<not> op_ok op then (ia_finish (op_single op) u1, s)
           else case op_kind op of
                  OpDecline \<Rightarrow> (ia_finish (op_single op) (u1\<lparr>ui_nav := ui_nav u @ [NavBack]\<rparr>), s)
                | OpAccept \<Rightarrow>
                    (if op_phase op = 0 then
                       (case update_responder uid
                               (\<lambda>r. r\<lparr>status := Some Busy, assignedEmergency := Some (op_target op)\<rparr>) s of
                          (r, s1) \<Rightarrow> (u1\<lparr>ui_ops := ops @ [op\<lparr>op_phase := 1, op_ok := \<not> isl r\<rparr>]\<rparr>, s1))
                     else (ia_finish (op_single op)
                             (u1\<lparr>ui_nav := ui_nav u @ [NavAlertDetails (op_target op)]\<rparr>), s))))"

datatype ia_event =
    IaRoute "string option" "alert option"
  | IaSnapshot
  | IaPress ia_kind "docid option"
  | IaAck

fun ia_step :: "docid \<Rightarrow> time \<Rightarrow> ia_event \<Rightarrow> ia_ui \<times> db \<Rightarrow> ia_ui \<times> db" where
  "ia_step uid now (IaRoute i d) (u, s) = (ia_route i d u s, s)"
| "ia_step uid now IaSnapshot (u, s) = (ia_listen uid s u, s)"
| "ia_step uid now (IaPress k t) (u, s) = (if ia_enabled u t then ia_press uid now k t u s else (u, s))"
| "ia_step uid now IaAck (u, s) = ia_ack uid u s"

fun ia_run :: "docid \<Rightarrow> (time \<times> ia_event) list \<Rightarrow> ia_ui \<times> db \<Rightarrow> ia_ui \<times> db" where
  "ia_run uid [] us = us"
| "ia_run uid ((now, ev) # evs) us = ia_run uid evs (ia_step uid now ev us)"

subsection \<open>Properties of the screen\<close>

lemma pending_for_mem:
  "coll_wf (responders_alerts s) \<Longrightarrow>
   (k, a) \<in> set (pending_for uid s) \<longleftrightarrow>
   map_of (responders_alerts s) k = Some a \<and> a_assignedResponder a = Some uid \<and> a_status a = Pending"
  by (simp add: pending_for_def coll_where_mem coll_wf_map_of_iff)

lemma ia_snapshot_keeps: "set (ia_alerts sc) \<subseteq> set (ia_alerts (ia_snapshot uid s sc))"
  by (auto simp: ia_snapshot_def Let_def)

text \<open>
  Run alone to their ends, the screen's handlers have the database effects of
  \<open>handleAccept\<close> and \<open>handleDecline\<close> of the Lifecycle theory.
\<close>

lemma ia_accept_refines:
  assumes "uid \<noteq> []" and "ia_enabled u (Some aid)" and "ui_ops u = []"
  shows "snd (ia_run uid [(now, IaPress OpAccept (Some aid)), (tb, IaAck), (tc, IaAck)] (u, s)) =
         snd (handleAccept aid uid now s)"
  using assms
  by (auto simp: ia_press_def ia_ack_def ia_finish_def handleAccept_def Let_def split: prod.splits sum.splits)

lemma ia_decline_refines:
  assumes "ia_enabled u (Some aid)" and "ui_ops u = []"
  shows "snd (ia_run uid [(now, IaPress OpDecline (Some aid)), (tb, IaAck)] (u, s)) = snd (handleDecline aid now s)"
  using assms
  by (auto simp: ia_press_def ia_ack_def ia_finish_def handleDecline_def Let_def split: prod.splits sum.splits)

text \<open>
  Claim C23. The alert the dashboard opens cannot be accepted: the dashboard passes the alert's
  data as \<open>alertData\<close>, which has no \<open>id\<close>, so Accept calls
  \<open>handleAccept(undefined)\<close>. The press fails before any write, navigates nowhere and
  leaves single mode; the list listener then subscribes and lists the responder's
  pending alerts, from which the alert can be accepted.
\<close>

theorem route_data_accept_fails:
  assumes "uid \<noteq> []"
  shows "let (u1, s1) = ia_run uid [(ta, IaRoute aid (Some a)), (tb, IaPress OpAccept None)] (ia_ui_init, s)
         in s1 = s \<and> ui_nav u1 = [] \<and> ui_ops u1 = [] \<and> ui_processing u1 = None \<and>
            ia_single (ui_sc u1) = None \<and>
            ia_alerts (ui_sc (ia_listen uid s1 u1)) = pending_for uid s"
  using assms
  by (simp add: ia_ui_init_def ia_init_def ia_route_def ia_enabled_def ia_items_def ia_body_def ia_press_def
      ia_finish_def ia_listen_def ia_snapshot_def Let_def)

lemma ia_listen_init:
  "uid \<noteq> [] \<Longrightarrow> ia_listen uid s ia_ui_init =
     ia_ui_init\<lparr>ui_sc := ia_init\<lparr>ia_alerts := pending_for uid s, ia_seen := map fst (pending_for uid s)\<rparr>,
                ui_loading := False\<rparr>"
  by (simp add: ia_listen_def ia_ui_init_def ia_init_def ia_snapshot_def Let_def)

lemma ia_enabled_listed:
  assumes "\<not> ui_loading u" and "ia_single (ui_sc u) = None" and "(k, a) \<in> set (ia_alerts (ui_sc u))"
    and "ui_processing u \<noteq> Some (Some k)"
  shows "ia_enabled u (Some k)"
proof -
  have "ia_alerts (ui_sc u) \<noteq> []" using assms(3) by auto
  then have "ia_items u = map (\<lambda>(k, a). (Some k, a)) (ia_alerts (ui_sc u))"
    using assms(1,2) by (simp add: ia_items_def ia_body_def)
  then show ?thesis using assms(3,4) by (force simp: ia_enabled_def)
qed

text \<open>
  Accepting a listed alert to the end: the press writes the alert, the first
  acknowledgement issues the responder write, the second asks for the details screen.
\<close>

lemma ia_accept_listed_run:
  assumes uid: "uid \<noteq> []" and en: "ia_enabled u (Some aid)" and ops: "ui_ops u = []"
    and single: "ia_single (ui_sc u) = None"
    and a: "map_of (responders_alerts s) aid = Some a" and r: "map_of (responders s) uid = Some r"
  shows "\<exists>c d. ia_run uid [(ta, IaPress OpAccept (Some aid)), (tb, IaAck), (tc, IaAck)] (u, s) =
           (u\<lparr>ui_processing := None, ui_nav := ui_nav u @ [NavAlertDetails aid]\<rparr>,
            s\<lparr>responders_alerts := c, responders := d\<rparr>) \<and>
           map_of c = (map_of (responders_alerts s))(aid \<mapsto> accept_alert uid ta a) \<and>
           map fst c = map fst (responders_alerts s) \<and>
           map_of d = (map_of (responders s))(uid \<mapsto> r\<lparr>status := Some Busy, assignedEmergency := Some aid\<rparr>) \<and>
           map fst d = map fst (responders s)"
proof -
  obtain c where c: "update_alert aid (accept_alert uid ta) s = (Inr (), s\<lparr>responders_alerts := c\<rparr>)"
      "map_of c = (map_of (responders_alerts s))(aid \<mapsto> accept_alert uid ta a)"
      "map fst c = map fst (responders_alerts s)"
    using update_alert_Inr [OF a] by blast
  have r2: "map_of (responders (s\<lparr>responders_alerts := c\<rparr>)) uid = Some r" using r by simp
  obtain d where d: "update_responder uid (\<lambda>r. r\<lparr>status := Some Busy, assignedEmergency := Some aid\<rparr>)
        (s\<lparr>responders_alerts := c\<rparr>) = (Inr (), s\<lparr>responders_alerts := c, responders := d\<rparr>)"
      "map_of d = (map_of (responders s))(uid \<mapsto> r\<lparr>status := Some Busy, assignedEmergency := Some aid\<rparr>)"
      "map fst d = map fst (responders s)"
    using update_responder_Inr [OF r2] by auto
  have "ia_run uid [(ta, IaPress OpAccept (Some aid)), (tb, IaAck), (tc, IaAck)] (u, s) =
        (u\<lparr>ui_processing := None, ui_nav := ui_nav u @ [NavAlertDetails aid]\<rparr>,
         s\<lparr>responders_alerts := c, responders := d\<rparr>)"
    using uid en ops single c(1) d(1)
    by (simp add: ia_press_def ia_ack_def ia_finish_def Let_def)
  then show ?thesis using c(2,3) d(2,3) by blast
qed

text \<open>
  Claim C22. The list never drops an alert: after the responder accepts a listed alert (both
  writes succeed and the screen asks for the details screen), the next snapshot no
  longer matches it, but the screen still lists it as it was received (pending), and
  its Accept button is enabled again.
\<close>

theorem accepted_alert_stays_listed:
  assumes wf: "coll_wf (responders_alerts s)" and uid: "uid \<noteq> []"
    and a: "map_of (responders_alerts s) aid = Some a" "a_assignedResponder a = Some uid" "a_status a = Pending"
    and r: "map_of (responders s) uid = Some r"
  shows "let (u, s1) = ia_run uid [(t0, IaSnapshot), (t1, IaPress OpAccept (Some aid)),
                                  (t2, IaAck), (t3, IaAck), (t4, IaSnapshot)] (ia_ui_init, s)
         in (aid, a) \<in> set (ia_alerts (ui_sc u)) \<and> ia_enabled u (Some aid) \<and>
            ui_nav u = [NavAlertDetails aid] \<and>
            (\<exists>a'. map_of (responders_alerts s1) aid = Some a' \<and> a_status a' = Accepted)"
proof -
  let ?L = "pending_for uid s"
  let ?sc0 = "ia_init\<lparr>ia_alerts := ?L, ia_seen := map fst ?L\<rparr>"
  let ?u0 = "ia_ui_init\<lparr>ui_sc := ?sc0, ui_loading := False\<rparr>"
  have inL: "(aid, a) \<in> set ?L" using pending_for_mem [OF wf] a by simp
  have en: "ia_enabled ?u0 (Some aid)"
    using inL by (intro ia_enabled_listed) (simp_all add: ia_ui_init_def ia_init_def)
  obtain c d where acc: "ia_run uid [(t1, IaPress OpAccept (Some aid)), (t2, IaAck), (t3, IaAck)] (?u0, s) =
        (?u0\<lparr>ui_processing := None, ui_nav := ui_nav ?u0 @ [NavAlertDetails aid]\<rparr>,
         s\<lparr>responders_alerts := c, responders := d\<rparr>)"
      and c: "map_of c = (map_of (responders_alerts s))(aid \<mapsto> accept_alert uid t1 a)"
    using ia_accept_listed_run [OF uid en _ _ a(1) r, of t1 t2 t3] by (auto simp: ia_ui_init_def ia_init_def)
  let ?s3 = "s\<lparr>responders_alerts := c, responders := d\<rparr>"
  let ?u3 = "?u0\<lparr>ui_nav := [NavAlertDetails aid]\<rparr>"
  have acc3: "ia_run uid [(t1, IaPress OpAccept (Some aid)), (t2, IaAck), (t3, IaAck)] (?u0, s) = (?u3, ?s3)"
    using acc by (simp add: ia_ui_init_def)
  let ?u4 = "ia_listen uid ?s3 ?u3"
  have keep: "(aid, a) \<in> set (ia_alerts (ui_sc ?u4))"
    using inL ia_snapshot_keeps [of ?sc0 uid ?s3] uid by (auto simp: ia_listen_def ia_init_def ia_ui_init_def)
  have en4: "ia_enabled ?u4 (Some aid)"
    using keep uid by (intro ia_enabled_listed) (simp_all add: ia_listen_def ia_ui_init_def ia_init_def ia_snapshot_def Let_def)
  have run: "ia_run uid [(t0, IaSnapshot), (t1, IaPress OpAccept (Some aid)),
                         (t2, IaAck), (t3, IaAck), (t4, IaSnapshot)] (ia_ui_init, s) = (?u4, ?s3)"
    using uid acc3 by (simp add: ia_listen_init)
  show ?thesis
    using run keep en4 c by (simp add: accept_alert_def ia_listen_def ia_ui_init_def)
qed

text \<open>
  Claim C24. \<open>processingId\<close> holds one id, so pressing another alert's button re-enables the
  first one while its handler is still in flight. With two pending alerts, Accept on
  the first, then Decline on the second (which re-enables the first) and Decline on
  the first, pressed before the first write is acknowledged, with the writes settling
  in the order they were issued: the first alert ends declined while the responder is
  busy with it, and the screen goes back twice and then opens the declined alert's
  details.
\<close>

theorem processing_guard_interleaving:
  assumes wf: "coll_wf (responders_alerts s)" and uid: "uid \<noteq> []" and ne: "aid1 \<noteq> aid2"
    and a1: "map_of (responders_alerts s) aid1 = Some a1" "a_assignedResponder a1 = Some uid" "a_status a1 = Pending"
    and a2: "map_of (responders_alerts s) aid2 = Some a2" "a_assignedResponder a2 = Some uid" "a_status a2 = Pending"
    and r: "map_of (responders s) uid = Some r"
  shows "let (u, s') = ia_run uid [(t, IaSnapshot), (t, IaPress OpAccept (Some aid1)), (t, IaPress OpDecline (Some aid2)),
                                  (t, IaPress OpDecline (Some aid1)), (t, IaAck), (t, IaAck), (t, IaAck), (t, IaAck)]
                                 (ia_ui_init, s)
         in ui_nav u = [NavBack, NavBack, NavAlertDetails aid1] \<and>
            (\<exists>b1 b2 r'. map_of (responders_alerts s') aid1 = Some b1 \<and> a_status b1 = Declined \<and>
              map_of (responders_alerts s') aid2 = Some b2 \<and> a_status b2 = Declined \<and>
              map_of (responders s') uid = Some r' \<and> status r' = Some Busy \<and> assignedEmergency r' = Some aid1)"
proof -
  let ?L = "pending_for uid s"
  let ?u0 = "ia_ui_init\<lparr>ui_sc := ia_init\<lparr>ia_alerts := ?L, ia_seen := map fst ?L\<rparr>, ui_loading := False\<rparr>"
  have in1: "(aid1, a1) \<in> set ?L" and in2: "(aid2, a2) \<in> set ?L" using pending_for_mem [OF wf] a1 a2 by simp_all
  obtain c1 where c1: "update_alert aid1 (accept_alert uid t) s = (Inr (), s\<lparr>responders_alerts := c1\<rparr>)"
      "map_of c1 = (map_of (responders_alerts s))(aid1 \<mapsto> accept_alert uid t a1)"
    using update_alert_Inr [OF a1(1)] by blast
  let ?s1 = "s\<lparr>responders_alerts := c1\<rparr>"
  have "map_of (responders_alerts ?s1) aid2 = Some a2" using c1(2) a2(1) ne by simp
  then obtain c2 where c2: "update_alert aid2 (decline_alert t) ?s1 = (Inr (), ?s1\<lparr>responders_alerts := c2\<rparr>)"
      "map_of c2 = (map_of c1)(aid2 \<mapsto> decline_alert t a2)"
    using update_alert_Inr by fastforce
  let ?s2 = "s\<lparr>responders_alerts := c2\<rparr>"
  have "map_of (responders_alerts ?s2) aid1 = Some (accept_alert uid t a1)" using c1(2) c2(2) ne by simp
  then obtain c3 where c3: "update_alert aid1 (decline_alert t) ?s2 = (Inr (), ?s2\<lparr>responders_alerts := c3\<rparr>)"
      "map_of c3 = (map_of c2)(aid1 \<mapsto> decline_alert t (accept_alert uid t a1))"
    using update_alert_Inr by fastforce
  let ?s3 = "s\<lparr>responders_alerts := c3\<rparr>"
  let ?busy = "\<lambda>r. r\<lparr>status := Some Busy, assignedEmergency := Some aid1\<rparr>"
  have "map_of (responders ?s3) uid = Some r" using r by simp
  then obtain d where d: "update_responder uid ?busy ?s3 = (Inr (), ?s3\<lparr>responders := d\<rparr>)"
      "map_of d = (map_of (responders s))(uid \<mapsto> ?busy r)"
    using update_responder_Inr by fastforce
  let ?op = "\<lambda>k a. \<lparr>op_kind = k, op_target = a, op_phase = 0, op_ok = True, op_single = False\<rparr>"
  let ?u3 = "?u0\<lparr>ui_processing := Some (Some aid1),
                 ui_ops := [?op OpAccept aid1, ?op OpDecline aid2, ?op OpDecline aid1]\<rparr>"
  have e1: "ia_enabled ?u0 (Some aid1)" using in1 by (intro ia_enabled_listed) (simp_all add: ia_ui_init_def ia_init_def)
  have e2: "ia_enabled (?u0\<lparr>ui_processing := Some (Some aid1), ui_ops := [?op OpAccept aid1]\<rparr>) (Some aid2)"
    using in2 ne by (intro ia_enabled_listed) (simp_all add: ia_ui_init_def ia_init_def)
  have e3: "ia_enabled (?u0\<lparr>ui_processing := Some (Some aid2), ui_ops := [?op OpAccept aid1, ?op OpDecline aid2]\<rparr>) (Some aid1)"
    using in1 ne by (intro ia_enabled_listed) (simp_all add: ia_ui_init_def ia_init_def)
  have presses: "ia_run uid [(t, IaPress OpAccept (Some aid1)), (t, IaPress OpDecline (Some aid2)),
                             (t, IaPress OpDecline (Some aid1))] (?u0, s) = (?u3, ?s3)"
    using uid e1 e2 e3 c1(1) c2(1) c3(1) by (simp add: ia_press_def ia_ui_init_def ia_init_def Let_def)
  have acks: "ia_run uid [(t, IaAck), (t, IaAck), (t, IaAck), (t, IaAck)] (?u3, ?s3) =
      (?u0\<lparr>ui_nav := [NavBack, NavBack, NavAlertDetails aid1]\<rparr>, ?s3\<lparr>responders := d\<rparr>)"
    using d(1) by (simp add: ia_ack_def ia_finish_def ia_ui_init_def ia_init_def Let_def)
  have "ia_run uid [(t, IaSnapshot)] (ia_ui_init, s) = (?u0, s)" using uid by (simp add: ia_listen_init)
  then have all: "ia_run uid [(t, IaSnapshot), (t, IaPress OpAccept (Some aid1)), (t, IaPress OpDecline (Some aid2)),
                              (t, IaPress OpDecline (Some aid1)), (t, IaAck), (t, IaAck), (t, IaAck), (t, IaAck)]
                             (ia_ui_init, s) =
      (?u0\<lparr>ui_nav := [NavBack, NavBack, NavAlertDetails aid1]\<rparr>, ?s3\<lparr>responders := d\<rparr>)"
    using presses acks by simp
  show ?thesis
    using all c1(2) c2(2) c3(2) d(2) ne
    by (simp add: accept_alert_def decline_alert_def)
qed

subsection \<open>What the screen shows\<close>

text \<open>
  The cards shown are the items the buttons act on, one per item, and a card is
  busy (spinner, buttons disabled) exactly when its alert cannot be pressed.
\<close>

lemma ia_cards_busy:
  "i < length (ia_items u) \<Longrightarrow>
   length (ia_cards u) = length (ia_items u) \<and>
   card_busy (ia_cards u ! i) = (\<not> ia_enabled u (fst (ia_items u ! i)))"
  by (auto simp: ia_cards_def renderAlert_def ia_enabled_def Let_def split: prod.splits)

end
