(* ===== verification/Tracking.thy ===== *)
theory Tracking
  imports Prelude
begin

text \<open>
  The student's tracking screen (\<open>src/Screens/Students/Confirmation.js\<close>, the
  route \<open>EmergencyTracking\<close>). It reads its route parameters, shows a timeline of
  steps and offers a call with the clinic through the 100ms SDK. The timeline is
  driven by a timer effect alone: every 2.5 s the current step is marked done and the
  next one current; the screen never reads the database. The call is modelled by its
  two halves: the press (the guard and \<open>setLoadingCall(true)\<close>) and its settlement,
  whose outcome (token refused, join failed, joined) is decided by the backend and
  the SDK and is an argument. A join is split by when the SDK's \<open>ON_JOIN\<close> event
  arrives relative to the listener, which the code registers only after
  \<open>join\<close> has resolved. Step statuses are the strings \<open>pending\<close>,
  \<open>current\<close>, \<open>done\<close> of the source.
\<close>

datatype step_status = StepPending | StepCurrent | StepDone

record tl_step =
  st_text :: string
  st_status :: step_status

text \<open>The first step's text ends in the ellipsis character, three bytes in UTF-8.\<close>

definition searching_text :: string where
  "searching_text = ''Searching nearest responder'' @ [CHR 0xE2, CHR 0x80, CHR 0xA6]"

text \<open>The initial timeline by report type (lines 26-40).\<close>

definition initial_timeline :: "string \<Rightarrow> tl_step list" where
  "initial_timeline t =
     (if t = ''medical'' \<or> t = ''fire'' then
        [\<lparr>st_text = searching_text, st_status = StepCurrent\<rparr>,
         \<lparr>st_text = ''Responder assigned and notified'', st_status = StepPending\<rparr>]
      else
        [\<lparr>st_text = searching_text, st_status = StepCurrent\<rparr>,
         \<lparr>st_text = ''Responder found: [Name/ID]'', st_status = StepPending\<rparr>,
         \<lparr>st_text = ''Responder notified'', st_status = StepPending\<rparr>,
         \<lparr>st_text = ''Responder is on the way'', st_status = StepPending\<rparr>])"

text \<open>
  The route parameters (lines 20-24); an absent one is \<open>None\<close> and takes the
  destructuring default. A screen opened without parameters has all three absent.
\<close>

record route_params =
  rp_type :: "string option"
  rp_reportId :: "string option"
  rp_contactMethod :: "string option"

record tracking =
  tr_type :: string
  tr_reportId :: "string option"
  tr_contactMethod :: string
  tr_timeline :: "tl_step list"
  tr_stepIndex :: nat
  tr_inCall :: bool
  tr_loadingCall :: bool
  tr_hms :: bool

definition tracking_mount :: "route_params \<Rightarrow> tracking" where
  "tracking_mount p =
     (let t = (case rp_type p of Some x \<Rightarrow> x | None \<Rightarrow> ''security'')
      in \<lparr>tr_type = t, tr_reportId = rp_reportId p,
          tr_contactMethod = (case rp_contactMethod p of Some x \<Rightarrow> x | None \<Rightarrow> ''both''),
          tr_timeline = initial_timeline t, tr_stepIndex = 0,
          tr_inCall = False, tr_loadingCall = False, tr_hms = False\<rparr>)"

text \<open>\<open>newSteps[i].status = st\<close> on the copied array.\<close>

definition mark_step :: "step_status \<Rightarrow> nat \<Rightarrow> tl_step list \<Rightarrow> tl_step list" where
  "mark_step st i ts = ts[i := (ts ! i)\<lparr>st_status := st\<rparr>]"

text \<open>The timeline updater of lines 51-58.\<close>

definition advance_timeline :: "nat \<Rightarrow> tl_step list \<Rightarrow> tl_step list" where
  "advance_timeline i prev =
     (let newSteps = mark_step StepDone i prev
      in if i + 1 < length newSteps then mark_step StepCurrent (i + 1) newSteps else newSteps)"

text \<open>
  The timer effect (lines 48-63): while \<open>stepIndex\<close> is below the timeline's length
  a timer is set, and when it fires the timeline advances and \<open>stepIndex\<close> grows by
  one; otherwise no timer is set (\<open>None\<close>).
\<close>

definition TIMER_MS :: nat where
  "TIMER_MS = 2500"

definition timeline_effect :: "tracking \<Rightarrow> tracking option" where
  "timeline_effect tr =
     (if tr_stepIndex tr < length (tr_timeline tr)
      then Some (tr\<lparr>tr_timeline := advance_timeline (tr_stepIndex tr) (tr_timeline tr),
                    tr_stepIndex := Suc (tr_stepIndex tr)\<rparr>)
      else None)"

text \<open>The chain of timers from a state until no timer is set.\<close>

function timeline_run :: "tracking \<Rightarrow> tracking" where
  "timeline_run tr = (case timeline_effect tr of None \<Rightarrow> tr | Some tr' \<Rightarrow> timeline_run tr')"
  by pat_completeness auto
termination
  by (relation "measure (\<lambda>tr. length (tr_timeline tr) - tr_stepIndex tr)")
     (auto simp: timeline_effect_def advance_timeline_def mark_step_def Let_def split: if_splits)

declare timeline_run.simps [simp del]

text \<open>The screen \<open>ms\<close> milliseconds after it was opened: one timer per 2.5 s.\<close>

definition timeline_tick :: "tracking \<Rightarrow> tracking" where
  "timeline_tick tr = (case timeline_effect tr of None \<Rightarrow> tr | Some tr' \<Rightarrow> tr')"

definition tracking_at :: "nat \<Rightarrow> tracking \<Rightarrow> tracking" where
  "tracking_at ms tr = (timeline_tick ^^ (ms div TIMER_MS)) tr"

text \<open>The title and subtitle by report type (lines 115-135).\<close>

definition getTitle :: "string \<Rightarrow> string" where
  "getTitle t =
     (if t = ''medical'' then ''Medical Emergency Sent''
      else if t = ''fire'' then ''Fire Emergency Sent''
      else ''Security Emergency Sent'')"

definition getSubtitle :: "string \<Rightarrow> string" where
  "getSubtitle t =
     (if t = ''medical'' then ''We are alerting nearby medical responders.''
      else if t = ''fire'' then ''We are alerting nearby fire responders.''
      else ''We are notifying security responders nearby.'')"

subsection \<open>The call with the clinic\<close>

text \<open>
  The call button (lines 183-198) is shown for the contact methods \<open>call\<close> and
  \<open>both\<close> and is disabled while loading or in a call.
\<close>

definition call_enabled :: "tracking \<Rightarrow> bool" where
  "call_enabled tr \<longleftrightarrow>
     (tr_contactMethod tr = ''call'' \<or> tr_contactMethod tr = ''both'') \<and>
     \<not> tr_loadingCall tr \<and> \<not> tr_inCall tr"

text \<open>\<open>startCall\<close> up to its first \<open>await\<close> (lines 66-72): no report id shows an alert.\<close>

definition press_call :: "tracking \<Rightarrow> tracking" where
  "press_call tr = (if \<not> truthy_str (tr_reportId tr) then tr else tr\<lparr>tr_loadingCall := True\<rparr>)"

datatype call_outcome = TokenRefused | JoinFailed | JoinedBeforeListener | JoinedAfterListener

text \<open>
  The rest of \<open>startCall\<close> (lines 73-103): a refused token (\<open>!res.ok\<close>) or a failed
  join is caught; a join stores the instance, and \<open>inCall\<close> is set by the
  \<open>ON_JOIN\<close> listener only if the event arrives after the listener was added. The
  \<open>finally\<close> clears the loading flag on every path.
\<close>

definition settle_call :: "call_outcome \<Rightarrow> tracking \<Rightarrow> tracking" where
  "settle_call out tr =
     (case out of
        TokenRefused \<Rightarrow> tr\<lparr>tr_loadingCall := False\<rparr>
      | JoinFailed \<Rightarrow> tr\<lparr>tr_loadingCall := False\<rparr>
      | JoinedBeforeListener \<Rightarrow> tr\<lparr>tr_hms := True, tr_loadingCall := False\<rparr>
      | JoinedAfterListener \<Rightarrow> tr\<lparr>tr_inCall := True, tr_hms := True, tr_loadingCall := False\<rparr>)"

text \<open>
  The chat button (lines 200-205) is shown for the contact methods \<open>chat\<close> and
  \<open>both\<close> and has no handler; Cancel (lines 207-213) only shows an alert. On
  unmount (lines 107-113) the held 100ms instance, if any, leaves the room.
\<close>

definition chat_shown :: "tracking \<Rightarrow> bool" where
  "chat_shown tr \<longleftrightarrow> tr_contactMethod tr = ''chat'' \<or> tr_contactMethod tr = ''both''"

definition leaves_on_unmount :: "tracking \<Rightarrow> bool" where
  "leaves_on_unmount tr = tr_hms tr"

text \<open>
  What the screen renders (lines 137-219): the title and subtitle of its type, each
  timeline step's text with its status, the call button when the contact method
  offers a call (its content: a spinner while loading, \<open>On Call with Clinic...\<close> in
  a call, else the start label; disabled while loading or in a call), and the chat
  button when it offers a chat.
\<close>

datatype call_label = CallSpinner | CallOnCall | CallStart

record tracking_view =
  tv_title :: string
  tv_subtitle :: string
  tv_steps :: "(string \<times> step_status) list"
  tv_call :: "(call_label \<times> bool) option"
  tv_chat :: bool

definition tracking_render :: "tracking \<Rightarrow> tracking_view" where
  "tracking_render tr =
     \<lparr>tv_title = getTitle (tr_type tr), tv_subtitle = getSubtitle (tr_type tr),
      tv_steps = map (\<lambda>st. (st_text st, st_status st)) (tr_timeline tr),
      tv_call = (if tr_contactMethod tr = ''call'' \<or> tr_contactMethod tr = ''both''
                 then Some (if tr_loadingCall tr then CallSpinner else if tr_inCall tr then CallOnCall else CallStart,
                            tr_loadingCall tr \<or> tr_inCall tr)
                 else None),
      tv_chat = chat_shown tr\<rparr>"

text \<open>
  Cancel Request (lines 207-214) only shows the alert \<open>Cancelled\<close> /
  \<open>Emergency request cancelled.\<close>: the screen state is unchanged and nothing is
  written.
\<close>

definition cancel_request :: "tracking \<Rightarrow> tracking \<times> string \<times> string" where
  "cancel_request tr = (tr, ''Cancelled'', ''Emergency request cancelled.'')"

text \<open>The screen's events in any order: timers, presses of the enabled button, settlements.\<close>

inductive tracking_step :: "tracking \<Rightarrow> tracking \<Rightarrow> bool" where
  timer: "timeline_effect tr = Some tr' \<Longrightarrow> tracking_step tr tr'"
| press: "call_enabled tr \<Longrightarrow> tracking_step tr (press_call tr)"
| settle: "tr_loadingCall tr \<Longrightarrow> tracking_step tr (settle_call out tr)"

inductive_cases tracking_stepE: "tracking_step tr tr'"

inductive tracking_reach :: "route_params \<Rightarrow> tracking \<Rightarrow> bool" where
  mount: "tracking_reach p (tracking_mount p)"
| step: "tracking_reach p tr \<Longrightarrow> tracking_step tr tr' \<Longrightarrow> tracking_reach p tr'"

text \<open>
  The shape of a timeline at step \<open>i\<close> of \<open>n\<close>: the first \<open>i\<close> steps done, step
  \<open>i\<close> current if there is one, the rest pending.
\<close>

definition status_shape :: "nat \<Rightarrow> nat \<Rightarrow> step_status list" where
  "status_shape n i =
     replicate i StepDone @ (if i < n then StepCurrent # replicate (n - Suc i) StepPending else [])"

definition tracking_wf :: "tracking \<Rightarrow> bool" where
  "tracking_wf tr \<longleftrightarrow>
     tr_stepIndex tr \<le> length (tr_timeline tr) \<and>
     map st_text (tr_timeline tr) = map st_text (initial_timeline (tr_type tr)) \<and>
     map st_status (tr_timeline tr) = status_shape (length (tr_timeline tr)) (tr_stepIndex tr)"


subsection \<open>The timeline\<close>

lemma status_shape_length [simp]: "i \<le> n \<Longrightarrow> length (status_shape n i) = n"
  by (simp add: status_shape_def)

lemma status_shape_advance:
  assumes "i < n"
  shows "(let xs = (status_shape n i)[i := StepDone]
          in if i + 1 < n then xs[i + 1 := StepCurrent] else xs) = status_shape n (Suc i)"
proof -
  obtain m where m: "n - Suc i = m" by blast
  have n: "n = Suc i + m" using assms m by simp
  show ?thesis
    by (cases m) (simp_all add: n status_shape_def list_update_append replicate_append_same)
qed

lemma map_status_mark_step [simp]: "map st_status (mark_step st i ts) = (map st_status ts)[i := st]"
  by (simp add: mark_step_def map_update)

lemma map_text_mark_step [simp]: "map st_text (mark_step st i ts) = map st_text ts"
  by (cases "i < length ts") (simp_all add: mark_step_def map_update list_update_beyond, metis list_update_id nth_map)

lemma length_mark_step [simp]: "length (mark_step st i ts) = length ts"
  by (simp add: mark_step_def)

lemma advance_timeline_shape:
  assumes "map st_status ts = status_shape (length ts) i" "i < length ts"
  shows "map st_status (advance_timeline i ts) = status_shape (length ts) (Suc i)"
  using status_shape_advance [OF assms(2)] assms(1)
  by (simp add: advance_timeline_def Let_def split: if_splits)

lemma status_shape_full [simp]: "status_shape n n = replicate n StepDone"
  by (simp add: status_shape_def)

lemma initial_timeline_shape:
  "map st_status (initial_timeline t) = status_shape (length (initial_timeline t)) 0"
  by (simp add: initial_timeline_def status_shape_def)

lemma tracking_wf_mount: "tracking_wf (tracking_mount p)"
  by (simp add: tracking_wf_def tracking_mount_def Let_def initial_timeline_shape)

lemma timeline_effect_Some:
  "timeline_effect tr = Some tr' \<longleftrightarrow>
   tr_stepIndex tr < length (tr_timeline tr) \<and>
   tr' = tr\<lparr>tr_timeline := advance_timeline (tr_stepIndex tr) (tr_timeline tr),
            tr_stepIndex := Suc (tr_stepIndex tr)\<rparr>"
  by (auto simp: timeline_effect_def)

lemma timeline_effect_None: "timeline_effect tr = None \<longleftrightarrow> length (tr_timeline tr) \<le> tr_stepIndex tr"
  by (simp add: timeline_effect_def)

lemma length_advance_timeline [simp]: "length (advance_timeline i ts) = length ts"
  by (simp add: advance_timeline_def Let_def)

lemma text_advance_timeline [simp]: "map st_text (advance_timeline i ts) = map st_text ts"
  by (simp add: advance_timeline_def Let_def)

lemma tracking_wf_effect:
  "tracking_wf tr \<Longrightarrow> timeline_effect tr = Some tr' \<Longrightarrow> tracking_wf tr'"
  by (auto simp: timeline_effect_Some tracking_wf_def advance_timeline_shape)

lemma tracking_wf_tick: "tracking_wf tr \<Longrightarrow> tracking_wf (timeline_tick tr)"
  by (auto simp: timeline_tick_def split: option.split intro: tracking_wf_effect)

lemma call_keeps_timeline [simp]:
  "tr_timeline (press_call tr) = tr_timeline tr" "tr_stepIndex (press_call tr) = tr_stepIndex tr"
  "tr_type (press_call tr) = tr_type tr"
  "tr_timeline (settle_call out tr) = tr_timeline tr" "tr_stepIndex (settle_call out tr) = tr_stepIndex tr"
  "tr_type (settle_call out tr) = tr_type tr"
  by (simp_all add: press_call_def settle_call_def split: call_outcome.split)

lemma tracking_wf_step: "tracking_wf tr \<Longrightarrow> tracking_step tr tr' \<Longrightarrow> tracking_wf tr'"
  using tracking_wf_effect [of tr tr'] by (auto elim!: tracking_stepE simp: tracking_wf_def)

text \<open>
  Claim C30. Type of the screen state: in every state the screen reaches, whatever the
  order of timers, presses and call settlements, the timeline keeps the texts of its
  type, its first \<open>stepIndex\<close> steps are done, the step at \<open>stepIndex\<close> (if any)
  is the only current one and the rest are pending.
\<close>

theorem tracking_reach_wf: "tracking_reach p tr \<Longrightarrow> tracking_wf tr"
  by (induction rule: tracking_reach.induct) (auto intro: tracking_wf_mount tracking_wf_step)


text \<open>
  Claim C31. Termination of the timer chain: from any state the chain of timers ends, with
  no timer set, after exactly \<open>length timeline - stepIndex\<close> firings.
\<close>

theorem timeline_run_ticks:
  "timeline_effect (timeline_run tr) = None \<and>
   timeline_run tr = (timeline_tick ^^ (length (tr_timeline tr) - tr_stepIndex tr)) tr"
proof (induction tr rule: timeline_run.induct)
  case (1 tr)
  show ?case
  proof (cases "timeline_effect tr")
    case None
    then have "length (tr_timeline tr) - tr_stepIndex tr = 0" by (simp add: timeline_effect_None)
    then show ?thesis using None by (simp add: timeline_run.simps [of tr])
  next
    case (Some tr')
    then have "length (tr_timeline tr) - tr_stepIndex tr = Suc (length (tr_timeline tr') - tr_stepIndex tr')"
      by (auto simp: timeline_effect_Some)
    moreover have "timeline_tick tr = tr'" using Some by (simp add: timeline_tick_def)
    moreover have "timeline_run tr = timeline_run tr'" using Some by (simp add: timeline_run.simps [of tr])
    moreover note "1" [OF Some]
    ultimately show ?thesis by (metis funpow_Suc_right comp_apply)
  qed
qed

lemma tick_index:
  "tr_stepIndex tr \<le> length (tr_timeline tr) \<Longrightarrow>
   length (tr_timeline (timeline_tick tr)) = length (tr_timeline tr) \<and>
   tr_stepIndex (timeline_tick tr) = min (length (tr_timeline tr)) (Suc (tr_stepIndex tr))"
  by (auto simp: timeline_tick_def timeline_effect_def)

lemma ticks_index:
  "tracking_wf tr \<Longrightarrow>
   tracking_wf ((timeline_tick ^^ k) tr) \<and>
   length (tr_timeline ((timeline_tick ^^ k) tr)) = length (tr_timeline tr) \<and>
   tr_stepIndex ((timeline_tick ^^ k) tr) = min (length (tr_timeline tr)) (tr_stepIndex tr + k)"
proof (induction k)
  case 0
  then show ?case by (simp add: tracking_wf_def)
next
  case (Suc k)
  then show ?case
    using tick_index [of "(timeline_tick ^^ k) tr"] tracking_wf_tick [of "(timeline_tick ^^ k) tr"]
    by (auto simp: tracking_wf_def)
qed

text \<open>
  Claim C32. Liveness of the timeline: from a well-formed state, once 2.5 s per remaining step
  have passed, every step is shown done (4 steps, 10 s, for a security report).
\<close>

theorem tracking_all_done:
  assumes wf: "tracking_wf tr" and "TIMER_MS * (length (tr_timeline tr) - tr_stepIndex tr) \<le> ms"
  shows "map st_status (tr_timeline (tracking_at ms tr)) = replicate (length (tr_timeline tr)) StepDone"
proof -
  have "length (tr_timeline tr) - tr_stepIndex tr \<le> ms div TIMER_MS"
    using assms(2) by (simp add: TIMER_MS_def less_eq_div_iff_mult_less_eq mult.commute)
  then show ?thesis
    using ticks_index [OF wf, of "ms div TIMER_MS"] by (auto simp: tracking_at_def tracking_wf_def)
qed

lemma four_ticks: "10000 div TIMER_MS = Suc (Suc (Suc (Suc 0)))"
  by (simp add: TIMER_MS_def)

lemma security_timeline_done:
  "rp_type p = Some ''security'' \<Longrightarrow>
   tr_timeline (tracking_at 10000 (tracking_mount p)) =
     map (\<lambda>t. \<lparr>st_text = t, st_status = StepDone\<rparr>)
       [searching_text, ''Responder found: [Name/ID]'', ''Responder notified'', ''Responder is on the way'']"
  unfolding tracking_at_def four_ticks
  by (simp add: tracking_mount_def initial_timeline_def timeline_tick_def
      timeline_effect_def advance_timeline_def mark_step_def)

subsection \<open>The call\<close>

text \<open>
  Ordering of the join: after a press and a successful join, the screen is in the
  call (button disabled) only when \<open>ON_JOIN\<close> arrives after the listener is added.
  When it arrives during \<open>join\<close>, the screen holds the instance but shows the call
  button enabled again, and a second press starts a second join.
\<close>

theorem join_event_order:
  assumes "call_enabled tr" and "truthy_str (tr_reportId tr)"
  shows "tr_loadingCall (press_call tr) \<and>
    (let tr1 = settle_call JoinedAfterListener (press_call tr) in tr_inCall tr1 \<and> tr_hms tr1 \<and> \<not> call_enabled tr1) \<and>
    (let tr2 = settle_call JoinedBeforeListener (press_call tr)
     in tr_hms tr2 \<and> \<not> tr_inCall tr2 \<and> call_enabled tr2 \<and> tr_loadingCall (press_call tr2))"
  using assms by (simp add: call_enabled_def press_call_def settle_call_def)

subsection \<open>What the screen shows\<close>

text \<open>
  The rendered call button is enabled exactly when a press is a step of the screen,
  and a shown button reads \<open>On Call with Clinic...\<close> exactly in a call that is not
  loading.
\<close>

lemma tracking_render_call:
  "tv_call (tracking_render tr) = Some (lbl, disabled) \<Longrightarrow>
   (\<not> disabled \<longleftrightarrow> call_enabled tr) \<and> (lbl = CallOnCall \<longleftrightarrow> tr_inCall tr \<and> \<not> tr_loadingCall tr)"
  by (auto simp: tracking_render_def call_enabled_def split: if_splits)

text \<open>The steps shown in a reached state have the statuses of the timeline's shape.\<close>

lemma tracking_render_steps:
  "tracking_wf tr \<Longrightarrow>
   map snd (tv_steps (tracking_render tr)) = status_shape (length (tr_timeline tr)) (tr_stepIndex tr) \<and>
   map fst (tv_steps (tracking_render tr)) = map st_text (initial_timeline (tr_type tr))"
  by (simp add: tracking_render_def tracking_wf_def comp_def)

end
