(* ===== verification/Routes.thy ===== *)
theory Routes
  imports Prelude
begin

text \<open>
  The app shell (\<open>src/App.js\<close>): the stack navigator's registered route names and
  its initial route, the notification permission setup run on mount, and the handler
  of notification taps. The navigator and the notification service are libraries;
  what is modelled is the code's own decisions. The permission statuses returned by
  Expo are arguments; the setup's result records whether the permission was
  requested and whether it ended granted (\<open>None\<close>: not a device, nothing done).
\<close>

text \<open>The screens registered in \<open>RootNavigator\<close> (lines 83-115), in order.\<close>

definition app_routes :: "string list" where
  "app_routes =
     [''Splash'', ''Welcome'', ''Login'', ''Signup'', ''LoginResponder'', ''SignupResponder'',
      ''dashboard'', ''ResponderDashboard'', ''ResetPassword'', ''ForgotPassword'', ''ProfileScreen'',
      ''EmergencyDetails'', ''EmergencyTracking'', ''MedicalEmergency'', ''FireEmergency'',
      ''AlertDetails'', ''IncomingEmergency'', ''ResponderProfile'', ''ComingSoon'']"

definition initialRouteName :: string where
  "initialRouteName = ''Splash''"

text \<open>\<open>setupNotifications\<close> (lines 46-62).\<close>

definition setupNotifications :: "bool \<Rightarrow> string \<Rightarrow> string \<Rightarrow> (bool \<times> bool) option" where
  "setupNotifications isDevice existingStatus requestedStatus =
     (if \<not> isDevice then None
      else
        (let asked = (existingStatus \<noteq> ''granted'');
             finalStatus = (if asked then requestedStatus else existingStatus)
         in Some (asked, finalStatus = ''granted'')))"

text \<open>
  The tap handler (lines 67-75): for an emergency notification with a signed-in user
  it only logs; no route is opened for any notification.
\<close>

definition notification_tap :: "string option \<Rightarrow> bool \<Rightarrow> string option" where
  "notification_tap dataType signedIn =
     (if dataType = Some ''emergency'' \<and> signedIn then None else None)"

text \<open>
  How a notification received in the foreground is displayed (lines 36-42): with an
  alert and a sound, without a badge.
\<close>

record notification_behavior =
  shouldShowAlert :: bool
  shouldPlaySound :: bool
  shouldSetBadge :: bool

definition handleNotification :: notification_behavior where
  "handleNotification = \<lparr>shouldShowAlert = True, shouldPlaySound = True, shouldSetBadge = False\<rparr>"

text \<open>
  The mount effect of \<open>RootNavigator\<close> (lines 45-80): it starts the permission
  setup and subscribes the tap listener (the second component: subscribed), and its
  cleanup removes the subscription.
\<close>

definition root_mount :: "bool \<Rightarrow> string \<Rightarrow> string \<Rightarrow> (bool \<times> bool) option \<times> bool" where
  "root_mount isDevice existingStatus requestedStatus =
     (setupNotifications isDevice existingStatus requestedStatus, True)"

definition root_cleanup :: "bool \<Rightarrow> bool" where
  "root_cleanup subscribed = False"

text \<open>
  \<open>src/firebaseconfig.js\<close>: the project the app talks to (lines 27-34; the API key
  and app id are opaque constants and are not copied), the auth persistence chosen
  by platform (lines 24 and 39-51: the React Native store on iOS and Android, the
  browser's local storage elsewhere), and the region of the callables (line 58).
\<close>

record firebase_config =
  fc_authDomain :: string
  fc_projectId :: string
  fc_storageBucket :: string
  fc_messagingSenderId :: string

definition firebaseConfig :: firebase_config where
  "firebaseConfig =
     \<lparr>fc_authDomain = ''alertivo-new.firebaseapp.com'', fc_projectId = ''alertivo-new'',
      fc_storageBucket = ''alertivo-new.firebasestorage.app'', fc_messagingSenderId = ''585465920059''\<rparr>"

datatype persistence = ReactNativePersistence | BrowserLocalPersistence

definition isReactNative :: "string \<Rightarrow> bool" where
  "isReactNative os \<longleftrightarrow> os = ''ios'' \<or> os = ''android''"

definition auth_persistence :: "string \<Rightarrow> persistence" where
  "auth_persistence os = (if isReactNative os then ReactNativePersistence else BrowserLocalPersistence)"

definition functions_region :: string where
  "functions_region = ''us-central1''"

subsection \<open>Properties of the shell\<close>

text \<open>
  The route names are distinct, and every route the modelled screens navigate to is
  registered: the dashboard's alert listener and buttons (\<open>IncomingEmergency\<close>,
  \<open>AlertDetails\<close>, \<open>ResponderProfile\<close>), the incoming-alert screen after an
  accept (\<open>AlertDetails\<close>), the signup screen after an account is created
  (\<open>Login\<close>), the profile screen's logout (\<open>Welcome\<close>), and the tracking screen.
\<close>

lemma routes_registered:
  "distinct app_routes \<and> initialRouteName \<in> set app_routes \<and>
   set [''IncomingEmergency'', ''AlertDetails'', ''ResponderProfile'', ''Login'', ''Welcome'', ''EmergencyTracking'']
     \<subseteq> set app_routes"
  by (simp add: app_routes_def initialRouteName_def)

lemma setupNotifications_granted:
  "setupNotifications True e r = Some (asked, granted) \<Longrightarrow>
   asked = (e \<noteq> ''granted'') \<and> granted = (e = ''granted'' \<or> r = ''granted'')"
  by (auto simp: setupNotifications_def Let_def split: if_splits)

text \<open>
  A notification tap opens no screen, whatever its data and whether a user is signed
  in: the handler only logs.
\<close>

lemma tap_opens_no_route: "notification_tap dataType signedIn = None"
  by (simp add: notification_tap_def)

end
