(* ===== verification/Legacy.thy ===== *)
theory Legacy
  imports Backend
begin

text \<open>
  The older copy of the callables in \<open>src/Screens/Shared/fake index.js\<close>. Its
  \<open>createEmergencyReport\<close> (lines 76-158) validates and stores the report as the
  deployed one does, but routes a security report by copying the report itself into
  \<open>responders_alerts\<close>, with no assignment, no \<open>emergencyId\<close>, no
  \<open>assignedResponder\<close> and no push. Its report has no \<open>notes\<close> field. The copy is
  not deployed (its \<open>require\<close> paths point at a \<open>triggers\<close> directory beside it
  that does not exist); it is modelled to compare it with the deployed function. Its
  documents are a record of their own, and its database holds the four collections
  it writes. \<open>additionalInfo\<close> is an opaque object and is not modelled.
\<close>

record legacy_report =
  l_type :: string
  l_location :: report_location
  l_details :: string
  l_urgency :: string
  l_contactMethod :: string
  l_createdByUID :: string
  l_displayCode :: string
  l_createdAt :: time
  l_status :: report_status

record legacy_db =
  l_emergencies :: "(docid, legacy_report) coll"
  l_alerts :: "(docid, legacy_report \<times> time) coll"
  l_clinic :: "(docid, legacy_report \<times> time) coll"
  l_fireDept :: "(docid, legacy_report \<times> time) coll"

text \<open>\<open>newReport\<close> (lines 101-112).\<close>

definition legacy_new_report :: "report_request \<Rightarrow> string \<Rightarrow> report_location \<Rightarrow> string \<Rightarrow> time \<Rightarrow> legacy_report" where
  "legacy_new_report req t loc uid now =
     \<lparr>l_type = t, l_location = loc,
      l_details = str_or (req_details req) '''',
      l_urgency = str_or (req_urgency req) ''medium'',
      l_contactMethod = str_or (req_contactMethod req) ''chat'',
      l_createdByUID = uid,
      l_displayCode = str_or (req_displayCode req) ''ANON'',
      l_createdAt = now, l_status = RepPending\<rparr>"

text \<open>
  The handler (lines 82-157): the check of line 96, the \<open>add\<close> of line 115 under the
  generated id \<open>rid\<close>, and the three independent routing branches of lines 118-150.
\<close>

definition legacy_createEmergencyReport ::
  "report_request \<Rightarrow> docid \<Rightarrow> time \<Rightarrow> legacy_db \<Rightarrow> (docid, legacy_db) result"
where
  "legacy_createEmergencyReport req rid now ls =
     (case (req_type req, req_location req, req_createdByUID req) of
        (Some t, Some loc, Some uid) \<Rightarrow>
          (if t = [] \<or> uid = [] then (Inl ValidationError, ls)
           else
             (let nr = legacy_new_report req t loc uid now;
                  s1 = ls\<lparr>l_emergencies := coll_set (l_emergencies ls) rid nr\<rparr>;
                  s2 = (if t = ''security'' then s1\<lparr>l_alerts := coll_set (l_alerts s1) rid (nr, now)\<rparr> else s1);
                  s3 = (if t = ''medical'' then s2\<lparr>l_clinic := coll_set (l_clinic s2) rid (nr, now)\<rparr> else s2);
                  s4 = (if t = ''fire'' then s3\<lparr>l_fireDept := coll_set (l_fireDept s3) rid (nr, now)\<rparr> else s3)
              in (Inr rid, s4)))
      | _ \<Rightarrow> (Inl ValidationError, ls))"

text \<open>
  The view of a deployed report in the legacy document shape (the fields both
  write), and of the deployed database's report collections.
\<close>

definition legacy_view :: "report \<Rightarrow> legacy_report" where
  "legacy_view r =
     \<lparr>l_type = e_type r, l_location = e_location r, l_details = e_details r,
      l_urgency = e_urgency r, l_contactMethod = e_contactMethod r,
      l_createdByUID = e_createdByUID r, l_displayCode = e_displayCode r,
      l_createdAt = e_createdAt r, l_status = e_status r\<rparr>"

definition reports_view :: "db \<Rightarrow> (docid, legacy_report) coll \<times> (docid, legacy_report \<times> time) coll \<times> (docid, legacy_report \<times> time) coll" where
  "reports_view s =
     (map_values legacy_view (emergencies s),
      map_values (\<lambda>(r, t). (legacy_view r, t)) (clinic s),
      map_values (\<lambda>(r, t). (legacy_view r, t)) (fireDept s))"

definition legacy_reports :: "legacy_db \<Rightarrow> (docid, legacy_report) coll \<times> (docid, legacy_report \<times> time) coll \<times> (docid, legacy_report \<times> time) coll" where
  "legacy_reports ls = (l_emergencies ls, l_clinic ls, l_fireDept ls)"

text \<open>
  The module around the handler (lines 1-75 and 159-160) is the deployed module's:
  the same \<open>onInit\<close> callback (lines 21-36) and the same load-time
  \<open>admin.firestore()\<close> (line 39), \<open>sendOtp\<close> and \<open>verifyOtp\<close> (lines 45-63)
  delegating to the lazily loaded OTP handlers (lines 11-18) with no \<open>catch\<close>, and
  \<open>createEmergencyReport\<close>, whose \<open>catch\<close> rethrows a plain \<open>Error\<close> (lines
  153-156). The copy exports neither \<open>completeEmergency\<close> nor
  \<open>updateResponderHeartbeat\<close>: a call of either finds no function (\<open>None\<close>).
  Its backend state is its database and the OTP gate's collections.
\<close>

record legacy_backend =
  lb_db :: legacy_db
  lb_gate :: otp_state

definition legacy_load :: "nat \<Rightarrow> bool \<Rightarrow> init_action \<times> (error + unit)" where
  "legacy_load apps emulator = (onInit_callback apps emulator, module_load apps)"

definition legacy_invoke :: "env \<Rightarrow> call \<Rightarrow> legacy_backend \<Rightarrow> ((error + response) \<times> legacy_backend) option" where
  "legacy_invoke v c b =
     (case c of
        SendOtp e \<Rightarrow>
          (let (r, g) = sendOtpHandler e None (env_now v) (env_k v) (mail_ok v) (lb_gate b)
           in Some (map_sum id (\<lambda>_. RSuccess) r, b\<lparr>lb_gate := g\<rparr>))
      | VerifyOtp e code pw \<Rightarrow>
          (let (r, g) = verifyOtpHandler e code pw (env_now v) (env_fresh v) (env_pwOk v) (lb_gate b)
           in Some (map_sum id RUid r, b\<lparr>lb_gate := g\<rparr>))
      | CreateEmergencyReport req \<Rightarrow>
          (let (r, s) = legacy_createEmergencyReport req (env_rid v) (env_now v) (lb_db b)
           in Some (rethrow_plain (map_sum id RReport r), b\<lparr>lb_db := s\<rparr>))
      | CompleteEmergency _ _ \<Rightarrow> None
      | UpdateResponderHeartbeat _ _ \<Rightarrow> None)"

subsection \<open>The legacy copy against the deployed function\<close>

lemma legacy_view_new_report [simp]:
  "legacy_view (new_report req t loc uid now) = legacy_new_report req t loc uid now"
  by (simp add: legacy_view_def new_report_def legacy_new_report_def)

lemma legacy_invalid:
  "\<not> valid_request req \<Longrightarrow> legacy_createEmergencyReport req rid now ls = (Inl ValidationError, ls)"
  by (auto simp: legacy_createEmergencyReport_def valid_request_def truthy_str_def split: option.splits)

text \<open>
  Equivalence on the reports: from corresponding databases, the legacy copy and the
  deployed \<open>createEmergencyReport\<close> give the same outcome on every request (the same
  validation, the same id) and leave corresponding report, clinic and fire-department
  collections. They differ only in the security route: the deployed function assigns
  and writes an alert, the legacy copy writes the report into \<open>responders_alerts\<close>.
\<close>

theorem legacy_matches_deployed:
  assumes wf: "db_wf s" and v: "reports_view s = legacy_reports ls"
  shows "fst (legacy_createEmergencyReport req rid now ls) = fst (createEmergencyReport req rid now s) \<and>
     reports_view (snd (createEmergencyReport req rid now s)) =
       legacy_reports (snd (legacy_createEmergencyReport req rid now ls))"
proof (cases "valid_request req")
  case False
  then show ?thesis using v by (simp add: legacy_invalid createEmergencyReport_invalid)
next
  case True
  then obtain t loc uid where f: "req_type req = Some t" "req_location req = Some loc"
      "req_createdByUID req = Some uid" "t \<noteq> []" "uid \<noteq> []"
    by (auto simp: valid_request_def truthy_str_def split: option.splits)
  let ?nr = "new_report req t loc uid now"
  let ?s1 = "s\<lparr>emergencies := coll_set (emergencies s) rid ?nr\<rparr>"
  obtain s2 where r: "(if t = ''security'' then route_security ?nr rid now ?s1 else (Inr (), ?s1)) = (Inr (), s2)"
      "emergencies s2 = emergencies ?s1" "clinic s2 = clinic s" "fireDept s2 = fireDept s"
    using route_security_ok [OF db_wf_add_emergency [OF wf], of ?nr rid now] by (cases "t = ''security''") auto
  have "createEmergencyReport req rid now s = (Inr rid, route_departments ?nr rid now s2)"
    using f r(1) by (simp add: createEmergencyReport_valid_unfold Let_def)
  then show ?thesis
    using f r(2-4) v
    by (simp add: legacy_createEmergencyReport_def Let_def reports_view_def legacy_reports_def route_departments_def)
qed

text \<open>The two callables the copy does not export.\<close>

lemma legacy_invoke_None:
  "legacy_invoke v c lb = None \<longleftrightarrow> (\<exists>u e. c = CompleteEmergency u e) \<or> (\<exists>u l. c = UpdateResponderHeartbeat u l)"
  by (cases c) (auto simp: legacy_invoke_def split: prod.splits)

text \<open>
  Claim C28. The legacy API against the deployed one: from corresponding states (the same OTP
  gate, corresponding report collections), every call the copy exports gives the
  deployed callable's response and leaves corresponding states; the two calls it does
  not export are exactly \<open>completeEmergency\<close> and \<open>updateResponderHeartbeat\<close>.
\<close>

theorem legacy_api_matches_deployed:
  assumes wf: "db_wf (b_db b)" and v: "reports_view (b_db b) = legacy_reports (lb_db lb)"
    and g: "lb_gate lb = b_gate b" and c: "legacy_invoke v c lb = Some (r, lb')"
  shows "r = fst (invoke v c b) \<and> lb_gate lb' = b_gate (snd (invoke v c b)) \<and>
         reports_view (b_db (snd (invoke v c b))) = legacy_reports (lb_db lb')"
proof (cases c)
  case (CreateEmergencyReport req)
  then show ?thesis
    using c g legacy_matches_deployed [OF wf v, of req "env_rid v" "env_now v"]
    by (auto simp: legacy_invoke_def invoke_def on_db_def rethrow_plain_def split: prod.splits sum.splits)
qed (use c g v in \<open>auto simp: legacy_invoke_def invoke_def on_gate_def split: prod.splits\<close>)

end
