(* ===== verification/Preload.thy ===== *)
theory Preload
  imports System
begin

text \<open>
  The preload script \<open>src/uploadResponders.mjs\<close> as a whole (lines 22-46): it reads
  and parses \<open>preload.json\<close>, then writes each responder with \<open>setDoc\<close> under the
  document id \<open>responder.id\<close>, in file order, inside one \<open>try\<close>. The parsed file is
  an argument (\<open>None\<close>: reading or parsing failed); each entry is the responder's
  \<open>id\<close> (\<open>None\<close> when absent) and its document. \<open>doc\<close> throws on an absent or
  empty id, and a \<open>setDoc\<close> that the backend rejects throws (the ids in
  \<open>failing\<close>). The \<open>catch\<close> only logs: the script ends, the documents written
  before the throw stay, and the result says whether the success message was printed.
\<close>

fun upload_loop :: "(docid option \<times> responder) list \<Rightarrow> docid list \<Rightarrow> db \<Rightarrow> bool \<times> db" where
  "upload_loop [] failing s = (True, s)"
| "upload_loop ((None, r) # rs) failing s = (False, s)"
| "upload_loop ((Some k, r) # rs) failing s =
     (if k = [] \<or> k \<in> set failing then (False, s)
      else upload_loop rs failing (s\<lparr>responders := coll_set (responders s) k r\<rparr>))"

definition upload_script :: "(docid option \<times> responder) list option \<Rightarrow> docid list \<Rightarrow> db \<Rightarrow> bool \<times> db" where
  "upload_script file failing s =
     (case file of
        None \<Rightarrow> (False, s)
      | Some rs \<Rightarrow> upload_loop rs failing s)"

text \<open>An entry the loop writes without throwing, and the entries as the loop writes them.\<close>

definition upload_ok :: "docid list \<Rightarrow> docid option \<times> responder \<Rightarrow> bool" where
  "upload_ok failing e =
     (case fst e of None \<Rightarrow> False | Some k \<Rightarrow> k \<noteq> [] \<and> k \<notin> set failing)"

definition upload_entries :: "(docid option \<times> responder) list \<Rightarrow> (docid \<times> responder) list" where
  "upload_entries rs = map (\<lambda>(k, r). (the k, r)) rs"

subsection \<open>The script writes the prefix before the first throw\<close>

lemma upload_loop_prefix:
  "upload_loop rs failing s =
     (list_all (upload_ok failing) rs,
      uploadResponders (upload_entries (takeWhile (upload_ok failing) rs)) s)"
  by (induction rs failing s rule: upload_loop.induct)
     (auto simp: upload_ok_def upload_entries_def uploadResponders_def)

lemma upload_entries_keys:
  "set (map fst (upload_entries (takeWhile P rs))) \<subseteq> set (map fst (upload_entries rs))"
proof -
  have "set (takeWhile P rs) \<subseteq> set rs" by (auto dest: set_takeWhileD)
  then show ?thesis by (force simp: upload_entries_def)
qed

lemma map_of_rev_None:
  "map_of (rev xs) k = None \<longleftrightarrow> k \<notin> set (map fst xs)"
  by (simp add: map_of_eq_None_iff)

text \<open>
  Claim C29. A failed run can be repeated: \<open>setDoc\<close> overwrites, so running the script again
  on the same file without failures stores every responder of the file (the last
  entry of an id wins) and leaves every other document as it was before the first
  run, whatever the first run had written before it stopped.
\<close>

theorem upload_rerun_recovers:
  assumes ok: "list_all (upload_ok []) rs"
  shows "map_of (responders (snd (upload_script (Some rs) [] (snd (upload_script (Some rs) failing s))))) k =
         (case map_of (rev (upload_entries rs)) k of Some r \<Rightarrow> Some r | None \<Rightarrow> map_of (responders s) k)"
proof -
  let ?p = "upload_entries (takeWhile (upload_ok failing) rs)"
  have all: "takeWhile (upload_ok []) rs = rs" using ok by (simp add: list_all_iff)
  have clean: "\<And>t. snd (upload_script (Some rs) [] t) = uploadResponders (upload_entries rs) t"
    by (simp add: upload_script_def upload_loop_prefix all)
  have first: "snd (upload_script (Some rs) failing s) = uploadResponders ?p s"
    by (simp add: upload_script_def upload_loop_prefix)
  show ?thesis
  proof (cases "map_of (rev (upload_entries rs)) k")
    case None
    then have "map_of (rev ?p) k = None"
      using upload_entries_keys [of "upload_ok failing" rs] by (auto simp: map_of_rev_None)
    then show ?thesis using None by (simp add: clean first preload_lookup)
  qed (simp add: clean preload_lookup)
qed

end
