(* ===== verification/Spec2Isabelle.thy ===== *)
theory Spec2Isabelle
  imports Scenarios System Dashboard StudentClient Profile Backend IncomingAlert Tracking Routes Legacy Preload
begin

text \<open>
  Verification development of Alertivo, a campus emergency-dispatch app: a React
  Native client (\<open>src/Screens\<close>, \<open>src/utils\<close>) over a Firestore database and
  Firebase callables (\<open>src/functions/index.js\<close>, \<open>src/functions/triggers/otptriggers.js\<close>).

  \<^bold>\<open>Parts and how they interact.\<close> A student's report goes through the client wrapper
  \<open>reportEmergency\<close> to the callable \<open>createEmergencyReport\<close> (Report Intake), which
  stores it and, for a security report, runs the Nearest-Match Assigner
  (\<open>assignNearestResponder\<close>): a query of the active responders, the nearest one by
  haversine distance marked busy, then the alert written to \<open>responders_alerts\<close>.
  The responder's dashboard listens for its pending alerts; the incoming-alert screen
  accepts or declines; \<open>completeEmergency\<close> releases the responder. The dashboard's
  duty toggle and 30 s heartbeat (\<open>updateResponderHeartbeat\<close>) write the Responder
  Registry, and so do the profile screen and the preload script; the Liveness
  Monitor (\<open>markInactiveResponders\<close>, exported as a callable that nothing in the
  repository schedules or calls) demotes active responders whose last heartbeat is
  older than 3 minutes. After a report the student sees the tracking screen
  (\<open>Confirmation.js\<close>), whose timeline is driven by a timer, not by the database. Separately, the OTP Security Gate
  (\<open>sendOtpHandler\<close>, \<open>verifyOtpHandler\<close>) guards student signup, called by the
  signup screen; as written, both handlers throw at their first line after the input
  check (\<open>db.Timestamp.now()\<close> on the Firestore instance, which has no
  \<open>Timestamp\<close>), so no code is ever sent and no student can sign up. All parts share state only through the database; none of the
  read-then-write sequences is a transaction.

  \<^bold>\<open>Theories.\<close> Each theory's claims are marked \<open>Claim C<n>\<close> in the text before
  them.
  \<^item> \<open>Prelude\<close>: the document store (collections as association lists sorted by
    id, with \<open>set\<close>, \<open>update\<close>, \<open>delete\<close>, \<open>where\<close> and their refinement to
    \<open>map_of\<close>), the error kinds, JavaScript truthiness of inputs.
  \<^item> \<open>Data\<close>: the documents (responder with its profile fields, report, alert) as
    records, the dispatch database \<open>db\<close>, and document updates that fail with
    NOT_FOUND on a missing document.
  \<^item> \<open>Geo\<close>: \<open>getDistance\<close> and \<open>Math.atan2\<close> over reals, and the reverse geocoding
    helper of \<open>src/utils/geocoding.js\<close>.
  \<^item> \<open>Assigner\<close>: \<open>nearest_scan\<close>, the read phase \<open>assign_read\<close> and the write phase
    \<open>assign_write\<close> of \<open>assignNearestResponder\<close>; the pick is nearest and the first
    scanned wins ties (\<open>assign_read_nearest\<close>).
  \<^item> \<open>Intake\<close>: \<open>createEmergencyReport\<close> with routing, with and without a candidate.
  \<^item> \<open>Lifecycle\<close>: \<open>handleAccept\<close>, \<open>handleDecline\<close> (incomingalert.js) and
    \<open>completeEmergency\<close>.
  \<^item> \<open>Registry\<close>: \<open>updateResponderHeartbeat\<close>, and \<open>goActive\<close>/\<open>goInactive\<close>, the
    database effect of the dashboard toggle.
  \<^item> \<open>Liveness\<close>: \<open>markInactiveResponders\<close>, its specification \<open>sweep_spec\<close> and
    the refinement, idempotence and the 3-minute boundary.
  \<^item> \<open>System\<close>: all dispatch operations as one step relation \<open>dispatch_step\<close>, the
    invariant \<open>dispatch_inv\<close> and its preservation by every operation; the handlers
    split at their read/write boundary (\<open>security_finish\<close>, \<open>sweep_after\<close>) for
    interleavings; the effect of the preload loop \<open>uploadResponders\<close>.
  \<^item> \<open>Preload\<close>: the whole script \<open>src/uploadResponders.mjs\<close>
    (\<open>upload_script\<close>): the writes before the first throw are kept, and a rerun
    after a failure ends as a clean run would (\<open>upload_rerun_recovers\<close>).
  \<^item> \<open>Dashboard\<close>: the responder dashboard as a client state machine
    (\<open>dash_step\<close>, sessions \<open>dash_reach\<close> interleaved with any database change),
    its refinement to \<open>goActive\<close>/\<open>goInactive\<close>, its alert listener, its unmount
    cleanup and what it shows.
  \<^item> \<open>IncomingAlert\<close>: the incoming-alert screen as an event machine
    (\<open>ia_step\<close>): the route effect, the list listener, what is shown, the
    \<open>processingId\<close> guard of the buttons, and the handlers as operations whose
    first write is issued at the press (\<open>ia_press\<close>) and whose writes settle in
    the order they were issued (\<open>ia_ack\<close> on a queue of operations in flight),
    between other events; run alone they have the effect of
    \<open>handleAccept\<close>/\<open>handleDecline\<close>. Also the alert cards (\<open>renderAlert\<close>).
  \<^item> \<open>Profile\<close>: the profile screen's fetch, save, image pick, form inputs, logout,
    loading flag and render.
  \<^item> \<open>OtpGate\<close>: the OTP handlers as deployed (\<open>sendOtpHandler\<close>,
    \<open>verifyOtpHandler\<close>: the input check, then the throw of
    \<open>db_Timestamp_now\<close>), whose reachable states are only the empty one
    (\<open>otp_reach_empty\<close>); and the code past the time read
    (\<open>sendOtp_reached\<close>, \<open>verifyOtp_reached\<close>), which the handlers never reach,
    with its round trip, rate window, lockout and invariant as lemmas.
  \<^item> \<open>StudentClient\<close>: \<open>reportEmergency\<close>, the signup screen's handlers, its state and
    inputs as \<open>signup_step\<close>, the error messages it shows, and that no sequence
    of inputs on it signs a student up (\<open>signup_never_registers\<close>).
  \<^item> \<open>Backend\<close>: the exported callables over the dispatch database and the OTP
    gate (\<open>invoke\<close>), the dispatch callables' error rethrow, \<open>sendEmail\<close>, the
    module's initialisation order and the manual test \<open>src/testotp.js\<close>.
  \<^item> \<open>Tracking\<close>: the student's tracking screen: route parameters, the timeline and
    its timer effect (\<open>timeline_effect\<close>, the chain \<open>timeline_run\<close>, the screen at a
    time \<open>tracking_at\<close>), the call with the clinic (\<open>press_call\<close>,
    \<open>settle_call\<close>), the screen's events as \<open>tracking_step\<close> and its shape
    invariant \<open>tracking_wf\<close>, what it renders and its Cancel button.
  \<^item> \<open>Routes\<close>: the route table of \<open>App.js\<close>, its notification permission setup and
    tap handler and their mount effect, the foreground notification display, and the
    configuration of \<open>src/firebaseconfig.js\<close> (project, auth
    persistence by platform, callables' region).
  \<^item> \<open>Legacy\<close>: the older copy of the callables in
    \<open>src/Screens/Shared/fake index.js\<close>: its \<open>createEmergencyReport\<close>, its
    initialisation and its exported API (\<open>legacy_invoke\<close>), and their
    equivalence with the deployed ones on the OTP gate and the report collections
    (\<open>legacy_matches_deployed\<close>, \<open>legacy_api_matches_deployed\<close>).
  \<^item> \<open>Scenarios\<close>: concrete databases and the witnesses of the component theorems.
  \<^item> This theory: the properties that span components (the reachable-state
    invariant, the interleavings, the path of a report to its responder's screen
    and to its acceptance,
    what the tracking screen shows for an unassigned report) and their witnesses.

  \<^bold>\<open>What the lemmas show.\<close> Functional behaviour of every handler on its success
  and error branches; the refinement of the sweep to \<open>sweep_spec\<close> and of the
  dashboard toggle to \<open>goActive\<close>/\<open>goInactive\<close>; the equivalence of the client
  report wrapper with the callable and of the legacy API with the deployed one;
  the path of a security report to an accepted alert across intake, dashboard and
  incoming-alert screen (which takes two presses of Accept); invariants of reachable states (dispatch database,
  dashboard, OTP gate, tracking screen) by rule induction; termination of the tracking
  screen's timer chain and liveness of its timeline and of the sweep (a silent
  responder is demoted by any later invocation); and, as theorems over explicit schedules,
  the behaviours the code gets wrong: the assignment race
  (\<open>interleaved_reports_double_assign\<close>, against the sequential
  \<open>sequential_reports_no_double_pick\<close>), the sweep overwriting a fresh heartbeat,
  a stale profile save undoing a completion, a late permission answer reactivating an
  off-duty responder, acceptance of a non-pending alert, a heartbeat turning a busy
  responder active, the incoming-alert list keeping accepted alerts, the alert the
  dashboard opens failing to be accepted, interleaved accept and decline presses
  leaving the responder busy with a declined alert, a responder who leaves the
  dashboard staying active, the OTP gate failing every request so that no student
  can sign up, and the preload's recovery by a rerun. Of the gate's code past the
  time read, which the program never reaches, the lemmas show the round trip, the
  rate window, the lockout and the verification order it would have.

  \<^bold>\<open>Modelling choices, bounds and termination.\<close> Timestamps are \<open>int\<close>
  milliseconds; a server timestamp is the time argument of the operation. Coordinates
  and distances are reals: floating point rounding and NaN are not modelled. An
  operation returns its outcome (an \<open>error\<close> or a value) with the database, keeping
  the writes made before a throw. Generated ids, the random OTP draw (\<open>k < 900000\<close>,
  as \<open>Math.random() * 900000\<close> floors to), the e-mail and push outcomes, the new
  account id and uploads are arguments. Every loop of the code is a structural
  recursion over a finite snapshot (the scan, the sweep's writes, the preload
  loop), so
  every function is total and no fuel is needed. The one loop that is not a list
  recursion, the tracking screen's chain of timers (each timer re-runs the effect
  by bumping \<open>stepIndex\<close>), is a \<open>function\<close> whose termination measure is
  \<open>length timeline - stepIndex\<close>; its timers are 2.5 s apart and \<open>tracking_at\<close>
  counts them. The dashboard's intervals, the listeners and the
  acknowledgements of the incoming-alert handlers' writes are events of the client
  state machines; the acknowledgements come in the order the writes were issued (the
  Firestore client's order for one client), the rest in any order; a write takes
  effect when it is issued, and timing is not modelled. A signup call is one event (its result comes with
  the press). Sweeps are a list of
  invocation times (\<open>run_sweeps\<close>), because nothing schedules them.

  \<^bold>\<open>Not modelled.\<close> Push and e-mail transport (only the attempted message, or the
  outcome, is recorded), the admin-panel sync of medical reports, the geocoding
  service itself (its reply is an argument), the responder
  verification callables (their implementation is not in the repository, also in
  the legacy copy), the layout and styles of the screens and the navigator itself
  (what each screen shows, its buttons and the route table are modelled), the alerts
  the screens show (an error is modelled by its state effect; the text of an alert
  that is a button's only effect is), the 100ms SDK and the image
  picker (their outcomes are arguments), and the SDK objects created in
  \<open>src/firebaseconfig.js\<close>. \<open>profile.js\<close> as written does not compile (it declares
  \<open>auth\<close> twice); it is modelled as if it did. \<open>otptriggers.js\<close> requires
  \<open>../config/firebaseAdmin\<close>, which is not in the repository; it is taken to export
  the Admin SDK's \<open>admin\<close>.
\<close>

section \<open>Properties of the whole dispatch system\<close>

text \<open>
  Claim C3. Every reachable database satisfies the dispatch invariant: starting from a database
  that satisfies it, any sequence of callables and responder-screen writes, with any
  arguments and outcomes, keeps the collections sorted, keeps every busy responder
  assigned, and keeps every alert tied to a stored security report of the same id and
  to a registered assignee.
\<close>

theorem dispatch_reach_inv:
  assumes "dispatch_reach s0 s" and "dispatch_inv s0"
  shows "dispatch_inv s"
  using assms by (induction rule: dispatch_reach.induct) (auto intro: dispatch_step_inv)

text \<open>
  Claim C9. Two security reports whose assigner reads both run before either write (the
  interleaving the specification's concurrency section describes) are both
  assigned the same responder: both alerts are pending with that assignee, and the
  responder's \<open>assignedEmergency\<close> names only the second report.
\<close>

theorem interleaved_reports_double_assign:
  assumes wf: "db_wf s" and p1: "assign_read (e_location nr1) s = Some k"
    and p2: "assign_read (e_location nr2) s = Some k" and ne: "rid1 \<noteq> rid2"
  shows "\<exists>r a1 a2. map_of (responders s) k = Some r \<and> status r = Some Active \<and>
     map_of (responders_alerts (race_schedule nr1 rid1 nr2 rid2 now s)) rid1 = Some a1 \<and>
     map_of (responders_alerts (race_schedule nr1 rid1 nr2 rid2 now s)) rid2 = Some a2 \<and>
     a_assignedResponder a1 = Some k \<and> a_status a1 = Pending \<and>
     a_assignedResponder a2 = Some k \<and> a_status a2 = Pending \<and>
     map_of (responders (race_schedule nr1 rid1 nr2 rid2 now s)) k =
       Some (r\<lparr>status := Some Busy, assignedEmergency := Some rid2\<rparr>)"
proof -
  obtain r where r: "map_of (responders s) k = Some r" "status r = Some Active"
    using assign_read_Some_active [OF wf p1] by blast
  let ?s2 = "s\<lparr>emergencies := coll_set (coll_set (emergencies s) rid1 nr1) rid2 nr2\<rparr>"
  have r2: "map_of (responders ?s2) k = Some r" using r(1) by simp
  obtain c1 where c1: "security_finish nr1 rid1 now (Some k) ?s2 =
      (Inr (), notify_assignee (Some k) rid1 (?s2\<lparr>responders := c1,
          responders_alerts := coll_set (responders_alerts s) rid1 (new_alert nr1 rid1 (Some k) now)\<rparr>))"
      "map_of c1 = (map_of (responders s))(k \<mapsto> r\<lparr>status := Some Busy, assignedEmergency := Some rid1\<rparr>)"
    using security_finish_assign [OF r2, of nr1 rid1 now] by auto
  let ?s3 = "notify_assignee (Some k) rid1 (?s2\<lparr>responders := c1,
          responders_alerts := coll_set (responders_alerts s) rid1 (new_alert nr1 rid1 (Some k) now)\<rparr>)"
  have r3: "map_of (responders ?s3) k = Some (r\<lparr>status := Some Busy, assignedEmergency := Some rid1\<rparr>)"
    using c1(2) by simp
  obtain c2 where c2: "security_finish nr2 rid2 now (Some k) ?s3 =
      (Inr (), notify_assignee (Some k) rid2 (?s3\<lparr>responders := c2,
          responders_alerts := coll_set (responders_alerts ?s3) rid2 (new_alert nr2 rid2 (Some k) now)\<rparr>))"
      "map_of c2 = (map_of (responders ?s3))(k \<mapsto> r\<lparr>status := Some Busy, assignedEmergency := Some rid2\<rparr>)"
    using security_finish_assign [OF r3, of nr2 rid2 now] by auto
  have run: "race_schedule nr1 rid1 nr2 rid2 now s = notify_assignee (Some k) rid2 (?s3\<lparr>responders := c2,
          responders_alerts := coll_set (responders_alerts ?s3) rid2 (new_alert nr2 rid2 (Some k) now)\<rparr>)"
    using p1 p2 c1(1) c2(1) by (simp add: race_schedule_def Let_def)
  show ?thesis
    using r ne by (simp add: run c2(2) new_alert_def)
qed

text \<open>
  Claim C10. Run one after the other, two reports do not pick the same responder: on the
  database the first report's write phase leaves (the responder it picked marked
  busy), the read phase of the second report, for any location, does not return that
  responder. A later write that makes the responder active again (a heartbeat, going
  on duty, a completion) makes it a candidate again.
\<close>

theorem sequential_reports_no_double_pick:
  assumes wf: "db_wf s" and p1: "assign_read (e_location nr1) s = Some k"
  shows "assign_read e (snd (security_finish nr1 rid1 now (Some k) s)) \<noteq> Some k"
proof
  obtain r where r: "map_of (responders s) k = Some r"
    using assign_read_Some_active [OF wf p1] by blast
  obtain c where c: "security_finish nr1 rid1 now (Some k) s =
      (Inr (), notify_assignee (Some k) rid1 (s\<lparr>responders := c,
          responders_alerts := coll_set (responders_alerts s) rid1 (new_alert nr1 rid1 (Some k) now)\<rparr>))"
      "map_of c k = Some (r\<lparr>status := Some Busy, assignedEmergency := Some rid1\<rparr>)"
      "db_wf (s\<lparr>responders := c,
          responders_alerts := coll_set (responders_alerts s) rid1 (new_alert nr1 rid1 (Some k) now)\<rparr>)"
    using db_wf_security_finish [OF wf r] by blast
  assume "assign_read e (snd (security_finish nr1 rid1 now (Some k) s)) = Some k"
  then have "assign_read e (s\<lparr>responders := c,
          responders_alerts := coll_set (responders_alerts s) rid1 (new_alert nr1 rid1 (Some k) now)\<rparr>) = Some k"
    using c(1) by (simp add: assign_read_def active_responders_def)
  from assign_read_Some_active [OF c(3) this] show False using c(2) by simp
qed

text \<open>
  Claim C12. A heartbeat that lands between the sweep's query and its write loop is lost: the
  responder sent a heartbeat at \<open>th\<close>, yet the sweep, deciding on its snapshot,
  writes it inactive. The code has no last-write-wins comparison of
  \<open>lastHeartbeat\<close>.
\<close>

theorem sweep_overwrites_fresh_heartbeat:
  assumes wf: "db_wf s" and r: "map_of (responders s) k = Some r" "status r = Some Active"
    and stale: "is_stale (now - heartbeatTimeout) r" and k: "k \<noteq> []"
  shows "\<exists>n s'. sweep_after now s (snd (updateResponderHeartbeat (Some k) loc th s)) = (Inr n, s') \<and>
     map_of (responders s') k = Some (mark_inactive now (heartbeat_fields loc th r)) \<and>
     lastHeartbeat (heartbeat_fields loc th r) = Some th"
proof -
  obtain c where c: "updateResponderHeartbeat (Some k) loc th s = (Inr (), s\<lparr>responders := c\<rparr>)"
    "map_of c = (map_of (responders s))(k \<mapsto> heartbeat_fields loc th r)" "map fst c = map fst (responders s)"
    using update_responder_Inr [OF r(1), of "heartbeat_fields loc th"] r(1) k
    by (auto simp: updateResponderHeartbeat_def)
  have cwf: "coll_wf (responders s)" using wf by (simp add: db_wf_def)
  have pres: "\<forall>(j, x) \<in> set (active_responders s). map_of (responders (s\<lparr>responders := c\<rparr>)) j \<noteq> None"
    using active_responders_mem [OF cwf] c(2) by auto
  have "stale_in (now - heartbeatTimeout) (active_responders s) k"
    using active_responders_mem [OF cwf, of k r] r stale by (auto simp: stale_in_def)
  then show ?thesis
    using sweep_writes_spec [OF pres, of now "now - heartbeatTimeout" 0] c
    by (auto simp: sweep_after_def heartbeat_fields_def)
qed

text \<open>
  Claim C21. The dashboard's alert listener only ever opens an alert that exists, is assigned to
  the signed-in responder and is pending, and among those it opens the one with the
  least id (the first of the query's results). The invariant gives that an alert's
  \<open>emergencyId\<close> is its own id, so the screen opens the alert the query found.
\<close>

theorem alert_listener_target:
  assumes inv: "dispatch_inv s" and l: "alert_listener uid d s = Some aid"
  shows "\<exists>a. map_of (responders_alerts s) aid = Some a \<and> a_assignedResponder a = Some uid \<and>
     a_status a = Pending \<and>
     (\<forall>aid' a'. map_of (responders_alerts s) aid' = Some a' \<and> a_assignedResponder a' = Some uid \<and>
        a_status a' = Pending \<longrightarrow> aid \<le> aid')"
proof -
  have wf: "coll_wf (responders_alerts s)" using inv by (simp add: dispatch_inv_def db_wf_def)
  obtain k a rest where q: "coll_where (\<lambda>a. a_assignedResponder a = Some uid \<and> a_status a = Pending)
      (responders_alerts s) = (k, a) # rest" and aid: "aid = (if a_emergencyId a \<noteq> [] then a_emergencyId a else k)"
    using l by (auto simp: alert_listener_def split: if_splits list.splits)
  note h = coll_where_head [OF wf q]
  have "a_emergencyId a = k" using h inv by (auto simp: dispatch_inv_def)
  then have "aid = k" using aid by simp
  then show ?thesis using h by blast
qed

text \<open>
  Claim C13. A profile screen opened while its responder was busy undoes a later completion: the
  report is completed and the responder released, then saving the profile writes the
  stale \<open>busy\<close> status and assignment back. The responder is left busy with a
  completed report, so the next assignment does not pick it, until a later write (a
  heartbeat, going on duty) sets it active again; the sweep only demotes active
  responders and does not release it.
\<close>

theorem stale_profile_reverts_completion:
  assumes wf: "db_wf s" and ids: "uid \<noteq> []" "eid \<noteq> []"
    and r: "map_of (responders s) uid = Some r" "status r = Some Busy" "assignedEmergency r = Some eid"
      "rprofile r = None"
    and e: "map_of (emergencies s) eid = Some e"
  shows "\<exists>s1 s2 ps'. completeEmergency (Some uid) (Some eid) now s = (Inr (), s1) \<and>
     saveChanges uid up (fst (fetchProfile uid ph nm profile_screen_init s)) s1 = (ps', s2) \<and>
     (\<exists>e2 r2. map_of (emergencies s2) eid = Some e2 \<and> e_status e2 = RepCompleted \<and>
        map_of (responders s2) uid = Some r2 \<and> status r2 = Some Busy \<and> assignedEmergency r2 = Some eid) \<and>
     assign_read loc s2 \<noteq> Some uid"
proof -
  obtain c where c: "update_responder uid (release_responder now) s = (Inr (), s\<lparr>responders := c\<rparr>)"
    "map_of c = (map_of (responders s))(uid \<mapsto> release_responder now r)"
    using update_responder_Inr [OF r(1)] by blast
  let ?sa = "s\<lparr>responders := c\<rparr>"
  have ea: "map_of (emergencies ?sa) eid = Some e" using e by simp
  obtain d where d: "update_emergency eid (complete_report now) ?sa = (Inr (), ?sa\<lparr>emergencies := d\<rparr>)"
    "map_of d = (map_of (emergencies s))(eid \<mapsto> complete_report now e)"
    using update_emergency_Inr [OF ea] by auto
  let ?s1 = "?sa\<lparr>emergencies := d\<rparr>"
  have run1: "completeEmergency (Some uid) (Some eid) now s = (Inr (), ?s1)"
    using ids c(1) d(1) by (simp add: completeEmergency_def)
  have wf1: "db_wf ?s1"
    using db_wf_update_emergency [OF db_wf_update_responder [OF wf, of uid "release_responder now"], of eid "complete_report now"]
      c(1) d(1) by simp
  have r1: "map_of (responders ?s1) uid = Some (release_responder now r)" using c(2) by simp
  obtain s2 where s2: "saveChanges uid up (fst (fetchProfile uid ph nm profile_screen_init s)) ?s1 =
      (\<lparr>ps_snapshot = Some r, ps_profile = default_profile, ps_editing = False\<rparr>, s2)"
    "map_of (responders s2) uid = Some ((overlay r (release_responder now r))\<lparr>rprofile := Some default_profile\<rparr>)"
    "emergencies s2 = emergencies ?s1"
    using saveChanges_snapshot [OF ids(1) _ r1, where ps = "fst (fetchProfile uid ph nm profile_screen_init s)" and up = up]
      ids(1) r(1,4) by (simp add: fetchProfile_def profile_screen_init_def default_profile_def, blast)
  have wf2: "db_wf s2"
    using db_wf_saveChanges [OF wf1, of uid up "fst (fetchProfile uid ph nm profile_screen_init s)"] s2(1) by simp
  have st: "status ((overlay r (release_responder now r))\<lparr>rprofile := Some default_profile\<rparr>) = Some Busy"
    "assignedEmergency ((overlay r (release_responder now r))\<lparr>rprofile := Some default_profile\<rparr>) = Some eid"
    using r(2,3) by (simp_all add: overlay_def opt_or_def)
  have "assign_read loc s2 \<noteq> Some uid"
    using assign_read_not_active [OF wf2 s2(2)] st(1) by simp
  then show ?thesis
    using run1 s2 st d(2) by (auto simp: complete_report_def)
qed

text \<open>
  A security report reaches its responder: when the assigner picks \<open>k\<close> and \<open>k\<close> has
  no other pending alert, the report is accepted and the dashboard of \<open>k\<close>, while on
  duty, opens this report's alert.
\<close>

theorem report_reaches_responder:
  assumes wf: "db_wf s"
    and req: "req_type req = Some ''security''" "req_location req = Some loc"
      "req_createdByUID req = Some uid" "uid \<noteq> []"
    and pick: "assign_read loc s = Some k" and k: "k \<noteq> []" and act: "d_isActive d"
    and none: "coll_where (\<lambda>a. a_assignedResponder a = Some k \<and> a_status a = Pending) (responders_alerts s) = []"
  shows "\<exists>s'. createEmergencyReport req rid now s = (Inr rid, s') \<and> alert_listener k d s' = Some rid"
proof -
  let ?a = "new_alert (new_report req ''security'' loc uid now) rid (Some k) now"
  obtain r c where run: "createEmergencyReport req rid now s =
       (Inr rid, notify_assignee (Some k) rid
          (s\<lparr>emergencies := coll_set (emergencies s) rid (new_report req ''security'' loc uid now),
             responders := c, responders_alerts := coll_set (responders_alerts s) rid ?a\<rparr>))"
    using createEmergencyReport_security_run [OF wf req pick, of rid now] by blast
  have q: "coll_where (\<lambda>a. a_assignedResponder a = Some k \<and> a_status a = Pending)
      (coll_set (responders_alerts s) rid ?a) = [(rid, ?a)]"
    by (rule coll_where_set_single [OF none]) (simp add: new_alert_def)
  have "a_emergencyId ?a = rid" by (simp add: new_alert_def)
  then show ?thesis
    using run q k act by (simp add: alert_listener_def)
qed

text \<open>
  Claim C20. From a student's report to an accepted alert, across the components: the report is
  assigned to the nearest responder \<open>k\<close>, whose dashboard opens the incoming-alert
  screen with the alert's data; the first Accept fails (the data has no \<open>id\<close>),
  the list listener then lists the alert, and a second Accept marks it accepted by
  \<open>k\<close>, makes \<open>k\<close> busy with this report and opens its details.
\<close>

theorem report_accepted_on_second_press:
  assumes wf: "db_wf s"
    and req: "req_type req = Some ''security''" "req_location req = Some loc"
      "req_createdByUID req = Some uid" "uid \<noteq> []"
    and pick: "assign_read loc s = Some k" and k: "k \<noteq> []" and act: "d_isActive d"
    and none: "coll_where (\<lambda>a. a_assignedResponder a = Some k \<and> a_status a = Pending) (responders_alerts s) = []"
  shows "\<exists>s1 a. createEmergencyReport req rid now s = (Inr rid, s1) \<and> alert_listener k d s1 = Some rid \<and>
     map_of (responders_alerts s1) rid = Some a \<and>
     ia_items (fst (ia_step k ta (IaRoute (Some rid) (Some a)) (ia_ui_init, s1))) = [(None, a)] \<and>
     (let (u1, s1') = ia_run k [(ta, IaRoute (Some rid) (Some a)), (tb, IaPress OpAccept None)] (ia_ui_init, s1)
      in s1' = s1 \<and> ui_nav u1 = [] \<and>
         (let (u, s2) = ia_run k [(tc, IaSnapshot), (td, IaPress OpAccept (Some rid)), (te, IaAck), (tf, IaAck)] (u1, s1')
          in ui_nav u = [NavAlertDetails rid] \<and>
             (\<exists>a'. map_of (responders_alerts s2) rid = Some a' \<and> a_status a' = Accepted \<and> a_responderUID a' = Some k) \<and>
             (\<exists>r. map_of (responders s2) k = Some r \<and> status r = Some Busy \<and> assignedEmergency r = Some rid)))"
proof -
  let ?a = "new_alert (new_report req ''security'' loc uid now) rid (Some k) now"
  obtain r c where run: "createEmergencyReport req rid now s =
       (Inr rid, notify_assignee (Some k) rid
          (s\<lparr>emergencies := coll_set (emergencies s) rid (new_report req ''security'' loc uid now),
             responders := c, responders_alerts := coll_set (responders_alerts s) rid ?a\<rparr>))"
      and c: "map_of c = (map_of (responders s))(k \<mapsto> r\<lparr>status := Some Busy, assignedEmergency := Some rid\<rparr>)"
    using createEmergencyReport_security_run [OF wf req pick, of rid now] by blast
  define s1 where "s1 = notify_assignee (Some k) rid
          (s\<lparr>emergencies := coll_set (emergencies s) rid (new_report req ''security'' loc uid now),
             responders := c, responders_alerts := coll_set (responders_alerts s) rid ?a\<rparr>)"
  have q: "coll_where (\<lambda>a. a_assignedResponder a = Some k \<and> a_status a = Pending)
      (coll_set (responders_alerts s) rid ?a) = [(rid, ?a)]"
    by (rule coll_where_set_single [OF none]) (simp add: new_alert_def)
  have eid: "a_emergencyId ?a = rid" by (simp add: new_alert_def)
  have listen: "alert_listener k d s1 = Some rid"
    using q k act eid by (simp add: alert_listener_def s1_def)
  have ra: "map_of (responders_alerts s1) rid = Some ?a" by (simp add: s1_def)
  have rk: "map_of (responders s1) k = Some (r\<lparr>status := Some Busy, assignedEmergency := Some rid\<rparr>)"
    using c by (simp add: s1_def)
  have pend: "pending_for k s1 = [(rid, ?a)]" using q by (simp add: pending_for_def s1_def)
  have items: "ia_items (fst (ia_step k ta (IaRoute (Some rid) (Some ?a)) (ia_ui_init, s1))) = [(None, ?a)]"
    by (simp add: ia_ui_init_def ia_init_def ia_route_def ia_items_def ia_body_def)
  have first: "ia_run k [(ta, IaRoute (Some rid) (Some ?a)), (tb, IaPress OpAccept None)] (ia_ui_init, s1) =
      (ia_ui_init\<lparr>ui_loading := False\<rparr>, s1)"
    by (simp add: ia_ui_init_def ia_init_def ia_route_def ia_enabled_def ia_items_def ia_body_def ia_press_def
      ia_finish_def Let_def)
  let ?u = "ia_ui_init\<lparr>ui_sc := ia_init\<lparr>ia_alerts := [(rid, ?a)], ia_seen := [rid]\<rparr>, ui_loading := False\<rparr>"
  have snap: "ia_run k [(tc, IaSnapshot)] (ia_ui_init\<lparr>ui_loading := False\<rparr>, s1) = (?u, s1)"
    using k pend by (simp add: ia_ui_init_def ia_init_def ia_listen_def ia_snapshot_def Let_def)
  have en: "ia_enabled ?u (Some rid)"
    by (rule ia_enabled_listed) (simp_all add: ia_ui_init_def ia_init_def)
  obtain c2 d2 where acc: "ia_run k [(td, IaPress OpAccept (Some rid)), (te, IaAck), (tf, IaAck)] (?u, s1) =
        (?u\<lparr>ui_processing := None, ui_nav := ui_nav ?u @ [NavAlertDetails rid]\<rparr>,
         s1\<lparr>responders_alerts := c2, responders := d2\<rparr>)"
      "map_of c2 = (map_of (responders_alerts s1))(rid \<mapsto> accept_alert k td ?a)"
      "map_of d2 = (map_of (responders s1))(k \<mapsto> r\<lparr>status := Some Busy, assignedEmergency := Some rid\<rparr>\<lparr>status := Some Busy, assignedEmergency := Some rid\<rparr>)"
    using ia_accept_listed_run [OF k en _ _ ra rk, of td te tf] by (auto simp: ia_ui_init_def ia_init_def)
  have second: "ia_run k [(tc, IaSnapshot), (td, IaPress OpAccept (Some rid)), (te, IaAck), (tf, IaAck)]
        (ia_ui_init\<lparr>ui_loading := False\<rparr>, s1) =
      (?u\<lparr>ui_processing := None, ui_nav := ui_nav ?u @ [NavAlertDetails rid]\<rparr>,
       s1\<lparr>responders_alerts := c2, responders := d2\<rparr>)"
    using snap acc(1) by simp
  show ?thesis
    using run listen ra items first second acc(2,3)
    by (simp add: s1_def [symmetric] accept_alert_def ia_ui_init_def)
qed

text \<open>
  The student's tracking screen announces a responder whatever the dispatch did:
  when no active responder has a location, a security report is stored with an
  unassigned alert, and the tracking screen opened for it shows, 10 s later,
  \<open>Responder found\<close> and \<open>Responder is on the way\<close> as done.
\<close>

theorem tracking_shows_found_unassigned:
  assumes req: "req_type req = Some ''security''" "req_location req = Some loc"
      "req_createdByUID req = Some uid" "uid \<noteq> []"
    and none: "\<forall>(k, r) \<in> set (responders s). status r = Some Active \<longrightarrow> loc_of r = None"
  shows "\<exists>s' a. createEmergencyReport req rid now s = (Inr rid, s') \<and>
     map_of (responders_alerts s') rid = Some a \<and> a_assignedResponder a = None \<and>
     (let tl = tr_timeline (tracking_at 10000
                 (tracking_mount \<lparr>rp_type = Some ''security'', rp_reportId = Some rid, rp_contactMethod = cm\<rparr>))
      in \<lparr>st_text = ''Responder found: [Name/ID]'', st_status = StepDone\<rparr> \<in> set tl \<and>
         \<lparr>st_text = ''Responder is on the way'', st_status = StepDone\<rparr> \<in> set tl)"
  using createEmergencyReport_unassigned [OF req none, of rid now]
    security_timeline_done [of "\<lparr>rp_type = Some ''security'', rp_reportId = Some rid, rp_contactMethod = cm\<rparr>"]
  by (simp add: new_alert_def)

text \<open>Every route a button of the dashboard's grid opens is registered in \<open>App.js\<close>.\<close>

lemma dash_routes_registered: "dash_button_route b = Some r \<Longrightarrow> r \<in> set app_routes"
  by (cases b) (auto simp: dash_button_route_def app_routes_def)

subsection \<open>The system properties at concrete databases\<close>

theorem dispatch_reach_inv_witness:
  "dispatch_reach (db_one resp_on_duty) (snd (createEmergencyReport security_request ''e1'' 0 (db_one resp_on_duty))) \<and>
   dispatch_inv (db_one resp_on_duty) \<and>
   dispatch_inv (snd (createEmergencyReport security_request ''e1'' 0 (db_one resp_on_duty)))"
proof -
  have h1: "dispatch_reach (db_one resp_on_duty)
      (snd (createEmergencyReport security_request ''e1'' 0 (db_one resp_on_duty)))"
    by (rule dispatch_reach.step [OF dispatch_reach.refl], rule dispatch_step.create, rule prod.collapse [symmetric])
  have h2: "dispatch_inv (db_one resp_on_duty)"
    using db_wf_db_one by (simp add: dispatch_inv_def busy_assigned_def db_one_def resp_on_duty_def)
  show ?thesis using h1 h2 dispatch_reach_inv [OF h1 h2] by blast
qed

theorem interleaved_reports_double_assign_witness:
  "db_wf (db_one resp_on_duty) \<and> assign_read (e_location report_e1) (db_one resp_on_duty) = Some ''r1'' \<and>
   ''e1'' \<noteq> ''e2'' \<and>
   (\<exists>r a1 a2. map_of (responders (db_one resp_on_duty)) ''r1'' = Some r \<and> status r = Some Active \<and>
     map_of (responders_alerts (race_schedule report_e1 ''e1'' report_e1 ''e2'' 0 (db_one resp_on_duty))) ''e1'' = Some a1 \<and>
     map_of (responders_alerts (race_schedule report_e1 ''e1'' report_e1 ''e2'' 0 (db_one resp_on_duty))) ''e2'' = Some a2 \<and>
     a_assignedResponder a1 = Some ''r1'' \<and> a_status a1 = Pending \<and>
     a_assignedResponder a2 = Some ''r1'' \<and> a_status a2 = Pending \<and>
     map_of (responders (race_schedule report_e1 ''e1'' report_e1 ''e2'' 0 (db_one resp_on_duty))) ''r1'' =
       Some (r\<lparr>status := Some Busy, assignedEmergency := Some ''e2''\<rparr>))"
proof -
  have p: "assign_read (e_location report_e1) (db_one resp_on_duty) = Some ''r1''"
    using assign_read_db_one by (simp add: report_e1_def)
  have ne: "''e1'' \<noteq> ''e2''" by simp
  show ?thesis
    using db_wf_db_one p ne interleaved_reports_double_assign [OF db_wf_db_one p p ne] by blast
qed

theorem sequential_reports_no_double_pick_witness:
  "db_wf (db_one resp_on_duty) \<and> assign_read (e_location report_e1) (db_one resp_on_duty) = Some ''r1'' \<and>
   assign_read gate_location
     (snd (security_finish report_e1 ''e1'' 0 (Some ''r1'') (db_one resp_on_duty))) \<noteq> Some ''r1''"
proof -
  have p: "assign_read (e_location report_e1) (db_one resp_on_duty) = Some ''r1''"
    using assign_read_db_one by (simp add: report_e1_def)
  show ?thesis
    using db_wf_db_one p sequential_reports_no_double_pick [OF db_wf_db_one p] by blast
qed

theorem sweep_overwrites_fresh_heartbeat_witness:
  "db_wf (db_one resp_on_duty) \<and> map_of (responders (db_one resp_on_duty)) ''r1'' = Some resp_on_duty \<and>
   status resp_on_duty = Some Active \<and> is_stale (240000 - heartbeatTimeout) resp_on_duty \<and> ''r1'' \<noteq> [] \<and>
   (\<exists>n s'. sweep_after 240000 (db_one resp_on_duty)
        (snd (updateResponderHeartbeat (Some ''r1'') None 240000 (db_one resp_on_duty))) = (Inr n, s') \<and>
     map_of (responders s') ''r1'' = Some (mark_inactive 240000 (heartbeat_fields None 240000 resp_on_duty)) \<and>
     lastHeartbeat (heartbeat_fields None 240000 resp_on_duty) = Some 240000)"
proof -
  have h: "map_of (responders (db_one resp_on_duty)) ''r1'' = Some resp_on_duty"
    "status resp_on_duty = Some Active" "is_stale (240000 - heartbeatTimeout) resp_on_duty"
    "''r1'' \<noteq> []"
    by (simp_all add: db_one_def resp_on_duty_def is_stale_def last_seen_def heartbeatTimeout_def)
  show ?thesis
    using db_wf_db_one h sweep_overwrites_fresh_heartbeat [OF db_wf_db_one h, of None 240000] by blast
qed

theorem alert_listener_target_witness:
  "dispatch_inv (db_assigned Pending) \<and>
   alert_listener ''r1'' (dash_init\<lparr>d_isActive := True\<rparr>) (db_assigned Pending) = Some ''e1'' \<and>
   (\<exists>a. map_of (responders_alerts (db_assigned Pending)) ''e1'' = Some a \<and>
      a_assignedResponder a = Some ''r1'' \<and> a_status a = Pending)"
proof -
  have h1: "dispatch_inv (db_assigned Pending)"
    using db_wf_db_assigned
    by (simp add: dispatch_inv_def busy_assigned_def db_assigned_def alert_e1_def report_e1_def
                  new_alert_def new_report_def)
  have h2: "alert_listener ''r1'' (dash_init\<lparr>d_isActive := True\<rparr>) (db_assigned Pending) = Some ''e1''"
    by (simp add: alert_listener_def dash_init_def db_assigned_def coll_where_def alert_e1_def new_alert_def)
  show ?thesis using h1 h2 alert_listener_target [OF h1 h2] by blast
qed

theorem inactive_dashboard_no_heartbeat_witness:
  "dash_reach ''r1'' (fst (toggleActive ''r1'' False None 2 (fst (toggleActive ''r1'' False None 1 dash_init (db_one resp_on_duty)))
                         (db_one resp_on_duty)), db_one resp_on_duty) \<and>
   \<not> d_isActive (fst (toggleActive ''r1'' False None 2 (fst (toggleActive ''r1'' False None 1 dash_init (db_one resp_on_duty)))
                         (db_one resp_on_duty))) \<and>
   dash_step ''r1'' 3 HeartbeatTick
     (fst (toggleActive ''r1'' False None 2 (fst (toggleActive ''r1'' False None 1 dash_init (db_one resp_on_duty)))
             (db_one resp_on_duty)), db_one resp_on_duty) =
     (fst (toggleActive ''r1'' False None 2 (fst (toggleActive ''r1'' False None 1 dash_init (db_one resp_on_duty)))
             (db_one resp_on_duty)), db_one resp_on_duty)"
proof -
  let ?d1 = "fst (toggleActive ''r1'' False None 1 dash_init (db_one resp_on_duty))"
  let ?d2 = "fst (toggleActive ''r1'' False None 2 ?d1 (db_one resp_on_duty))"
  have "dash_reach ''r1'' (toggleActive ''r1'' False None 1 dash_init (db_one resp_on_duty))"
    using dash_reach.step [OF dash_reach.init, where now = 1 and ev = "Toggle False None"] by simp
  then have r1: "dash_reach ''r1'' (?d1, db_one resp_on_duty)" by (metis dash_reach.env prod.collapse)
  have "dash_reach ''r1'' (toggleActive ''r1'' False None 2 ?d1 (db_one resp_on_duty))"
    using dash_reach.step [OF r1, where now = 2 and ev = "Toggle False None"] by simp
  then have r2: "dash_reach ''r1'' (?d2, db_one resp_on_duty)" by (metis dash_reach.env prod.collapse)
  have off: "\<not> d_isActive ?d2"
    by (simp add: toggleActive_def dash_init_def startHeartbeat_def stopLiveLocationTracking_def
                  split: prod.splits)
  show ?thesis using r2 off inactive_dashboard_no_heartbeat [OF r2 off, of 3] by blast
qed

theorem dashboard_on_refines_goActive_witness:
  "''r1'' \<noteq> [] \<and>
   snd (dash_step ''r1'' 5 (PermissionResolved True) (dash_step ''r1'' 5 (Toggle False (Some ''tok2'')) (dash_init, db_one resp_on_duty))) =
   snd (goActive ''r1'' (Some ''tok2'') 5 (db_one resp_on_duty))"
  using dashboard_on_refines_goActive [of "''r1''" 5 "Some ''tok2''" "db_one resp_on_duty"] by simp

theorem dashboard_off_refines_goInactive_witness:
  "''r1'' \<noteq> [] \<and> d_isActive (dash_init\<lparr>d_isActive := True\<rparr>) \<and>
   snd (dash_step ''r1'' 5 (Toggle False None) (dash_init\<lparr>d_isActive := True\<rparr>, db_one resp_on_duty)) =
   snd (goInactive ''r1'' 5 (db_one resp_on_duty))"
  using dashboard_off_refines_goInactive [of "''r1''" "dash_init\<lparr>d_isActive := True\<rparr>" 5 False None "db_one resp_on_duty"]
  by simp

theorem late_permission_reactivates_witness:
  "''r1'' \<noteq> [] \<and> map_of (responders (db_one resp_on_duty)) ''r1'' = Some resp_on_duty \<and>
   (let (d1, s1) = dash_step ''r1'' 1 (Toggle False None) (dash_init, db_one resp_on_duty);
        (d2, s2) = dash_step ''r1'' 2 (Toggle False None) (d1, s1);
        (d3, s3) = dash_step ''r1'' 3 (PermissionResolved True) (d2, s2)
    in \<not> d_isActive d3 \<and> d_locTimer d3 \<and> \<not> d_hbTimer d3 \<and>
       (\<exists>r3. map_of (responders s3) ''r1'' = Some r3 \<and> status r3 = Some Active))"
proof -
  have h: "''r1'' \<noteq> []" "map_of (responders (db_one resp_on_duty)) ''r1'' = Some resp_on_duty"
    by (simp_all add: db_one_def)
  show ?thesis using h late_permission_reactivates [OF h, of 1 False None 2 3] by blast
qed

theorem matric_not_sent_witness:
  "js_trim ''19/52HA001'' \<noteq> [] \<and> js_trim ''20/55EF014'' \<noteq> [] \<and>
   handleVerifyAndSignup ''19/52HA001'' student_email ''secret1'' ''123456'' True 0 ''uid1'' True otp_empty =
   handleVerifyAndSignup ''20/55EF014'' student_email ''secret1'' ''123456'' True 0 ''uid1'' True otp_empty"
proof -
  have h: "js_trim ''19/52HA001'' \<noteq> []" "js_trim ''20/55EF014'' \<noteq> []"
    by (simp_all add: js_trim_def js_space_def)
  show ?thesis using h matric_not_sent [OF h] by blast
qed

theorem stale_profile_reverts_completion_witness:
  "db_wf (db_assigned Pending) \<and> ''r1'' \<noteq> [] \<and> ''e1'' \<noteq> [] \<and>
   map_of (responders (db_assigned Pending)) ''r1'' =
     Some (resp_on_duty\<lparr>status := Some Busy, assignedEmergency := Some ''e1''\<rparr>) \<and>
   map_of (emergencies (db_assigned Pending)) ''e1'' = Some report_e1 \<and>
   (\<exists>s1 s2 ps'. completeEmergency (Some ''r1'') (Some ''e1'') 5 (db_assigned Pending) = (Inr (), s1) \<and>
     saveChanges ''r1'' None (fst (fetchProfile ''r1'' [] [] profile_screen_init (db_assigned Pending))) s1 = (ps', s2) \<and>
     (\<exists>e2 r2. map_of (emergencies s2) ''e1'' = Some e2 \<and> e_status e2 = RepCompleted \<and>
        map_of (responders s2) ''r1'' = Some r2 \<and> status r2 = Some Busy \<and> assignedEmergency r2 = Some ''e1'') \<and>
     assign_read gate_location s2 \<noteq> Some ''r1'')"
proof -
  have h: "''r1'' \<noteq> []" "''e1'' \<noteq> []"
    "map_of (responders (db_assigned Pending)) ''r1'' =
       Some (resp_on_duty\<lparr>status := Some Busy, assignedEmergency := Some ''e1''\<rparr>)"
    "status (resp_on_duty\<lparr>status := Some Busy, assignedEmergency := Some ''e1''\<rparr>) = Some Busy"
    "assignedEmergency (resp_on_duty\<lparr>status := Some Busy, assignedEmergency := Some ''e1''\<rparr>) = Some ''e1''"
    "rprofile (resp_on_duty\<lparr>status := Some Busy, assignedEmergency := Some ''e1''\<rparr>) = None"
    "map_of (emergencies (db_assigned Pending)) ''e1'' = Some report_e1"
    by (simp_all add: db_assigned_def resp_on_duty_def)
  show ?thesis
    using db_wf_db_assigned h
      stale_profile_reverts_completion [OF db_wf_db_assigned h, where now = 5 and up = None and ph = "[]"
        and nm = "[]" and loc = gate_location]
    by blast
qed

theorem profile_save_writes_snapshot_witness:
  "''r1'' \<noteq> [] \<and>
   map_of (responders (db_assigned Pending)) ''r1'' =
     Some (resp_on_duty\<lparr>status := Some Busy, assignedEmergency := Some ''e1''\<rparr>) \<and>
   rprofile (resp_on_duty\<lparr>status := Some Busy, assignedEmergency := Some ''e1''\<rparr>) = None \<and>
   map_of (responders (db_one resp_on_duty)) ''r1'' = Some resp_on_duty \<and>
   (\<exists>s'. saveChanges ''r1'' None (fst (fetchProfile ''r1'' [] [] profile_screen_init (db_assigned Pending)))
           (db_one resp_on_duty) =
        (\<lparr>ps_snapshot = Some (resp_on_duty\<lparr>status := Some Busy, assignedEmergency := Some ''e1''\<rparr>),
          ps_profile = default_profile, ps_editing = False\<rparr>, s') \<and>
      map_of (responders s') ''r1'' =
        Some ((overlay (resp_on_duty\<lparr>status := Some Busy, assignedEmergency := Some ''e1''\<rparr>) resp_on_duty)
               \<lparr>rprofile := Some default_profile\<rparr>))"
proof -
  have h: "''r1'' \<noteq> []"
    "map_of (responders (db_assigned Pending)) ''r1'' =
       Some (resp_on_duty\<lparr>status := Some Busy, assignedEmergency := Some ''e1''\<rparr>)"
    "rprofile (resp_on_duty\<lparr>status := Some Busy, assignedEmergency := Some ''e1''\<rparr>) = None"
    "map_of (responders (db_one resp_on_duty)) ''r1'' = Some resp_on_duty"
    by (simp_all add: db_assigned_def db_one_def resp_on_duty_def)
  show ?thesis
    using h profile_save_writes_snapshot [OF h, where up = None and ph = "[]" and nm = "[]"] by blast
qed

theorem preload_establishes_inv_witness:
  "dispatch_inv (db_one resp_on_duty) \<and> busy_assigned resp_on_duty \<and>
   dispatch_inv (uploadResponders [(''r2'', resp_on_duty)] (db_one resp_on_duty))"
proof -
  have h1: "dispatch_inv (db_one resp_on_duty)"
    using db_wf_db_one by (simp add: dispatch_inv_def busy_assigned_def db_one_def resp_on_duty_def)
  have h2: "\<forall>(k, r) \<in> set [(''r2'', resp_on_duty)]. busy_assigned r"
    by (simp add: busy_assigned_def resp_on_duty_def)
  show ?thesis using h1 h2 preload_establishes_inv [OF h1 h2] by simp
qed


theorem dispatch_errors_internal_witness:
  "is_dispatch_call (CreateEmergencyReport (security_request\<lparr>req_type := None\<rparr>)) \<and>
   fst (invoke \<lparr>env_now = 0, env_rid = ''e1'', env_k = 0, env_cfgKey = None,
                env_envKey = None, env_cfgSender = None, env_envSender = None, env_delivered = True,
                env_fresh = ''uid1'', env_pwOk = True\<rparr>
          (CreateEmergencyReport (security_request\<lparr>req_type := None\<rparr>))
          \<lparr>b_db = db_one resp_on_duty, b_gate = otp_empty\<rparr>) = Inl InternalError"
proof -
  have h: "is_dispatch_call (CreateEmergencyReport (security_request\<lparr>req_type := None\<rparr>))"
    "fst (invoke \<lparr>env_now = 0, env_rid = ''e1'', env_k = 0, env_cfgKey = None,
                env_envKey = None, env_cfgSender = None, env_envSender = None, env_delivered = True,
                env_fresh = ''uid1'', env_pwOk = True\<rparr>
          (CreateEmergencyReport (security_request\<lparr>req_type := None\<rparr>))
          \<lparr>b_db = db_one resp_on_duty, b_gate = otp_empty\<rparr>) = Inl InternalError"
    by (simp_all add: is_dispatch_call_def invoke_def on_db_def rethrow_plain_def createEmergencyReport_def)
  show ?thesis using h dispatch_errors_internal [OF h] by blast
qed

theorem report_reaches_responder_witness:
  "db_wf (db_one resp_on_duty) \<and> req_type security_request = Some ''security'' \<and>
   req_location security_request = Some gate_location \<and>
   req_createdByUID security_request = Some ''student1'' \<and> ''student1'' \<noteq> [] \<and>
   assign_read gate_location (db_one resp_on_duty) = Some ''r1'' \<and> ''r1'' \<noteq> [] \<and>
   d_isActive (dash_init\<lparr>d_isActive := True\<rparr>) \<and>
   coll_where (\<lambda>a. a_assignedResponder a = Some ''r1'' \<and> a_status a = Pending)
     (responders_alerts (db_one resp_on_duty)) = [] \<and>
   (\<exists>s'. createEmergencyReport security_request ''e1'' 0 (db_one resp_on_duty) = (Inr ''e1'', s') \<and>
      alert_listener ''r1'' (dash_init\<lparr>d_isActive := True\<rparr>) s' = Some ''e1'')"
proof -
  have req: "req_type security_request = Some ''security''"
    "req_location security_request = Some gate_location"
    "req_createdByUID security_request = Some ''student1''" "''student1'' \<noteq> []"
    by (simp_all add: security_request_def)
  have h: "''r1'' \<noteq> []" "d_isActive (dash_init\<lparr>d_isActive := True\<rparr>)"
    "coll_where (\<lambda>a. a_assignedResponder a = Some ''r1'' \<and> a_status a = Pending)
       (responders_alerts (db_one resp_on_duty)) = []"
    by (simp_all add: db_one_def coll_where_def)
  show ?thesis
    using db_wf_db_one req assign_read_db_one h
      report_reaches_responder [OF db_wf_db_one req assign_read_db_one h, of "''e1''" 0]
    by blast
qed

theorem accepted_alert_stays_listed_witness:
  "coll_wf (responders_alerts (db_assigned Pending)) \<and> ''r1'' \<noteq> [] \<and>
   map_of (responders_alerts (db_assigned Pending)) ''e1'' = Some (alert_e1\<lparr>a_status := Pending\<rparr>) \<and>
   a_assignedResponder (alert_e1\<lparr>a_status := Pending\<rparr>) = Some ''r1'' \<and> a_status (alert_e1\<lparr>a_status := Pending\<rparr>) = Pending \<and>
   map_of (responders (db_assigned Pending)) ''r1'' =
     Some (resp_on_duty\<lparr>status := Some Busy, assignedEmergency := Some ''e1''\<rparr>) \<and>
   (let (u, s1) = ia_run ''r1'' [(1, IaSnapshot), (2, IaPress OpAccept (Some ''e1'')),
                                (3, IaAck), (4, IaAck), (5, IaSnapshot)] (ia_ui_init, db_assigned Pending)
    in (''e1'', alert_e1\<lparr>a_status := Pending\<rparr>) \<in> set (ia_alerts (ui_sc u)) \<and> ia_enabled u (Some ''e1'') \<and>
       ui_nav u = [NavAlertDetails ''e1''] \<and>
       (\<exists>a'. map_of (responders_alerts s1) ''e1'' = Some a' \<and> a_status a' = Accepted))"
proof -
  have h: "coll_wf (responders_alerts (db_assigned Pending))" "''r1'' \<noteq> []"
    "map_of (responders_alerts (db_assigned Pending)) ''e1'' = Some (alert_e1\<lparr>a_status := Pending\<rparr>)"
    "a_assignedResponder (alert_e1\<lparr>a_status := Pending\<rparr>) = Some ''r1''" "a_status (alert_e1\<lparr>a_status := Pending\<rparr>) = Pending"
    "map_of (responders (db_assigned Pending)) ''r1'' =
       Some (resp_on_duty\<lparr>status := Some Busy, assignedEmergency := Some ''e1''\<rparr>)"
    using db_wf_db_assigned
    by (simp_all add: db_wf_def db_assigned_def alert_e1_def new_alert_def)
  show ?thesis using h accepted_alert_stays_listed [OF h, of 1 2 3 4 5] by blast
qed

theorem route_data_accept_fails_witness:
  "''r1'' \<noteq> [] \<and>
   (let (u1, s1) = ia_run ''r1'' [(1, IaRoute (Some ''e1'') (Some alert_e1)), (2, IaPress OpAccept None)]
                     (ia_ui_init, db_assigned Pending)
    in s1 = db_assigned Pending \<and> ui_nav u1 = [] \<and> ui_ops u1 = [] \<and> ui_processing u1 = None \<and>
       ia_single (ui_sc u1) = None \<and>
       ia_alerts (ui_sc (ia_listen ''r1'' s1 u1)) = pending_for ''r1'' (db_assigned Pending))"
  using route_data_accept_fails [where uid = "''r1''" and ta = 1 and aid = "Some ''e1''" and a = alert_e1
      and tb = 2 and s = "db_assigned Pending"]
  by simp

theorem processing_guard_interleaving_witness:
  "coll_wf (responders_alerts db_two_alerts) \<and> ''r1'' \<noteq> [] \<and> ''e1'' \<noteq> ''e2'' \<and>
   map_of (responders_alerts db_two_alerts) ''e1'' = Some alert_e1 \<and>
   a_assignedResponder alert_e1 = Some ''r1'' \<and> a_status alert_e1 = Pending \<and>
   map_of (responders_alerts db_two_alerts) ''e2'' = Some (alert_e1\<lparr>a_emergencyId := ''e2''\<rparr>) \<and>
   a_assignedResponder (alert_e1\<lparr>a_emergencyId := ''e2''\<rparr>) = Some ''r1'' \<and>
   a_status (alert_e1\<lparr>a_emergencyId := ''e2''\<rparr>) = Pending \<and>
   map_of (responders db_two_alerts) ''r1'' = Some resp_on_duty \<and>
   (let (u, s') = ia_run ''r1'' [(7, IaSnapshot), (7, IaPress OpAccept (Some ''e1'')), (7, IaPress OpDecline (Some ''e2'')),
                               (7, IaPress OpDecline (Some ''e1'')), (7, IaAck), (7, IaAck), (7, IaAck), (7, IaAck)]
                               (ia_ui_init, db_two_alerts)
    in ui_nav u = [NavBack, NavBack, NavAlertDetails ''e1''] \<and>
       (\<exists>b1 b2 r'. map_of (responders_alerts s') ''e1'' = Some b1 \<and> a_status b1 = Declined \<and>
         map_of (responders_alerts s') ''e2'' = Some b2 \<and> a_status b2 = Declined \<and>
         map_of (responders s') ''r1'' = Some r' \<and> status r' = Some Busy \<and> assignedEmergency r' = Some ''e1''))"
proof -
  have h: "coll_wf (responders_alerts db_two_alerts)" "''r1'' \<noteq> []" "''e1'' \<noteq> ''e2''"
    "map_of (responders_alerts db_two_alerts) ''e1'' = Some alert_e1"
    "a_assignedResponder alert_e1 = Some ''r1''" "a_status alert_e1 = Pending"
    "map_of (responders_alerts db_two_alerts) ''e2'' = Some (alert_e1\<lparr>a_emergencyId := ''e2''\<rparr>)"
    "a_assignedResponder (alert_e1\<lparr>a_emergencyId := ''e2''\<rparr>) = Some ''r1''"
    "a_status (alert_e1\<lparr>a_emergencyId := ''e2''\<rparr>) = Pending"
    "map_of (responders db_two_alerts) ''r1'' = Some resp_on_duty"
    by (simp_all add: db_two_alerts_def coll_wf_def alert_e1_def new_alert_def)
  show ?thesis using h processing_guard_interleaving [OF h, of 7] by blast
qed

theorem tracking_reach_wf_witness:
  "tracking_reach \<lparr>rp_type = Some ''security'', rp_reportId = Some ''e1'', rp_contactMethod = None\<rparr> (press_call (tracking_mount \<lparr>rp_type = Some ''security'', rp_reportId = Some ''e1'', rp_contactMethod = None\<rparr>)) \<and>
   tracking_wf (press_call (tracking_mount \<lparr>rp_type = Some ''security'', rp_reportId = Some ''e1'', rp_contactMethod = None\<rparr>))"
proof -
  have h: "tracking_reach \<lparr>rp_type = Some ''security'', rp_reportId = Some ''e1'', rp_contactMethod = None\<rparr> (press_call (tracking_mount \<lparr>rp_type = Some ''security'', rp_reportId = Some ''e1'', rp_contactMethod = None\<rparr>))"
    by (rule tracking_reach.step [OF tracking_reach.mount], rule tracking_step.press)
       (simp add: call_enabled_def tracking_mount_def Let_def)
  show ?thesis using h tracking_reach_wf [OF h] by blast
qed

theorem tracking_all_done_witness:
  "tracking_wf (tracking_mount \<lparr>rp_type = Some ''security'', rp_reportId = Some ''e1'', rp_contactMethod = None\<rparr>) \<and>
   TIMER_MS * (length (tr_timeline (tracking_mount \<lparr>rp_type = Some ''security'', rp_reportId = Some ''e1'', rp_contactMethod = None\<rparr>)) - tr_stepIndex (tracking_mount \<lparr>rp_type = Some ''security'', rp_reportId = Some ''e1'', rp_contactMethod = None\<rparr>)) \<le> 10000 \<and>
   map st_status (tr_timeline (tracking_at 10000 (tracking_mount \<lparr>rp_type = Some ''security'', rp_reportId = Some ''e1'', rp_contactMethod = None\<rparr>))) =
     replicate (length (tr_timeline (tracking_mount \<lparr>rp_type = Some ''security'', rp_reportId = Some ''e1'', rp_contactMethod = None\<rparr>))) StepDone"
proof -
  have h: "TIMER_MS * (length (tr_timeline (tracking_mount \<lparr>rp_type = Some ''security'', rp_reportId = Some ''e1'', rp_contactMethod = None\<rparr>)) - tr_stepIndex (tracking_mount \<lparr>rp_type = Some ''security'', rp_reportId = Some ''e1'', rp_contactMethod = None\<rparr>)) \<le> 10000"
    by (simp add: TIMER_MS_def tracking_mount_def initial_timeline_def Let_def)
  show ?thesis using tracking_all_done [OF tracking_wf_mount h] tracking_wf_mount h by blast
qed

theorem join_event_order_witness:
  "call_enabled (tracking_mount \<lparr>rp_type = Some ''security'', rp_reportId = Some ''e1'', rp_contactMethod = None\<rparr>) \<and> truthy_str (tr_reportId (tracking_mount \<lparr>rp_type = Some ''security'', rp_reportId = Some ''e1'', rp_contactMethod = None\<rparr>)) \<and>
   tr_loadingCall (press_call (tracking_mount \<lparr>rp_type = Some ''security'', rp_reportId = Some ''e1'', rp_contactMethod = None\<rparr>)) \<and>
   (let tr2 = settle_call JoinedBeforeListener (press_call (tracking_mount \<lparr>rp_type = Some ''security'', rp_reportId = Some ''e1'', rp_contactMethod = None\<rparr>))
    in tr_hms tr2 \<and> \<not> tr_inCall tr2 \<and> call_enabled tr2 \<and> tr_loadingCall (press_call tr2))"
proof -
  have h: "call_enabled (tracking_mount \<lparr>rp_type = Some ''security'', rp_reportId = Some ''e1'', rp_contactMethod = None\<rparr>)" "truthy_str (tr_reportId (tracking_mount \<lparr>rp_type = Some ''security'', rp_reportId = Some ''e1'', rp_contactMethod = None\<rparr>))"
    by (simp_all add: call_enabled_def tracking_mount_def truthy_str_def Let_def)
  show ?thesis using join_event_order [OF h] h by (simp add: Let_def)
qed

theorem silent_responder_demoted_witness:
  "db_wf (db_one resp_on_duty) \<and> map_of (responders (db_one resp_on_duty)) ''r1'' = Some resp_on_duty \<and>
   status resp_on_duty = Some Active \<and> last_seen resp_on_duty = Some 0 \<and>
   (200000::int) \<in> set [60000, 200000] \<and> 0 + heartbeatTimeout < 200000 \<and>
   (\<exists>r'. map_of (responders (run_sweeps [60000, 200000] (db_one resp_on_duty))) ''r1'' = Some r' \<and>
     status r' = Some Inactive)"
proof -
  have h: "map_of (responders (db_one resp_on_duty)) ''r1'' = Some resp_on_duty"
    "status resp_on_duty = Some Active" "last_seen resp_on_duty = Some 0"
    "(200000::int) \<in> set [60000, 200000]" "0 + heartbeatTimeout < 200000"
    by (simp_all add: db_one_def resp_on_duty_def last_seen_def heartbeatTimeout_def)
  show ?thesis using silent_responder_demoted [OF db_wf_db_one h] db_wf_db_one h by blast
qed

theorem tracking_shows_found_unassigned_witness:
  "req_type security_request = Some ''security'' \<and>
   req_location security_request = Some gate_location \<and>
   req_createdByUID security_request = Some ''student1'' \<and> ''student1'' \<noteq> [] \<and>
   (\<exists>s' a. createEmergencyReport security_request ''e1'' 0 (db_one (resp_on_duty\<lparr>status := Some Inactive\<rparr>))
       = (Inr ''e1'', s') \<and>
     map_of (responders_alerts s') ''e1'' = Some a \<and> a_assignedResponder a = None \<and>
     (let tl = tr_timeline (tracking_at 10000 (tracking_mount \<lparr>rp_type = Some ''security'', rp_reportId = Some ''e1'', rp_contactMethod = None\<rparr>))
      in \<lparr>st_text = ''Responder found: [Name/ID]'', st_status = StepDone\<rparr> \<in> set tl \<and>
         \<lparr>st_text = ''Responder is on the way'', st_status = StepDone\<rparr> \<in> set tl))"
proof -
  have req: "req_type security_request = Some ''security''"
    "req_location security_request = Some gate_location"
    "req_createdByUID security_request = Some ''student1''" "''student1'' \<noteq> []"
    by (simp_all add: security_request_def)
  have none: "\<forall>(k, r) \<in> set (responders (db_one (resp_on_duty\<lparr>status := Some Inactive\<rparr>))).
      status r = Some Active \<longrightarrow> loc_of r = None"
    by (simp add: db_one_def)
  show ?thesis
    using req tracking_shows_found_unassigned [OF req none, of "''e1''" 0 None] by blast
qed


theorem unmounted_dashboard_stays_active_witness:
  "let (d1, s1) = dash_step ''r1'' 1 (Toggle False None) (dash_init, db_one resp_on_duty);
       (d2, s2) = dash_step ''r1'' 2 (PermissionResolved True) (d1, s1);
       (d3, s3) = dash_run ''r1'' [(10, HeartbeatTick), (20, LocationFix (Some campus))] (dash_step ''r1'' 3 Unmount (d2, s2))
   in s3 = s2 \<and> \<not> d_hbTimer d3 \<and> \<not> d_locTimer d3 \<and>
      (\<exists>r2. map_of (responders s3) ''r1'' = Some r2 \<and> status r2 = Some Active)"
proof -
  have h: "''r1'' \<noteq> []" "map_of (responders (db_one resp_on_duty)) ''r1'' = Some resp_on_duty"
    "\<forall>(t, e) \<in> set [(10::int, HeartbeatTick), (20, LocationFix (Some campus))].
       e = HeartbeatTick \<or> (\<exists>f. e = LocationFix f)"
    by (simp_all add: db_one_def)
  show ?thesis
    using unmounted_dashboard_stays_active [OF h, where ta = 1 and tb = 2 and tc = 3 and tok = None] .
qed

theorem report_accepted_on_second_press_witness:
  "db_wf (db_one resp_on_duty) \<and> req_type security_request = Some ''security'' \<and>
   req_location security_request = Some gate_location \<and>
   req_createdByUID security_request = Some ''student1'' \<and> ''student1'' \<noteq> [] \<and>
   assign_read gate_location (db_one resp_on_duty) = Some ''r1'' \<and> ''r1'' \<noteq> [] \<and>
   d_isActive (dash_init\<lparr>d_isActive := True\<rparr>) \<and>
   coll_where (\<lambda>a. a_assignedResponder a = Some ''r1'' \<and> a_status a = Pending)
     (responders_alerts (db_one resp_on_duty)) = [] \<and>
   (\<exists>s1 a. createEmergencyReport security_request ''e1'' 0 (db_one resp_on_duty) = (Inr ''e1'', s1) \<and>
     alert_listener ''r1'' (dash_init\<lparr>d_isActive := True\<rparr>) s1 = Some ''e1'' \<and>
     map_of (responders_alerts s1) ''e1'' = Some a \<and>
     ia_items (fst (ia_step ''r1'' 0 (IaRoute (Some ''e1'') (Some a)) (ia_ui_init, s1))) = [(None, a)] \<and>
     (let (u1, s1') = ia_run ''r1'' [(0, IaRoute (Some ''e1'') (Some a)), (1, IaPress OpAccept None)] (ia_ui_init, s1)
      in s1' = s1 \<and> ui_nav u1 = [] \<and>
         (let (u, s2) = ia_run ''r1'' [(2, IaSnapshot), (3, IaPress OpAccept (Some ''e1'')), (4, IaAck), (5, IaAck)] (u1, s1')
          in ui_nav u = [NavAlertDetails ''e1''] \<and>
             (\<exists>a'. map_of (responders_alerts s2) ''e1'' = Some a' \<and> a_status a' = Accepted \<and> a_responderUID a' = Some ''r1'') \<and>
             (\<exists>r. map_of (responders s2) ''r1'' = Some r \<and> status r = Some Busy \<and> assignedEmergency r = Some ''e1''))))"
proof -
  have req: "req_type security_request = Some ''security''"
    "req_location security_request = Some gate_location"
    "req_createdByUID security_request = Some ''student1''" "''student1'' \<noteq> []"
    by (simp_all add: security_request_def)
  have h: "''r1'' \<noteq> []" "d_isActive (dash_init\<lparr>d_isActive := True\<rparr>)"
    "coll_where (\<lambda>a. a_assignedResponder a = Some ''r1'' \<and> a_status a = Pending)
       (responders_alerts (db_one resp_on_duty)) = []"
    by (simp_all add: db_one_def coll_where_def)
  show ?thesis
    using db_wf_db_one req assign_read_db_one h
      report_accepted_on_second_press [OF db_wf_db_one req assign_read_db_one h,
        where rid = "''e1''" and now = 0 and ta = 0 and tb = 1 and tc = 2 and td = 3 and te = 4 and tf = 5]
    by blast
qed

theorem legacy_api_matches_deployed_witness:
  "db_wf (b_db \<lparr>b_db = db_one resp_on_duty, b_gate = otp_empty\<rparr>) \<and>
   reports_view (b_db \<lparr>b_db = db_one resp_on_duty, b_gate = otp_empty\<rparr>) =
     legacy_reports (lb_db \<lparr>lb_db = \<lparr>l_emergencies = [], l_alerts = [], l_clinic = [], l_fireDept = []\<rparr>,
                             lb_gate = otp_empty\<rparr>) \<and>
   lb_gate \<lparr>lb_db = \<lparr>l_emergencies = [], l_alerts = [], l_clinic = [], l_fireDept = []\<rparr>, lb_gate = otp_empty\<rparr> =
     b_gate \<lparr>b_db = db_one resp_on_duty, b_gate = otp_empty\<rparr> \<and>
   (\<exists>r lb'.
      legacy_invoke
        \<lparr>env_now = 0, env_rid = ''e1'', env_k = 0, env_cfgKey = None,
         env_envKey = None, env_cfgSender = None, env_envSender = None, env_delivered = True,
         env_fresh = ''uid1'', env_pwOk = True\<rparr>
        (CreateEmergencyReport (security_request\<lparr>req_type := Some ''medical''\<rparr>))
        \<lparr>lb_db = \<lparr>l_emergencies = [], l_alerts = [], l_clinic = [], l_fireDept = []\<rparr>, lb_gate = otp_empty\<rparr> =
        Some (r, lb') \<and>
      r = fst (invoke
        \<lparr>env_now = 0, env_rid = ''e1'', env_k = 0, env_cfgKey = None,
         env_envKey = None, env_cfgSender = None, env_envSender = None, env_delivered = True,
         env_fresh = ''uid1'', env_pwOk = True\<rparr>
        (CreateEmergencyReport (security_request\<lparr>req_type := Some ''medical''\<rparr>))
        \<lparr>b_db = db_one resp_on_duty, b_gate = otp_empty\<rparr>) \<and>
      lb_gate lb' = b_gate (snd (invoke
        \<lparr>env_now = 0, env_rid = ''e1'', env_k = 0, env_cfgKey = None,
         env_envKey = None, env_cfgSender = None, env_envSender = None, env_delivered = True,
         env_fresh = ''uid1'', env_pwOk = True\<rparr>
        (CreateEmergencyReport (security_request\<lparr>req_type := Some ''medical''\<rparr>))
        \<lparr>b_db = db_one resp_on_duty, b_gate = otp_empty\<rparr>)) \<and>
      reports_view (b_db (snd (invoke
        \<lparr>env_now = 0, env_rid = ''e1'', env_k = 0, env_cfgKey = None,
         env_envKey = None, env_cfgSender = None, env_envSender = None, env_delivered = True,
         env_fresh = ''uid1'', env_pwOk = True\<rparr>
        (CreateEmergencyReport (security_request\<lparr>req_type := Some ''medical''\<rparr>))
        \<lparr>b_db = db_one resp_on_duty, b_gate = otp_empty\<rparr>))) = legacy_reports (lb_db lb'))"
proof -
  have wf: "db_wf (b_db \<lparr>b_db = db_one resp_on_duty, b_gate = otp_empty\<rparr>)"
    using db_wf_db_one by simp
  have v: "reports_view (b_db \<lparr>b_db = db_one resp_on_duty, b_gate = otp_empty\<rparr>) =
     legacy_reports (lb_db \<lparr>lb_db = \<lparr>l_emergencies = [], l_alerts = [], l_clinic = [], l_fireDept = []\<rparr>,
                             lb_gate = otp_empty\<rparr>)"
    by (simp add: reports_view_def legacy_reports_def map_values_def db_one_def)
  have g: "lb_gate \<lparr>lb_db = \<lparr>l_emergencies = [], l_alerts = [], l_clinic = [], l_fireDept = []\<rparr>, lb_gate = otp_empty\<rparr> =
     b_gate \<lparr>b_db = db_one resp_on_duty, b_gate = otp_empty\<rparr>" by simp
  obtain r lb' where run: "legacy_invoke
        \<lparr>env_now = 0, env_rid = ''e1'', env_k = 0, env_cfgKey = None,
         env_envKey = None, env_cfgSender = None, env_envSender = None, env_delivered = True,
         env_fresh = ''uid1'', env_pwOk = True\<rparr>
        (CreateEmergencyReport (security_request\<lparr>req_type := Some ''medical''\<rparr>))
        \<lparr>lb_db = \<lparr>l_emergencies = [], l_alerts = [], l_clinic = [], l_fireDept = []\<rparr>, lb_gate = otp_empty\<rparr> =
        Some (r, lb')"
    by (simp add: legacy_invoke_def split_beta)
  show ?thesis using wf v g run legacy_api_matches_deployed [OF wf v g run] by blast
qed

theorem upload_rerun_recovers_witness:
  "list_all (upload_ok []) [(Some ''r1'', resp_on_duty), (Some ''r2'', resp_on_duty)] \<and>
   map_of (responders (snd (upload_script (Some [(Some ''r1'', resp_on_duty), (Some ''r2'', resp_on_duty)]) [] (snd (upload_script (Some [(Some ''r1'', resp_on_duty), (Some ''r2'', resp_on_duty)]) [''r2''] (db_one resp_on_duty)))))) ''r2'' =
   (case map_of (rev (upload_entries [(Some ''r1'', resp_on_duty), (Some ''r2'', resp_on_duty)])) ''r2'' of Some r \<Rightarrow> Some r | None \<Rightarrow> map_of (responders (db_one resp_on_duty)) ''r2'')"
proof -
  have h: "list_all (upload_ok []) [(Some ''r1'', resp_on_duty), (Some ''r2'', resp_on_duty)]"
    by (simp add: upload_ok_def)
  show ?thesis using h upload_rerun_recovers [OF h, of "[''r2'']" "db_one resp_on_duty" "''r2''"] by blast
qed

theorem otp_reach_empty_witness:
  "otp_reach (snd (sendOtpHandler (Some student_email) None 0 23456 True otp_empty)) \<and>
   snd (sendOtpHandler (Some student_email) None 0 23456 True otp_empty) = otp_empty"
proof -
  have r: "otp_reach (snd (sendOtpHandler (Some student_email) None 0 23456 True otp_empty))"
    using otp_reach.send [OF otp_reach.start, of "Some student_email" None 0 23456 True
        "fst (sendOtpHandler (Some student_email) None 0 23456 True otp_empty)"
        "snd (sendOtpHandler (Some student_email) None 0 23456 True otp_empty)"] by simp
  show ?thesis using r otp_reach_empty [OF r] by blast
qed

theorem signup_never_registers_witness:
  "\<not> sf_otpSent signup_init \<and> \<not> sf_toLogin signup_init \<and>
   \<not> sf_otpSent (fst (signup_run [(0, SetEmail student_email), (1, PressSend 23456 True), (2, SetOtp ''123456''), (3, SetMatric ''19/52HA001''), (4, SetPassword ''secret1''), (5, SetChecked True), (6, PressSignup ''uid1'' True)] (signup_init, otp_empty))) \<and>
   \<not> sf_toLogin (fst (signup_run [(0, SetEmail student_email), (1, PressSend 23456 True), (2, SetOtp ''123456''), (3, SetMatric ''19/52HA001''), (4, SetPassword ''secret1''), (5, SetChecked True), (6, PressSignup ''uid1'' True)] (signup_init, otp_empty))) \<and>
   sf_otp (fst (signup_run [(0, SetEmail student_email), (1, PressSend 23456 True), (2, SetOtp ''123456''), (3, SetMatric ''19/52HA001''), (4, SetPassword ''secret1''), (5, SetChecked True), (6, PressSignup ''uid1'' True)] (signup_init, otp_empty))) = sf_otp signup_init \<and>
   snd (signup_run [(0, SetEmail student_email), (1, PressSend 23456 True), (2, SetOtp ''123456''), (3, SetMatric ''19/52HA001''), (4, SetPassword ''secret1''), (5, SetChecked True), (6, PressSignup ''uid1'' True)] (signup_init, otp_empty)) = otp_empty"
proof -
  have h: "\<not> sf_otpSent signup_init" "\<not> sf_toLogin signup_init" by (simp_all add: signup_init_def)
  show ?thesis using h signup_never_registers [OF h, of "[(0, SetEmail student_email), (1, PressSend 23456 True), (2, SetOtp ''123456''), (3, SetMatric ''19/52HA001''), (4, SetPassword ''secret1''), (5, SetChecked True), (6, PressSignup ''uid1'' True)]" otp_empty] by blast
qed

end
